theory Spec2Isabelle
  imports Complex_Main "HOL-Library.Word"
begin

section \<open>cx\_ColorLines: data model\<close>

text \<open>
  Shallow embedding of \<^verbatim>\<open>src/plugins/cx_ColorLines/ColorLines.cpp\<close>.

  Conventions of the embedding.
  \<^item> \<^verbatim>\<open>A_u_char\<close> and \<^verbatim>\<open>A_u_short\<close> channels are \<open>8 word\<close> and \<open>16 word\<close>.
  \<^item> \<^verbatim>\<open>A_long\<close> (32-bit signed) is \<open>int\<close>: every \<^verbatim>\<open>A_long\<close> of the engine is a
    coordinate, a radius of at most 50, a table index or a squared channel distance
    (at most \<open>3 * 255\<^sup>2\<close>, lemma \<open>distSq8_fits_A_long\<close>), so no operation wraps.
  \<^item> \<^verbatim>\<open>PF_FpLong\<close> (double) and \<^verbatim>\<open>PF_FpShort\<close> (float) are \<open>real\<close>: arithmetic is
    exact, rounding and NaN are not modelled. The decimal constants of the source
    (\<^verbatim>\<open>0.166666667\<close>, \<^verbatim>\<open>0.00392156863\<close>, \<^verbatim>\<open>4.4167\<close>, ...) are kept as written.
  \<^item> A pixel buffer is read through its row accessor: \<open>rows w y x\<close> is the pixel
    \<^verbatim>\<open>GetRow(w, y) + x\<close>. The byte stride \<^verbatim>\<open>rowbytes\<close> is kept for the one place that
    copies rows by their byte length, the snapshot of pass 2.
  \<^item> A pointer that may be \<^verbatim>\<open>NULL\<close> is an \<open>option\<close>; an output parameter is a result.
\<close>

record 'c PF_PixelOf =
  alpha :: 'c
  red :: 'c
  green :: 'c
  blue :: 'c

type_synonym PF_Pixel8 = "8 word PF_PixelOf"
type_synonym PF_Pixel16 = "16 word PF_PixelOf"
type_synonym PF_PixelFloat = "real PF_PixelOf"

record 'p PF_EffectWorld =
  width :: int
  height :: int
  rowbytes :: int
  rows :: "int \<Rightarrow> int \<Rightarrow> 'p"

record 'p ColorLinesInfo =
  targetColor :: PF_Pixel8
  tolerance :: real
  fillMode :: int
  searchRadius :: int
  ignoreTransparent :: bool
  sampleBlur :: real
  brightness :: real
  contrast :: real
  saturation :: real
  outputMode :: int
  srcWorld :: "'p PF_EffectWorld"
  lineMask :: "int \<Rightarrow> 8 word"
  maskWidth :: int
  maskHeight :: int
  maskRowBytes :: int

definition FILL_MODE_NEAREST :: int where "FILL_MODE_NEAREST = 1"
definition FILL_MODE_AVERAGE :: int where "FILL_MODE_AVERAGE = 2"
definition FILL_MODE_WEIGHTED :: int where "FILL_MODE_WEIGHTED = 3"

definition OUTPUT_MODE_FULL :: int where "OUTPUT_MODE_FULL = 1"
definition OUTPUT_MODE_LINE_ONLY :: int where "OUTPUT_MODE_LINE_ONLY = 2"
definition OUTPUT_MODE_BG_ONLY :: int where "OUTPUT_MODE_BG_ONLY = 3"

definition MAX_WEIGHT_TABLE_RADIUS :: int where "MAX_WEIGHT_TABLE_RADIUS = 50"

text \<open>
  Modelled from the spec: \<^verbatim>\<open>PF_MAX_CHAN16\<close> is declared by the host SDK headers, which are
  not part of the repository. The spec gives the 16-bit native range as 0--32768, and the
  comment at \<^verbatim>\<open>InitProcessingContext\<close> reads \<^verbatim>\<open>PF_MAX_CHAN16 / 255.0 = 32768 / 255.0\<close>.
\<close>
definition PF_MAX_CHAN16 :: int where "PF_MAX_CHAN16 = 32768"

subsection \<open>Channel conversions\<close>

text \<open>Integer promotion of an unsigned channel, then conversion to double.\<close>
definition chanW :: "'a::len word \<Rightarrow> real" where
  "chanW c = real_of_int (uint c)"

definition chanF :: "real \<Rightarrow> real" where
  "chanF c = c"

text \<open>\<^verbatim>\<open>(A_long) d\<close>: conversion of a double to an integer truncates toward zero.\<close>
definition truncI :: "real \<Rightarrow> int" where
  "truncI d = (if 0 \<le> d then \<lfloor>d\<rfloor> else \<lceil>d\<rceil>)"

definition ClampByte :: "real \<Rightarrow> 8 word" where
  "ClampByte v = word_of_int (truncI (if v < 0 then 0 else if v > 255 then 255 else v))"

definition Clamp16 :: "real \<Rightarrow> 16 word" where
  "Clamp16 v = word_of_int (truncI (if v < 0 then 0
      else if v > real_of_int PF_MAX_CHAN16 then real_of_int PF_MAX_CHAN16 else v))"

definition Clamp01 :: "real \<Rightarrow> real" where
  "Clamp01 v = (if v < 0 then 0 else if v > 1 then 1 else v)"

text \<open>\<^verbatim>\<open>(PF_FpShort) d\<close>: the narrowing to float is exact in this model.\<close>
definition castFpShort :: "real \<Rightarrow> real" where
  "castFpShort d = d"

subsection \<open>Line mask access\<close>

definition GetMaskAtFast :: "('p, 'm) ColorLinesInfo_scheme \<Rightarrow> int \<Rightarrow> int \<Rightarrow> 8 word" where
  "GetMaskAtFast info x y = lineMask info (y * maskRowBytes info + x)"

definition SetMaskAtFast ::
  "('p, 'm) ColorLinesInfo_scheme \<Rightarrow> int \<Rightarrow> int \<Rightarrow> 8 word \<Rightarrow> ('p, 'm) ColorLinesInfo_scheme" where
  "SetMaskAtFast info x y v =
     info\<lparr>lineMask := (lineMask info)(y * maskRowBytes info + x := v)\<rparr>"

definition GetMaskAt :: "('p, 'm) ColorLinesInfo_scheme \<Rightarrow> int \<Rightarrow> int \<Rightarrow> 8 word" where
  "GetMaskAt info x y =
     (if x < 0 \<or> x \<ge> maskWidth info \<or> y < 0 \<or> y \<ge> maskHeight info then 0
      else lineMask info (y * maskRowBytes info + x))"

definition GetRow :: "'p PF_EffectWorld \<Rightarrow> int \<Rightarrow> (int \<Rightarrow> 'p)" where
  "GetRow world y = rows world y"

section \<open>RGB and HSL conversion\<close>

definition HueToRGB :: "real \<Rightarrow> real \<Rightarrow> real \<Rightarrow> real" where
  "HueToRGB p q t0 =
     (let t = (if t0 < 0 then t0 + 1 else if t0 > 1 then t0 - 1 else t0)
      in if t < 0.166666667 then p + (q - p) * 6 * t
         else if t < 0.5 then q
         else if t < 0.666666667 then p + (q - p) * (0.666666667 - t) * 6
         else p)"

text \<open>The three output parameters \<^verbatim>\<open>*h, *s, *l\<close> are returned as a triple.\<close>
definition RGBtoHSL :: "real \<Rightarrow> real \<Rightarrow> real \<Rightarrow> real \<times> real \<times> real" where
  "RGBtoHSL r g b =
     (let maxVal = (if r > g then (if r > b then r else b) else (if g > b then g else b));
          minVal = (if r < g then (if r < b then r else b) else (if g < b then g else b));
          delta = maxVal - minVal;
          l = (maxVal + minVal) * 0.5
      in if delta < 0.00001 then (0, 0, l)
         else
           let s = (if l > 0.5 then delta / (2 - maxVal - minVal) else delta / (maxVal + minVal));
               h = (if maxVal = r then (g - b) / delta + (if g < b then 6 else 0)
                    else if maxVal = g then (b - r) / delta + 2
                    else (r - g) / delta + 4)
           in (h * 0.166666667, s, l))"

definition HSLtoRGB :: "real \<Rightarrow> real \<Rightarrow> real \<Rightarrow> real \<times> real \<times> real" where
  "HSLtoRGB h s l =
     (if s < 0.00001 then (l, l, l)
      else
        let q = (if l < 0.5 then l * (1 + s) else l + s - l * s);
            p = 2 * l - q
        in (HueToRGB p q (h + 0.333333333), HueToRGB p q h, HueToRGB p q (h - 0.333333333)))"

section \<open>Color matching\<close>

definition IsTargetColor8Fast :: "PF_Pixel8 \<Rightarrow> int \<Rightarrow> int \<Rightarrow> int \<Rightarrow> real \<Rightarrow> bool" where
  "IsTargetColor8Fast pixel targetR targetG targetB toleranceSq =
     (let dr = uint (red pixel) - targetR;
          dg = uint (green pixel) - targetG;
          db = uint (blue pixel) - targetB;
          distSq = dr * dr + dg * dg + db * db
      in real_of_int distSq \<le> toleranceSq)"

definition IsTargetColor16Fast :: "PF_Pixel16 \<Rightarrow> real \<Rightarrow> real \<Rightarrow> real \<Rightarrow> real \<Rightarrow> bool" where
  "IsTargetColor16Fast pixel targetR targetG targetB toleranceSq =
     (let dr = chanW (red pixel) - targetR;
          dg = chanW (green pixel) - targetG;
          db = chanW (blue pixel) - targetB;
          distSq = dr * dr + dg * dg + db * db
      in distSq \<le> toleranceSq)"

definition IsTargetColorFloatFast :: "PF_PixelFloat \<Rightarrow> real \<Rightarrow> real \<Rightarrow> real \<Rightarrow> real \<Rightarrow> bool" where
  "IsTargetColorFloatFast pixel targetR targetG targetB toleranceSq =
     (let dr = red pixel - targetR;
          dg = green pixel - targetG;
          db = blue pixel - targetB;
          distSq = dr * dr + dg * dg + db * db
      in distSq \<le> toleranceSq)"

section \<open>Color adjustment\<close>

record ColorAdjustParams =
  needsAdjustment :: bool
  needsBrightness :: bool
  needsContrast :: bool
  needsSaturation :: bool
  brightnessFactor :: real
  contrastFactor :: real
  saturationFactor :: real

text \<open>
  A factor whose \<open>needs\<close> flag is false is left uninitialised by the source and never
  read; the model stores 0 there.
\<close>
definition InitColorAdjustParams :: "('p, 'm) ColorLinesInfo_scheme \<Rightarrow> ColorAdjustParams" where
  "InitColorAdjustParams info =
     (let nb = (brightness info \<noteq> 0);
          nc = (contrast info \<noteq> 0);
          ns = (saturation info \<noteq> 0);
          cf = (100 + contrast info) / 100
      in \<lparr> needsAdjustment = (nb \<or> nc \<or> ns),
           needsBrightness = nb,
           needsContrast = nc,
           needsSaturation = ns,
           brightnessFactor = (if nb then brightness info / 100 else 0),
           contrastFactor = (if nc then cf * cf else 0),
           saturationFactor = (if ns then (100 + saturation info) / 100 else 0) \<rparr>)"

text \<open>
  The brightness, contrast and saturation steps of the 8-bit and 16-bit adjusters, on
  the normalised triple \<open>(r, g, b)\<close>; the two source functions share these lines verbatim.
\<close>
definition adjustClamped :: "ColorAdjustParams \<Rightarrow> real \<times> real \<times> real \<Rightarrow> real \<times> real \<times> real" where
  "adjustClamped adj rgb =
     (let (r, g, b) = rgb;
          (r, g, b) = (if needsBrightness adj
             then (Clamp01 (r + brightnessFactor adj), Clamp01 (g + brightnessFactor adj),
                   Clamp01 (b + brightnessFactor adj))
             else (r, g, b));
          (r, g, b) = (if needsContrast adj
             then (Clamp01 (0.5 + (r - 0.5) * contrastFactor adj),
                   Clamp01 (0.5 + (g - 0.5) * contrastFactor adj),
                   Clamp01 (0.5 + (b - 0.5) * contrastFactor adj))
             else (r, g, b))
      in if needsSaturation adj
         then (let (h, s, l) = RGBtoHSL r g b;
                   s = Clamp01 (s * saturationFactor adj)
               in HSLtoRGB h s l)
         else (r, g, b))"

definition ApplyColorAdjustments8Fast :: "PF_Pixel8 \<Rightarrow> ColorAdjustParams \<Rightarrow> PF_Pixel8" where
  "ApplyColorAdjustments8Fast pixel adj =
     (if \<not> needsAdjustment adj then pixel
      else
        let (r, g, b) = adjustClamped adj
              (chanW (red pixel) * 0.00392156863, chanW (green pixel) * 0.00392156863,
               chanW (blue pixel) * 0.00392156863)
        in pixel\<lparr>red := ClampByte (r * 255), green := ClampByte (g * 255),
                 blue := ClampByte (b * 255)\<rparr>)"

definition ApplyColorAdjustments16Fast :: "PF_Pixel16 \<Rightarrow> ColorAdjustParams \<Rightarrow> PF_Pixel16" where
  "ApplyColorAdjustments16Fast pixel adj =
     (if \<not> needsAdjustment adj then pixel
      else
        let invMax = 1 / real_of_int PF_MAX_CHAN16;
            (r, g, b) = adjustClamped adj
              (chanW (red pixel) * invMax, chanW (green pixel) * invMax,
               chanW (blue pixel) * invMax)
        in pixel\<lparr>red := Clamp16 (r * real_of_int PF_MAX_CHAN16),
                 green := Clamp16 (g * real_of_int PF_MAX_CHAN16),
                 blue := Clamp16 (b * real_of_int PF_MAX_CHAN16)\<rparr>)"

definition ApplyColorAdjustmentsFloatFast :: "PF_PixelFloat \<Rightarrow> ColorAdjustParams \<Rightarrow> PF_PixelFloat" where
  "ApplyColorAdjustmentsFloatFast pixel adj =
     (if \<not> needsAdjustment adj then pixel
      else
        let (r, g, b) = (red pixel, green pixel, blue pixel);
            (r, g, b) = (if needsBrightness adj
               then (r + brightnessFactor adj, g + brightnessFactor adj, b + brightnessFactor adj)
               else (r, g, b));
            (r, g, b) = (if needsContrast adj
               then (0.5 + (r - 0.5) * contrastFactor adj,
                     0.5 + (g - 0.5) * contrastFactor adj,
                     0.5 + (b - 0.5) * contrastFactor adj)
               else (r, g, b));
            (r, g, b) = (if needsSaturation adj
               then (let (h, s, l) = RGBtoHSL (Clamp01 r) (Clamp01 g) (Clamp01 b);
                         s = Clamp01 (s * saturationFactor adj)
                     in HSLtoRGB h s l)
               else (r, g, b))
        in pixel\<lparr>red := castFpShort r, green := castFpShort g, blue := castFpShort b\<rparr>)"

section \<open>Weight table cache\<close>

text \<open>
  The process-wide tables \<^verbatim>\<open>g_invDistWeights\<close>, \<^verbatim>\<open>g_gaussianWeights\<close> and the radii they
  were built for. The arrays are maps from the flat index to the weight; static storage
  starts zeroed.
\<close>

record Globals =
  g_invDistWeights :: "int \<Rightarrow> real"
  g_gaussianWeights :: "int \<Rightarrow> real"
  g_currentWeightRadius :: int
  g_currentBlurRadius :: int

definition initialGlobals :: Globals where
  "initialGlobals = \<lparr> g_invDistWeights = (\<lambda>_. 0), g_gaussianWeights = (\<lambda>_. 0),
                       g_currentWeightRadius = 0, g_currentBlurRadius = 0 \<rparr>"

definition PrecomputeInvDistWeights :: "int \<Rightarrow> Globals \<Rightarrow> Globals" where
  "PrecomputeInvDistWeights radius0 g =
     (if radius0 = g_currentWeightRadius g then g
      else
        let radius = (if radius0 > MAX_WEIGHT_TABLE_RADIUS then MAX_WEIGHT_TABLE_RADIUS else radius0);
            size = radius * 2 + 1;
            tbl = foldl (\<lambda>t dy.
                    foldl (\<lambda>t dx.
                      let idx = (dy + radius) * size + (dx + radius)
                      in if dx = 0 \<and> dy = 0 then t(idx := 0)
                         else let dist = sqrt (real_of_int (dx * dx + dy * dy))
                              in t(idx := 1 / (dist + 0.1)))
                    t [- radius..radius])
                  (g_invDistWeights g) [- radius..radius]
        in g\<lparr>g_invDistWeights := tbl, g_currentWeightRadius := radius\<rparr>)"

definition PrecomputeGaussianWeights :: "int \<Rightarrow> Globals \<Rightarrow> Globals" where
  "PrecomputeGaussianWeights blurRadius0 g =
     (if blurRadius0 = g_currentBlurRadius g then g
      else
        let blurRadius = (if blurRadius0 > MAX_WEIGHT_TABLE_RADIUS then MAX_WEIGHT_TABLE_RADIUS
                          else blurRadius0);
            size = blurRadius * 2 + 1;
            sigma2 = 2 * real_of_int blurRadius * real_of_int blurRadius;
            tbl = foldl (\<lambda>t dy.
                    foldl (\<lambda>t dx.
                      let idx = (dy + blurRadius) * size + (dx + blurRadius);
                          distSq = dx * dx + dy * dy
                      in t(idx := exp (- real_of_int distSq / sigma2)))
                    t [- blurRadius..blurRadius])
                  (g_gaussianWeights g) [- blurRadius..blurRadius]
        in g\<lparr>g_gaussianWeights := tbl, g_currentBlurRadius := blurRadius\<rparr>)"

section \<open>Line fill engine\<close>

text \<open>
  The accumulators \<^verbatim>\<open>sumR, sumG, sumB, sumA, totalWeight\<close> of the averaging loops, and the
  five accumulation statements that every fill and blur loop of the source ends with.
\<close>

record Accum =
  sumR :: real
  sumG :: real
  sumB :: real
  sumA :: real
  totalWeight :: real

definition zeroAccum :: Accum where
  "zeroAccum = \<lparr> sumR = 0, sumG = 0, sumB = 0, sumA = 0, totalWeight = 0 \<rparr>"

definition accumulate :: "('c \<Rightarrow> real) \<Rightarrow> 'c PF_PixelOf \<Rightarrow> real \<Rightarrow> Accum \<Rightarrow> Accum" where
  "accumulate chan neighbor weight acc =
     \<lparr> sumR = sumR acc + chan (red neighbor) * weight,
       sumG = sumG acc + chan (green neighbor) * weight,
       sumB = sumB acc + chan (blue neighbor) * weight,
       sumA = sumA acc + chan (alpha neighbor) * weight,
       totalWeight = totalWeight acc + weight \<rparr>"

text \<open>
  \<^verbatim>\<open>FillLinePixel8\<close>, \<^verbatim>\<open>FillLinePixel16\<close> and \<^verbatim>\<open>FillLinePixelFloat\<close> are the same text up to
  the channel type. The embedding writes the body once, over
  \<^item> \<open>chan\<close>: the conversion of a channel to double,
  \<^item> \<open>skip\<close>: the two \<^verbatim>\<open>continue\<close> tests on a neighbor (ignore-transparent, target color),
  \<^item> \<open>clampOut\<close>: \<^verbatim>\<open>ClampByte\<close>, \<^verbatim>\<open>Clamp16\<close> or the cast to \<^verbatim>\<open>PF_FpShort\<close>,
  \<^item> \<open>adjust\<close>: the color adjuster of the bit depth,
  and instantiates it three times below.
\<close>

subsection \<open>Nearest mode\<close>

text \<open>
  State of the ring search: \<^verbatim>\<open>nearestDistSq\<close>, \<^verbatim>\<open>nearestPixel\<close> (\<open>None\<close> for \<^verbatim>\<open>NULL\<close>), and
  whether \<^verbatim>\<open>goto found_nearest\<close> was taken, which ends all three loops.
\<close>

record 'p NearestState =
  nearestDistSq :: int
  nearestPixel :: "'p option"
  jumped :: bool

definition nearestCell ::
  "('p \<Rightarrow> bool) \<Rightarrow> int \<Rightarrow> (int \<Rightarrow> 'p) \<Rightarrow> int \<Rightarrow> int \<Rightarrow> int \<Rightarrow> 'p NearestState \<Rightarrow> int \<Rightarrow> 'p NearestState" where
  "nearestCell skip wd rowPtr x ring dy st dx =
     (if jumped st then st
      else if dy \<noteq> - ring \<and> dy \<noteq> ring \<and> dx \<noteq> - ring \<and> dx \<noteq> ring then st
      else
        let nx = x + dx
        in if nx < 0 \<or> nx \<ge> wd then st
           else
             let neighbor = rowPtr nx
             in if skip neighbor then st
                else
                  let distSq = dx * dx + dy * dy
                  in if distSq < nearestDistSq st
                     then \<lparr> nearestDistSq = distSq, nearestPixel = Some neighbor,
                            jumped = (distSq = 1) \<rparr>
                     else st)"

definition nearestRing ::
  "('p \<Rightarrow> bool) \<Rightarrow> 'p PF_EffectWorld \<Rightarrow> int \<Rightarrow> int \<Rightarrow> int \<Rightarrow> 'p NearestState \<Rightarrow> 'p NearestState" where
  "nearestRing skip world x y ring st0 =
     foldl (\<lambda>st dy.
        if jumped st then st
        else
          let ny = y + dy
          in if ny < 0 \<or> ny \<ge> height world then st
             else foldl (nearestCell skip (width world) (GetRow world ny) x ring dy) st
                    [- ring..ring])
       st0 [- ring..ring]"

function nearestRings ::
  "('p \<Rightarrow> bool) \<Rightarrow> 'p PF_EffectWorld \<Rightarrow> int \<Rightarrow> int \<Rightarrow> int \<Rightarrow> int \<Rightarrow> 'p NearestState \<Rightarrow> 'p NearestState" where
  "nearestRings skip world x y radius ring st =
     (if ring \<le> radius \<and> nearestDistSq st > 1 then
        (if ring * ring \<ge> nearestDistSq st then st
         else
           let st' = nearestRing skip world x y ring st
           in if jumped st' then st'
              else nearestRings skip world x y radius (ring + 1) st')
      else st)"
  by pat_completeness auto
termination
  by (relation "measure (\<lambda>(skip, world, x, y, radius, ring, st). nat (radius + 1 - ring))") auto

subsection \<open>Average and weighted mode\<close>

definition fillWindowRow ::
  "('c \<Rightarrow> real) \<Rightarrow> ('c PF_PixelOf \<Rightarrow> bool) \<Rightarrow> (int \<Rightarrow> real) \<Rightarrow> bool \<Rightarrow> int \<Rightarrow> int \<Rightarrow>
   (int \<Rightarrow> 'c PF_PixelOf) \<Rightarrow> int \<Rightarrow> int \<Rightarrow> int \<Rightarrow> Accum \<Rightarrow> Accum" where
  "fillWindowRow chan skip weights isAverage radius wd rowPtr weightRowOffset x dy acc0 =
     foldl (\<lambda>acc dx.
        if dx = 0 \<and> dy = 0 then acc
        else
          let nx = x + dx
          in if nx < 0 \<or> nx \<ge> wd then acc
             else
               let neighbor = rowPtr nx
               in if skip neighbor then acc
                  else
                    let weight = (if isAverage then 1 else weights (weightRowOffset + dx + radius))
                    in accumulate chan neighbor weight acc)
       acc0 [- radius..radius]"

definition fillWindow ::
  "('c \<Rightarrow> real) \<Rightarrow> ('c PF_PixelOf \<Rightarrow> bool) \<Rightarrow> (int \<Rightarrow> real) \<Rightarrow> bool \<Rightarrow> int \<Rightarrow>
   'c PF_PixelOf PF_EffectWorld \<Rightarrow> int \<Rightarrow> int \<Rightarrow> Accum" where
  "fillWindow chan skip weights isAverage radius world x y =
     (let weightSize = radius * 2 + 1
      in foldl (\<lambda>acc dy.
           let ny = y + dy
           in if ny < 0 \<or> ny \<ge> height world then acc
              else
                let rowPtr = GetRow world ny;
                    weightRowOffset = (dy + radius) * weightSize
                in fillWindowRow chan skip weights isAverage radius (width world) rowPtr
                     weightRowOffset x dy acc)
         zeroAccum [- radius..radius])"

definition FillLinePixelOf ::
  "('c \<Rightarrow> real) \<Rightarrow> ('c PF_PixelOf \<Rightarrow> bool) \<Rightarrow> (real \<Rightarrow> 'c) \<Rightarrow> ('c PF_PixelOf \<Rightarrow> 'c PF_PixelOf) \<Rightarrow>
   Globals \<Rightarrow> ('c PF_PixelOf, 'm) ColorLinesInfo_scheme \<Rightarrow> int \<Rightarrow> int \<Rightarrow> 'c PF_PixelOf \<Rightarrow> 'c PF_PixelOf" where
  "FillLinePixelOf chan skip clampOut adjust g info x y inP =
     (let radius = searchRadius info;
          world = srcWorld info;
          outP =
            (if fillMode info = FILL_MODE_NEAREST then
               (let st = nearestRings skip world x y radius 1
                           \<lparr> nearestDistSq = 999999, nearestPixel = None, jumped = False \<rparr>
                in case nearestPixel st of Some p \<Rightarrow> p | None \<Rightarrow> inP)
             else
               (let isAverage = (fillMode info = FILL_MODE_AVERAGE);
                    acc = fillWindow chan skip (g_invDistWeights g) isAverage radius world x y
                in if totalWeight acc > 0 then
                     (let invWeight = 1 / totalWeight acc
                      in \<lparr> alpha = clampOut (sumA acc * invWeight),
                           red = clampOut (sumR acc * invWeight),
                           green = clampOut (sumG acc * invWeight),
                           blue = clampOut (sumB acc * invWeight) \<rparr>)
                   else inP))
      in adjust outP)"

definition skip8 :: "bool \<Rightarrow> int \<Rightarrow> int \<Rightarrow> int \<Rightarrow> real \<Rightarrow> PF_Pixel8 \<Rightarrow> bool" where
  "skip8 ignoreT targetR targetG targetB toleranceSq neighbor =
     ((ignoreT \<and> alpha neighbor < 255)
      \<or> IsTargetColor8Fast neighbor targetR targetG targetB toleranceSq)"

definition skip16 :: "bool \<Rightarrow> real \<Rightarrow> real \<Rightarrow> real \<Rightarrow> real \<Rightarrow> PF_Pixel16 \<Rightarrow> bool" where
  "skip16 ignoreT targetR targetG targetB toleranceSq neighbor =
     ((ignoreT \<and> uint (alpha neighbor) < PF_MAX_CHAN16)
      \<or> IsTargetColor16Fast neighbor targetR targetG targetB toleranceSq)"

definition skipFloat :: "bool \<Rightarrow> real \<Rightarrow> real \<Rightarrow> real \<Rightarrow> real \<Rightarrow> PF_PixelFloat \<Rightarrow> bool" where
  "skipFloat ignoreT targetR targetG targetB toleranceSq neighbor =
     ((ignoreT \<and> alpha neighbor < 1)
      \<or> IsTargetColorFloatFast neighbor targetR targetG targetB toleranceSq)"

definition FillLinePixel8 ::
  "Globals \<Rightarrow> (PF_Pixel8, 'm) ColorLinesInfo_scheme \<Rightarrow> int \<Rightarrow> int \<Rightarrow> PF_Pixel8 \<Rightarrow>
   int \<Rightarrow> int \<Rightarrow> int \<Rightarrow> real \<Rightarrow> ColorAdjustParams \<Rightarrow> PF_Pixel8" where
  "FillLinePixel8 g info x y inP targetR targetG targetB toleranceSq adj =
     FillLinePixelOf chanW (skip8 (ignoreTransparent info) targetR targetG targetB toleranceSq)
       ClampByte (\<lambda>p. ApplyColorAdjustments8Fast p adj) g info x y inP"

definition FillLinePixel16 ::
  "Globals \<Rightarrow> (PF_Pixel16, 'm) ColorLinesInfo_scheme \<Rightarrow> int \<Rightarrow> int \<Rightarrow> PF_Pixel16 \<Rightarrow>
   real \<Rightarrow> real \<Rightarrow> real \<Rightarrow> real \<Rightarrow> ColorAdjustParams \<Rightarrow> PF_Pixel16" where
  "FillLinePixel16 g info x y inP targetR targetG targetB toleranceSq adj =
     FillLinePixelOf chanW (skip16 (ignoreTransparent info) targetR targetG targetB toleranceSq)
       Clamp16 (\<lambda>p. ApplyColorAdjustments16Fast p adj) g info x y inP"

definition FillLinePixelFloat ::
  "Globals \<Rightarrow> (PF_PixelFloat, 'm) ColorLinesInfo_scheme \<Rightarrow> int \<Rightarrow> int \<Rightarrow> PF_PixelFloat \<Rightarrow>
   real \<Rightarrow> real \<Rightarrow> real \<Rightarrow> real \<Rightarrow> ColorAdjustParams \<Rightarrow> PF_PixelFloat" where
  "FillLinePixelFloat g info x y inP targetR targetG targetB toleranceSq adj =
     FillLinePixelOf chanF (skipFloat (ignoreTransparent info) targetR targetG targetB toleranceSq)
       castFpShort (\<lambda>p. ApplyColorAdjustmentsFloatFast p adj) g info x y inP"

section \<open>Pass 1: match, mask and fill\<close>

text \<open>
  \<^verbatim>\<open>ProcessingContext\<close>. Its \<^verbatim>\<open>info\<close> pointer is not a field here: the callbacks take the
  \<^verbatim>\<open>ColorLinesInfo\<close> it points to as an argument and return it with the mask updated.
  The fields \<^verbatim>\<open>width\<close> and \<^verbatim>\<open>height\<close> are \<open>ctxWidth\<close> and \<open>ctxHeight\<close>.
\<close>

record ProcessingContext =
  targetR8 :: int
  targetG8 :: int
  targetB8 :: int
  targetR16 :: real
  targetG16 :: real
  targetB16 :: real
  targetRF :: real
  targetGF :: real
  targetBF :: real
  toleranceSq8 :: real
  toleranceSq16 :: real
  toleranceSqF :: real
  colorAdj :: ColorAdjustParams
  edgeMargin :: int
  ctxWidth :: int
  ctxHeight :: int

definition InitProcessingContext ::
  "('p, 'm) ColorLinesInfo_scheme \<Rightarrow> Globals \<Rightarrow> ProcessingContext \<times> Globals" where
  "InitProcessingContext info g =
     (let maxDist8 = tolerance info * 4.4167;
          scale8to16 = real_of_int PF_MAX_CHAN16 / 255;
          maxDist16 = tolerance info * 4.4167 * scale8to16;
          scale8toFloat = 1 / 255;
          maxDistF = tolerance info * 4.4167 * scale8toFloat;
          ctx = \<lparr> targetR8 = uint (red (targetColor info)),
                  targetG8 = uint (green (targetColor info)),
                  targetB8 = uint (blue (targetColor info)),
                  targetR16 = chanW (red (targetColor info)) * scale8to16,
                  targetG16 = chanW (green (targetColor info)) * scale8to16,
                  targetB16 = chanW (blue (targetColor info)) * scale8to16,
                  targetRF = chanW (red (targetColor info)) * scale8toFloat,
                  targetGF = chanW (green (targetColor info)) * scale8toFloat,
                  targetBF = chanW (blue (targetColor info)) * scale8toFloat,
                  toleranceSq8 = maxDist8 * maxDist8,
                  toleranceSq16 = maxDist16 * maxDist16,
                  toleranceSqF = maxDistF * maxDistF,
                  colorAdj = InitColorAdjustParams info,
                  edgeMargin = searchRadius info,
                  ctxWidth = width (srcWorld info),
                  ctxHeight = height (srcWorld info) \<rparr>
      in (ctx, if fillMode info = FILL_MODE_WEIGHTED
               then PrecomputeInvDistWeights (searchRadius info) g else g))"

text \<open>
  The three pass-1 callbacks are the same text up to the matcher, the fill function, and
  the opaque and zero channel values. Each returns \<^verbatim>\<open>PF_Err_NONE\<close> on every path, so the
  result is the pixel written to \<^verbatim>\<open>*outP\<close> and the \<^verbatim>\<open>ColorLinesInfo\<close> with its mask written.
  Every path assigns all four channels of \<^verbatim>\<open>*outP\<close>.
\<close>

definition FillAndMaskOf ::
  "('c PF_PixelOf \<Rightarrow> bool) \<Rightarrow>
   (('c PF_PixelOf, 'm) ColorLinesInfo_scheme \<Rightarrow> int \<Rightarrow> int \<Rightarrow> 'c PF_PixelOf \<Rightarrow> 'c PF_PixelOf) \<Rightarrow>
   'c \<Rightarrow> 'c \<Rightarrow> ProcessingContext \<Rightarrow> ('c PF_PixelOf, 'm) ColorLinesInfo_scheme \<Rightarrow>
   int \<Rightarrow> int \<Rightarrow> 'c PF_PixelOf \<Rightarrow> 'c PF_PixelOf \<times> ('c PF_PixelOf, 'm) ColorLinesInfo_scheme" where
  "FillAndMaskOf isTarget fill opaque zero ctx info xL yL inP =
     (if xL < edgeMargin ctx \<or> yL < edgeMargin ctx \<or>
         xL \<ge> ctxWidth ctx - edgeMargin ctx \<or>
         yL \<ge> ctxHeight ctx - edgeMargin ctx
      then (inP, SetMaskAtFast info xL yL 0)
      else
        let isLine = isTarget inP;
            info' = SetMaskAtFast info xL yL (if isLine then 255 else 0);
            outP =
              (if outputMode info' = OUTPUT_MODE_FULL then
                 (if isLine then fill info' xL yL inP else inP)
               else if outputMode info' = OUTPUT_MODE_LINE_ONLY then
                 (if isLine then (fill info' xL yL inP)\<lparr>alpha := opaque\<rparr>
                  else \<lparr> alpha = zero, red = zero, green = zero, blue = zero \<rparr>)
               else if outputMode info' = OUTPUT_MODE_BG_ONLY then
                 (if isLine then \<lparr> alpha = zero, red = zero, green = zero, blue = zero \<rparr>
                  else inP)
               else inP)
        in (outP, info'))"

definition FillAndMask8_Optimized ::
  "Globals \<Rightarrow> ProcessingContext \<Rightarrow> (PF_Pixel8, 'm) ColorLinesInfo_scheme \<Rightarrow> int \<Rightarrow> int \<Rightarrow>
   PF_Pixel8 \<Rightarrow> PF_Pixel8 \<times> (PF_Pixel8, 'm) ColorLinesInfo_scheme" where
  "FillAndMask8_Optimized g ctx info xL yL inP =
     FillAndMaskOf
       (\<lambda>p. IsTargetColor8Fast p (targetR8 ctx) (targetG8 ctx) (targetB8 ctx) (toleranceSq8 ctx))
       (\<lambda>info' x y p. FillLinePixel8 g info' x y p (targetR8 ctx) (targetG8 ctx) (targetB8 ctx)
                         (toleranceSq8 ctx) (colorAdj ctx))
       255 0 ctx info xL yL inP"

definition FillAndMask16_Optimized ::
  "Globals \<Rightarrow> ProcessingContext \<Rightarrow> (PF_Pixel16, 'm) ColorLinesInfo_scheme \<Rightarrow> int \<Rightarrow> int \<Rightarrow>
   PF_Pixel16 \<Rightarrow> PF_Pixel16 \<times> (PF_Pixel16, 'm) ColorLinesInfo_scheme" where
  "FillAndMask16_Optimized g ctx info xL yL inP =
     FillAndMaskOf
       (\<lambda>p. IsTargetColor16Fast p (targetR16 ctx) (targetG16 ctx) (targetB16 ctx) (toleranceSq16 ctx))
       (\<lambda>info' x y p. FillLinePixel16 g info' x y p (targetR16 ctx) (targetG16 ctx) (targetB16 ctx)
                         (toleranceSq16 ctx) (colorAdj ctx))
       (word_of_int PF_MAX_CHAN16) 0 ctx info xL yL inP"

definition FillAndMaskFloat_Optimized ::
  "Globals \<Rightarrow> ProcessingContext \<Rightarrow> (PF_PixelFloat, 'm) ColorLinesInfo_scheme \<Rightarrow> int \<Rightarrow> int \<Rightarrow>
   PF_PixelFloat \<Rightarrow> PF_PixelFloat \<times> (PF_PixelFloat, 'm) ColorLinesInfo_scheme" where
  "FillAndMaskFloat_Optimized g ctx info xL yL inP =
     FillAndMaskOf
       (\<lambda>p. IsTargetColorFloatFast p (targetRF ctx) (targetGF ctx) (targetBF ctx) (toleranceSqF ctx))
       (\<lambda>info' x y p. FillLinePixelFloat g info' x y p (targetRF ctx) (targetGF ctx) (targetBF ctx)
                         (toleranceSqF ctx) (colorAdj ctx))
       1 0 ctx info xL yL inP"

section \<open>Pass 2: mask-confined blur\<close>

text \<open>\<^verbatim>\<open>BlurContext\<close>, again without its \<^verbatim>\<open>info\<close> pointer.\<close>

record 'p BlurContext =
  tempWorld :: "'p PF_EffectWorld"
  blurRadius :: int
  blurSize :: int

text \<open>The inner \<^verbatim>\<open>dx\<close> loop, identical in the three blur callbacks.\<close>

definition blurRow ::
  "('c \<Rightarrow> real) \<Rightarrow> Globals \<Rightarrow> ('p, 'm) ColorLinesInfo_scheme \<Rightarrow> (int \<Rightarrow> 'c PF_PixelOf) \<Rightarrow>
   int \<Rightarrow> int \<Rightarrow> int \<Rightarrow> int \<Rightarrow> Accum \<Rightarrow> Accum" where
  "blurRow chan g info rowPtr weightRowOffset radius xL ny acc0 =
     foldl (\<lambda>acc dx.
        let nx = xL + dx
        in if nx < 0 \<or> nx \<ge> maskWidth info then acc
           else if GetMaskAt info nx ny = 0 then acc
           else
             let neighbor = rowPtr nx;
                 weight = g_gaussianWeights g (weightRowOffset + dx + radius)
             in accumulate chan neighbor weight acc)
       acc0 [- radius..radius]"

text \<open>The \<^verbatim>\<open>dy\<close> loop of \<^verbatim>\<open>BlurPass16_Optimized\<close> and \<^verbatim>\<open>BlurPassFloat_Optimized\<close>.\<close>

definition blurWindow ::
  "('c \<Rightarrow> real) \<Rightarrow> Globals \<Rightarrow> 'c PF_PixelOf BlurContext \<Rightarrow> ('p, 'm) ColorLinesInfo_scheme \<Rightarrow>
   int \<Rightarrow> int \<Rightarrow> Accum" where
  "blurWindow chan g ctx info xL yL =
     foldl (\<lambda>acc dy.
        let ny = yL + dy
        in if ny < 0 \<or> ny \<ge> maskHeight info then acc
           else
             let rowPtr = GetRow (tempWorld ctx) ny;
                 weightRowOffset = (dy + blurRadius ctx) * blurSize ctx
             in blurRow chan g info rowPtr weightRowOffset (blurRadius ctx) xL ny acc)
       zeroAccum [- blurRadius ctx..blurRadius ctx]"

text \<open>
  The \<^verbatim>\<open>dy\<close> loop of \<^verbatim>\<open>BlurPass8_Optimized\<close>, with its row skip: when the mask at the
  centre of the row is 0, the row is scanned for any masked pixel (\<^verbatim>\<open>hasAnyMask\<close>, a loop
  left by \<^verbatim>\<open>break\<close> at the first hit) and skipped when there is none.
\<close>

definition hasAnyMask :: "('p, 'm) ColorLinesInfo_scheme \<Rightarrow> int \<Rightarrow> int \<Rightarrow> int \<Rightarrow> bool" where
  "hasAnyMask info radius xL ny =
     list_ex (\<lambda>dx. GetMaskAt info (xL + dx) ny \<noteq> 0) [- radius..radius]"

definition blurWindow8 ::
  "Globals \<Rightarrow> PF_Pixel8 BlurContext \<Rightarrow> ('p, 'm) ColorLinesInfo_scheme \<Rightarrow> int \<Rightarrow> int \<Rightarrow> Accum" where
  "blurWindow8 g ctx info xL yL =
     foldl (\<lambda>acc dy.
        let ny = yL + dy
        in if ny < 0 \<or> ny \<ge> maskHeight info then acc
           else if GetMaskAt info xL ny = 0 \<and> \<not> hasAnyMask info (blurRadius ctx) xL ny then acc
           else
             let rowPtr = GetRow (tempWorld ctx) ny;
                 weightRowOffset = (dy + blurRadius ctx) * blurSize ctx
             in blurRow chanW g info rowPtr weightRowOffset (blurRadius ctx) xL ny acc)
       zeroAccum [- blurRadius ctx..blurRadius ctx]"

text \<open>The head and the tail of a blur callback, around the accumulated sums.\<close>

definition blurFinish ::
  "(real \<Rightarrow> 'c) \<Rightarrow> ('p, 'm) ColorLinesInfo_scheme \<Rightarrow> int \<Rightarrow> int \<Rightarrow> 'c PF_PixelOf \<Rightarrow> Accum \<Rightarrow>
   'c PF_PixelOf" where
  "blurFinish clampOut info xL yL inP acc =
     (if GetMaskAt info xL yL = 0 then inP
      else if totalWeight acc > 0 then
        (let invWeight = 1 / totalWeight acc
         in \<lparr> alpha = clampOut (sumA acc * invWeight),
              red = clampOut (sumR acc * invWeight),
              green = clampOut (sumG acc * invWeight),
              blue = clampOut (sumB acc * invWeight) \<rparr>)
      else inP)"

definition BlurPass8_Optimized ::
  "Globals \<Rightarrow> PF_Pixel8 BlurContext \<Rightarrow> ('p, 'm) ColorLinesInfo_scheme \<Rightarrow> int \<Rightarrow> int \<Rightarrow>
   PF_Pixel8 \<Rightarrow> PF_Pixel8" where
  "BlurPass8_Optimized g ctx info xL yL inP =
     blurFinish ClampByte info xL yL inP (blurWindow8 g ctx info xL yL)"

definition BlurPass16_Optimized ::
  "Globals \<Rightarrow> PF_Pixel16 BlurContext \<Rightarrow> ('p, 'm) ColorLinesInfo_scheme \<Rightarrow> int \<Rightarrow> int \<Rightarrow>
   PF_Pixel16 \<Rightarrow> PF_Pixel16" where
  "BlurPass16_Optimized g ctx info xL yL inP =
     blurFinish Clamp16 info xL yL inP (blurWindow chanW g ctx info xL yL)"

definition BlurPassFloat_Optimized ::
  "Globals \<Rightarrow> PF_PixelFloat BlurContext \<Rightarrow> ('p, 'm) ColorLinesInfo_scheme \<Rightarrow> int \<Rightarrow> int \<Rightarrow>
   PF_PixelFloat \<Rightarrow> PF_PixelFloat" where
  "BlurPassFloat_Optimized g ctx info xL yL inP =
     blurFinish castFpShort info xL yL inP (blurWindow chanF g ctx info xL yL)"

text \<open>
  The accumulation of the 16-bit and float callbacks (no row skip), applied to 8-bit
  pixels: the reference the 8-bit callback is compared with.
\<close>

definition BlurPass8_NoRowSkip ::
  "Globals \<Rightarrow> PF_Pixel8 BlurContext \<Rightarrow> ('p, 'm) ColorLinesInfo_scheme \<Rightarrow> int \<Rightarrow> int \<Rightarrow>
   PF_Pixel8 \<Rightarrow> PF_Pixel8" where
  "BlurPass8_NoRowSkip g ctx info xL yL inP =
     blurFinish ClampByte info xL yL inP (blurWindow chanW g ctx info xL yL)"

section \<open>Frame orchestrator\<close>

datatype PF_Err = PF_Err_NONE | PF_Err_OUT_OF_MEMORY | PF_Err_BAD_CALLBACK_PARAM | PF_Err_HOST int

text \<open>
  What the host services report during one \<^verbatim>\<open>SmartRender\<close> call: the error of the two
  checkouts, whether \<^verbatim>\<open>malloc\<close> returned a mask, the error of \<^verbatim>\<open>PF_GetPixelFormat\<close> (or
  \<^verbatim>\<open>PF_Err_BAD_CALLBACK_PARAM\<close> of the \<^verbatim>\<open>default\<close> branch when the format is not the one of
  this bit depth), the errors of the two \<^verbatim>\<open>iterate\<close> calls and of \<^verbatim>\<open>PF_NewWorld\<close>, and the
  \<^verbatim>\<open>rowbytes\<close> of the world that \<^verbatim>\<open>PF_NewWorld\<close> returns.
\<close>

record HostOutcome =
  checkoutErr :: PF_Err
  maskAllocated :: bool
  formatErr :: PF_Err
  iterateErr1 :: PF_Err
  newWorldErr :: PF_Err
  newWorldRowbytes :: int
  iterateErr2 :: PF_Err

text \<open>
  The result of a render: the error returned, or the output frame with the weight cache
  as the render leaves it. \<open>NullMaskWrite\<close> is the undefined behaviour of pass 1 when
  \<^verbatim>\<open>malloc\<close> failed: \<^verbatim>\<open>SetMaskAtFast\<close> writes through the \<^verbatim>\<open>NULL\<close> mask without a test.
  \<open>TempWorldOverrun\<close> is the undefined behaviour of the copy to the temporary world when
  its rows are shorter than the rows copied into them. On an error path the state of the
  weight cache is not reported.
\<close>

datatype 'a RenderResult = NullMaskWrite | TempWorldOverrun | RenderError PF_Err | Rendered 'a

text \<open>
  Modelled from the spec: the pixel iterator service of the host is not part of the
  repository. The spec: given a row range, a source buffer, a context and a per-pixel
  callback, it invokes the callback once per pixel with (context, x, y, input pixel,
  output pixel slot). The model visits the pixels of the output frame in row-major order
  and threads the state the callback writes (the line mask).
\<close>

definition iteratePixels :: "int \<Rightarrow> int \<Rightarrow> (int \<times> int) list" where
  "iteratePixels w h = concat (map (\<lambda>y. map (\<lambda>x. (x, y)) [0..w - 1]) [0..h - 1])"

definition iterateStep ::
  "('s \<Rightarrow> int \<Rightarrow> int \<Rightarrow> 'p \<Rightarrow> 'p \<times> 's) \<Rightarrow> 'p PF_EffectWorld \<Rightarrow>
   'p PF_EffectWorld \<times> 's \<Rightarrow> int \<times> int \<Rightarrow> 'p PF_EffectWorld \<times> 's" where
  "iterateStep callback src ds xy =
     (let (dst, st) = ds; (x, y) = xy;
          (outP, st') = callback st x y (rows src y x)
      in (dst\<lparr>rows := (rows dst)(y := (rows dst y)(x := outP))\<rparr>, st'))"

definition iterate ::
  "('s \<Rightarrow> int \<Rightarrow> int \<Rightarrow> 'p \<Rightarrow> 'p \<times> 's) \<Rightarrow> 's \<Rightarrow> 'p PF_EffectWorld \<Rightarrow> 'p PF_EffectWorld \<Rightarrow>
   'p PF_EffectWorld \<times> 's" where
  "iterate callback st0 src dst0 =
     foldl (iterateStep callback src) (dst0, st0) (iteratePixels (width dst0) (height dst0))"

text \<open>The range of the Sample Blur slider (\<^verbatim>\<open>ColorLines.h\<close>).\<close>

definition SAMPLE_BLUR_MIN :: real where "SAMPLE_BLUR_MIN = 0.0"
definition SAMPLE_BLUR_MAX :: real where "SAMPLE_BLUR_MAX = 100.0"

text \<open>\<^verbatim>\<open>A_long blurRadius = (A_long)(infoP->sampleBlur / 10.0)\<close>.\<close>

definition effectiveBlurRadius :: "('p, 'm) ColorLinesInfo_scheme \<Rightarrow> int" where
  "effectiveBlurRadius info = truncI (sampleBlur info / 10)"

text \<open>
  First pass of \<^verbatim>\<open>SmartRender\<close>: the mask is allocated and zeroed for the output frame, the
  processing context is built, and the fill-and-mask callback is iterated. The result is
  the output frame, the \<^verbatim>\<open>ColorLinesInfo\<close> with its mask, and the weight cache.
\<close>

definition firstPass ::
  "(Globals \<Rightarrow> ProcessingContext \<Rightarrow> 'p ColorLinesInfo \<Rightarrow> int \<Rightarrow> int \<Rightarrow> 'p \<Rightarrow> 'p \<times> 'p ColorLinesInfo) \<Rightarrow>
   Globals \<Rightarrow> 'p ColorLinesInfo \<Rightarrow> 'p PF_EffectWorld \<Rightarrow> 'p PF_EffectWorld \<Rightarrow>
   'p PF_EffectWorld \<times> 'p ColorLinesInfo \<times> Globals" where
  "firstPass fillAndMask g0 infoP input_world output_world =
     (let info1 = infoP\<lparr> srcWorld := input_world,
                          maskWidth := width output_world,
                          maskHeight := height output_world,
                          maskRowBytes := width output_world,
                          lineMask := (\<lambda>_. 0) \<rparr>;
          (ctx, g1) = InitProcessingContext info1 g0;
          (out1, info2) = iterate (fillAndMask g1 ctx) info1 input_world output_world
      in (out1, info2, g1))"

text \<open>
  The copy of the output frame to the temporary world: for every row, \<^verbatim>\<open>memcpy\<close> of
  \<^verbatim>\<open>output_worldP->rowbytes\<close> bytes to the row of the temporary world, which starts
  \<^verbatim>\<open>tempWorld.rowbytes\<close> bytes after the previous one. Modelled from the spec (a frame
  buffer is a service of the host): the buffer holds \<^verbatim>\<open>height\<close> rows of \<^verbatim>\<open>rowbytes\<close> bytes,
  and the \<^verbatim>\<open>width\<close> pixels of a row come first in it. When the rows of the temporary world
  are shorter than the rows of the output, every copy runs into the next row and the copy
  of the last row writes past the end of the buffer: the result is \<open>None\<close>. Otherwise
  the temporary world holds the pixels of the output, with its own stride.
\<close>

definition copyToTemp :: "int \<Rightarrow> 'p PF_EffectWorld \<Rightarrow> 'p PF_EffectWorld option" where
  "copyToTemp tempRowbytes output_world =
     (if 0 < height output_world \<and> tempRowbytes < rowbytes output_world then None
      else Some \<lparr> width = width output_world, height = height output_world,
                  rowbytes = tempRowbytes, rows = rows output_world \<rparr>)"

text \<open>
  Second pass: the Gaussian table is built, the output is copied to the temporary world
  (of stride \<open>tempRowbytes\<close>), and the blur callback is iterated from the copy into the
  output. \<open>None\<close> when the copy overruns the temporary world.
\<close>

definition secondPass ::
  "(Globals \<Rightarrow> 'p BlurContext \<Rightarrow> 'p ColorLinesInfo \<Rightarrow> int \<Rightarrow> int \<Rightarrow> 'p \<Rightarrow> 'p) \<Rightarrow>
   int \<Rightarrow> int \<Rightarrow> 'p PF_EffectWorld \<times> 'p ColorLinesInfo \<times> Globals \<Rightarrow>
   ('p PF_EffectWorld \<times> Globals) option" where
  "secondPass blurPass radius tempRowbytes p1 =
     (let (out1, info2, g1) = p1;
          g2 = PrecomputeGaussianWeights radius g1
      in case copyToTemp tempRowbytes out1 of
           None \<Rightarrow> None
         | Some temp \<Rightarrow>
             let blurCtx = \<lparr> tempWorld = temp, blurRadius = radius, blurSize = radius * 2 + 1 \<rparr>;
                 (out2, _) = iterate (\<lambda>i x y p. (blurPass g2 blurCtx i x y p, i)) info2 temp out1
             in Some (out2, g2))"

text \<open>
  \<^verbatim>\<open>SmartRender\<close> for one pixel format. An error ends the render where the source sets
  \<^verbatim>\<open>err\<close>, since every later step is guarded by \<^verbatim>\<open>!err\<close>.
\<close>

definition SmartRenderOf ::
  "(Globals \<Rightarrow> ProcessingContext \<Rightarrow> 'p ColorLinesInfo \<Rightarrow> int \<Rightarrow> int \<Rightarrow> 'p \<Rightarrow> 'p \<times> 'p ColorLinesInfo) \<Rightarrow>
   (Globals \<Rightarrow> 'p BlurContext \<Rightarrow> 'p ColorLinesInfo \<Rightarrow> int \<Rightarrow> int \<Rightarrow> 'p \<Rightarrow> 'p) \<Rightarrow>
   HostOutcome \<Rightarrow> Globals \<Rightarrow> 'p ColorLinesInfo \<Rightarrow> 'p PF_EffectWorld \<Rightarrow> 'p PF_EffectWorld \<Rightarrow>
   ('p PF_EffectWorld \<times> Globals) RenderResult" where
  "SmartRenderOf fillAndMask blurPass host g0 infoP input_world output_world =
     (if checkoutErr host \<noteq> PF_Err_NONE then RenderError (checkoutErr host)
      else if formatErr host \<noteq> PF_Err_NONE then RenderError (formatErr host)
      else if \<not> maskAllocated host
              \<and> iteratePixels (width output_world) (height output_world) \<noteq> []
           then NullMaskWrite
      else if iterateErr1 host \<noteq> PF_Err_NONE then RenderError (iterateErr1 host)
      else
        let (out1, info2, g1) = firstPass fillAndMask g0 infoP input_world output_world;
            blurRadius = effectiveBlurRadius info2
        in if blurRadius \<ge> 1 \<and> maskAllocated host then
             (if newWorldErr host \<noteq> PF_Err_NONE then RenderError (newWorldErr host)
              else case secondPass blurPass blurRadius (newWorldRowbytes host) (out1, info2, g1) of
                     None \<Rightarrow> TempWorldOverrun
                   | Some r \<Rightarrow>
                       if iterateErr2 host \<noteq> PF_Err_NONE then RenderError (iterateErr2 host)
                       else Rendered r)
           else Rendered (out1, g1))"

definition SmartRender8 ::
  "HostOutcome \<Rightarrow> Globals \<Rightarrow> PF_Pixel8 ColorLinesInfo \<Rightarrow> PF_Pixel8 PF_EffectWorld \<Rightarrow>
   PF_Pixel8 PF_EffectWorld \<Rightarrow> (PF_Pixel8 PF_EffectWorld \<times> Globals) RenderResult" where
  "SmartRender8 = SmartRenderOf FillAndMask8_Optimized BlurPass8_Optimized"

definition SmartRender16 ::
  "HostOutcome \<Rightarrow> Globals \<Rightarrow> PF_Pixel16 ColorLinesInfo \<Rightarrow> PF_Pixel16 PF_EffectWorld \<Rightarrow>
   PF_Pixel16 PF_EffectWorld \<Rightarrow> (PF_Pixel16 PF_EffectWorld \<times> Globals) RenderResult" where
  "SmartRender16 = SmartRenderOf FillAndMask16_Optimized BlurPass16_Optimized"

definition SmartRenderFloat ::
  "HostOutcome \<Rightarrow> Globals \<Rightarrow> PF_PixelFloat ColorLinesInfo \<Rightarrow> PF_PixelFloat PF_EffectWorld \<Rightarrow>
   PF_PixelFloat PF_EffectWorld \<Rightarrow> (PF_PixelFloat PF_EffectWorld \<times> Globals) RenderResult" where
  "SmartRenderFloat = SmartRenderOf FillAndMaskFloat_Optimized BlurPassFloat_Optimized"

section \<open>Specification-side notions and sample data\<close>

text \<open>Squared Euclidean distance of two RGB triples, as the specification words it.\<close>

definition sqDistRGB :: "real \<Rightarrow> real \<Rightarrow> real \<Rightarrow> real \<Rightarrow> real \<Rightarrow> real \<Rightarrow> real" where
  "sqDistRGB r g b tr tg tb = (r - tr)\<^sup>2 + (g - tg)\<^sup>2 + (b - tb)\<^sup>2"

text \<open>
  A pixel lies in the edge margin when it is within \<^verbatim>\<open>searchRadius\<close> of a border of the
  source frame.
\<close>

definition inEdgeMargin :: "('p, 'm) ColorLinesInfo_scheme \<Rightarrow> int \<Rightarrow> int \<Rightarrow> bool" where
  "inEdgeMargin info x y =
     (x < searchRadius info \<or> y < searchRadius info \<or>
      x \<ge> width (srcWorld info) - searchRadius info \<or>
      y \<ge> height (srcWorld info) - searchRadius info)"

text \<open>
  Sample frames: 5 by 5 pixels, one pixel of the target color (pure red) at \<open>(2, 2)\<close> on a
  green background, search radius 1, tolerance 10.
\<close>

definition exPixel8 :: "int \<Rightarrow> int \<Rightarrow> int \<Rightarrow> int \<Rightarrow> PF_Pixel8" where
  "exPixel8 a r g b =
     \<lparr> alpha = word_of_int a, red = word_of_int r, green = word_of_int g, blue = word_of_int b \<rparr>"

definition exPixel16 :: "int \<Rightarrow> int \<Rightarrow> int \<Rightarrow> int \<Rightarrow> PF_Pixel16" where
  "exPixel16 a r g b =
     \<lparr> alpha = word_of_int a, red = word_of_int r, green = word_of_int g, blue = word_of_int b \<rparr>"

definition exPixelF :: "real \<Rightarrow> real \<Rightarrow> real \<Rightarrow> real \<Rightarrow> PF_PixelFloat" where
  "exPixelF a r g b = \<lparr> alpha = a, red = r, green = g, blue = b \<rparr>"

definition exWorld :: "'p \<Rightarrow> 'p \<Rightarrow> 'p PF_EffectWorld" where
  "exWorld line bg =
     \<lparr> width = 5, height = 5, rowbytes = 80, rows = (\<lambda>y x. if x = 2 \<and> y = 2 then line else bg) \<rparr>"

definition exInfo :: "'p PF_EffectWorld \<Rightarrow> int \<Rightarrow> int \<Rightarrow> real \<Rightarrow> 'p ColorLinesInfo" where
  "exInfo world fm om br =
     \<lparr> targetColor = exPixel8 255 255 0 0, tolerance = 10, fillMode = fm, searchRadius = 1,
       ignoreTransparent = True, sampleBlur = 25, brightness = br, contrast = 0,
       saturation = 0, outputMode = om, srcWorld = world, lineMask = (\<lambda>_. 0),
       maskWidth = 5, maskHeight = 5, maskRowBytes = 5 \<rparr>"

definition exInfo8 :: "int \<Rightarrow> int \<Rightarrow> real \<Rightarrow> PF_Pixel8 ColorLinesInfo" where
  "exInfo8 = exInfo (exWorld (exPixel8 255 255 0 0) (exPixel8 255 0 255 0))"

definition exInfo16 :: "int \<Rightarrow> int \<Rightarrow> real \<Rightarrow> PF_Pixel16 ColorLinesInfo" where
  "exInfo16 = exInfo (exWorld (exPixel16 32768 32768 0 0) (exPixel16 32768 0 32768 0))"

definition exInfoF :: "int \<Rightarrow> int \<Rightarrow> real \<Rightarrow> PF_PixelFloat ColorLinesInfo" where
  "exInfoF = exInfo (exWorld (exPixelF 1 1 0 0) (exPixelF 1 0 1 0))"

text \<open>
  A neighbor is disqualified when it is out of the frame or taken by one of the two
  \<^verbatim>\<open>continue\<close> tests (\<open>skip\<close>: sub-maximum alpha under ignore-transparent, or target color).
  \<open>allNeighborsDisqualified\<close>: every neighbor of \<open>(x, y)\<close> in the square window, the centre
  apart, is disqualified.
\<close>

definition neighborDisqualified :: "('p \<Rightarrow> bool) \<Rightarrow> 'p PF_EffectWorld \<Rightarrow> int \<Rightarrow> int \<Rightarrow> bool" where
  "neighborDisqualified skip world nx ny =
     (ny < 0 \<or> ny \<ge> height world \<or> nx < 0 \<or> nx \<ge> width world \<or> skip (rows world ny nx))"

definition allNeighborsDisqualified ::
  "('p \<Rightarrow> bool) \<Rightarrow> 'p PF_EffectWorld \<Rightarrow> int \<Rightarrow> int \<Rightarrow> int \<Rightarrow> bool" where
  "allNeighborsDisqualified skip world radius x y =
     list_all (\<lambda>dy. list_all (\<lambda>dx. (dx = 0 \<and> dy = 0) \<or>
                 neighborDisqualified skip world (x + dx) (y + dy)) [- radius..radius])
       [- radius..radius]"

text \<open>Sample frames in which every pixel has the target color.\<close>

definition exInfoAllRed8 :: "int \<Rightarrow> real \<Rightarrow> PF_Pixel8 ColorLinesInfo" where
  "exInfoAllRed8 fm br =
     exInfo (exWorld (exPixel8 255 255 0 0) (exPixel8 255 255 0 0)) fm 1 br"

definition exInfoAllRed16 :: "int \<Rightarrow> real \<Rightarrow> PF_Pixel16 ColorLinesInfo" where
  "exInfoAllRed16 fm br =
     exInfo (exWorld (exPixel16 32768 32768 0 0) (exPixel16 32768 32768 0 0)) fm 1 br"

definition exInfoAllRedF :: "int \<Rightarrow> real \<Rightarrow> PF_PixelFloat ColorLinesInfo" where
  "exInfoAllRedF fm br = exInfo (exWorld (exPixelF 1 1 0 0) (exPixelF 1 1 0 0)) fm 1 br"

text \<open>
  The Gaussian table as the specification gives it: the entry of offset \<open>(dx, dy)\<close> within
  \<open>\<plusminus>r\<close>, at the flat index \<open>(dy + r) * (2 * r + 1) + (dx + r)\<close>, is
  \<open>exp (- (dx\<^sup>2 + dy\<^sup>2) / (2 * r\<^sup>2))\<close>.
\<close>

definition gaussianTableFor :: "int \<Rightarrow> (int \<Rightarrow> real) \<Rightarrow> bool" where
  "gaussianTableFor r tbl =
     (\<forall>dy\<in>{- r..r}. \<forall>dx\<in>{- r..r}.
        tbl ((dy + r) * (r * 2 + 1) + (dx + r))
          = exp (- real_of_int (dx * dx + dy * dy) / (2 * real_of_int r * real_of_int r)))"

text \<open>
  The cache is valid when the radius it records is 0 (nothing built yet) or the table holds
  the weights of that radius.
\<close>

definition gaussianCacheValid :: "Globals \<Rightarrow> bool" where
  "gaussianCacheValid g =
     (g_currentBlurRadius g = 0 \<or>
      (1 \<le> g_currentBlurRadius g \<and> g_currentBlurRadius g \<le> MAX_WEIGHT_TABLE_RADIUS \<and>
       gaussianTableFor (g_currentBlurRadius g) (g_gaussianWeights g)))"

text \<open>One row of the table-building loop of \<^verbatim>\<open>PrecomputeGaussianWeights\<close>, named for the proofs.\<close>

definition gaussStep :: "int \<Rightarrow> (int \<Rightarrow> real) \<Rightarrow> int \<Rightarrow> (int \<Rightarrow> real)" where
  "gaussStep r t dy =
     foldl (\<lambda>t dx. t((dy + r) * (r * 2 + 1) + (dx + r)
              := exp (- real_of_int (dx * dx + dy * dy) / (2 * real_of_int r * real_of_int r))))
       t [- r..r]"

text \<open>The pixel a fill or blur loop writes when the total weight is positive.\<close>

definition weightedAverage :: "(real \<Rightarrow> 'c) \<Rightarrow> Accum \<Rightarrow> 'c PF_PixelOf" where
  "weightedAverage clampOut acc =
     \<lparr> alpha = clampOut (sumA acc * (1 / totalWeight acc)),
       red = clampOut (sumR acc * (1 / totalWeight acc)),
       green = clampOut (sumG acc * (1 / totalWeight acc)),
       blue = clampOut (sumB acc * (1 / totalWeight acc)) \<rparr>"

text \<open>The sample 8-bit frame with the mask cells of \<open>(2, 2)\<close> and \<open>(3, 2)\<close> set.\<close>

definition exMaskInfo :: "PF_Pixel8 ColorLinesInfo" where
  "exMaskInfo = (exInfo8 2 1 0)\<lparr>lineMask := (\<lambda>i. if i = 12 \<or> i = 13 then 255 else 0)\<rparr>"

text \<open>
  A render gets through pass 1: the checkouts, the mask allocation, the pixel format query
  and the first \<^verbatim>\<open>iterate\<close> call all succeeded.
\<close>

definition pass1Succeeds :: "HostOutcome \<Rightarrow> bool" where
  "pass1Succeeds host =
     (checkoutErr host = PF_Err_NONE \<and> maskAllocated host \<and> formatErr host = PF_Err_NONE \<and>
      iterateErr1 host = PF_Err_NONE)"

text \<open>
  The host services of pass 2 succeed: \<^verbatim>\<open>PF_NewWorld\<close> and the second \<^verbatim>\<open>iterate\<close> call return
  no error, and the rows of the temporary world are at least as long as those of the
  output frame (unless the frame has no row).
\<close>

definition pass2Succeeds :: "HostOutcome \<Rightarrow> 'p PF_EffectWorld \<Rightarrow> bool" where
  "pass2Succeeds host output_world =
     (newWorldErr host = PF_Err_NONE \<and> iterateErr2 host = PF_Err_NONE \<and>
      \<not> (0 < height output_world \<and> newWorldRowbytes host < rowbytes output_world))"

text \<open>The Sample Blur value is one the slider can give.\<close>

definition sampleBlurInRange :: "('p, 'm) ColorLinesInfo_scheme \<Rightarrow> bool" where
  "sampleBlurInRange info =
     (SAMPLE_BLUR_MIN \<le> sampleBlur info \<and> sampleBlur info \<le> SAMPLE_BLUR_MAX)"

text \<open>
  The snapshot the blur callbacks read: the pixels of the pass-1 output in a world with
  the stride of the temporary world.
\<close>

definition snapshotOf :: "HostOutcome \<Rightarrow> 'p PF_EffectWorld \<Rightarrow> 'p PF_EffectWorld" where
  "snapshotOf host out1 = out1\<lparr>rowbytes := newWorldRowbytes host\<rparr>"

text \<open>
  What a render returns when the blur pass has run at the given radius after the pass-1
  result \<open>p1\<close> (output frame, info with its mask, weight cache): a frame of the same size in
  which the pixel \<open>(x, y)\<close> is what the blur callback computes for it from the snapshot of
  the pass-1 frame, with the Gaussian table built for that radius left in the cache. And
  what it returns when the blur pass was skipped: the pass-1 frame and cache.
\<close>

definition blurPassRan ::
  "(Globals \<Rightarrow> 'p BlurContext \<Rightarrow> 'p ColorLinesInfo \<Rightarrow> int \<Rightarrow> int \<Rightarrow> 'p \<Rightarrow> 'p) \<Rightarrow> int \<Rightarrow>
   HostOutcome \<Rightarrow> 'p PF_EffectWorld \<times> 'p ColorLinesInfo \<times> Globals \<Rightarrow> int \<Rightarrow> int \<Rightarrow>
   ('p PF_EffectWorld \<times> Globals) RenderResult \<Rightarrow> bool" where
  "blurPassRan blurPass radius host p1 x y res =
     (case res of
        Rendered r \<Rightarrow>
          snd r = PrecomputeGaussianWeights radius (snd (snd p1)) \<and>
          width (fst r) = width (fst p1) \<and> height (fst r) = height (fst p1) \<and>
          (0 \<le> x \<and> x < width (fst p1) \<and> 0 \<le> y \<and> y < height (fst p1) \<longrightarrow>
             rows (fst r) y x =
               blurPass (PrecomputeGaussianWeights radius (snd (snd p1)))
                 \<lparr> tempWorld = snapshotOf host (fst p1), blurRadius = radius,
                   blurSize = radius * 2 + 1 \<rparr>
                 (fst (snd p1)) x y (rows (fst p1) y x))
      | _ \<Rightarrow> False)"

definition blurPassSkipped ::
  "'p PF_EffectWorld \<times> 'p ColorLinesInfo \<times> Globals \<Rightarrow>
   ('p PF_EffectWorld \<times> Globals) RenderResult \<Rightarrow> bool" where
  "blurPassSkipped p1 res = (res = Rendered (fst p1, snd (snd p1)))"

text \<open>
  The Color Adjuster in the spec's words. \<open>clampNative hi v\<close> is \<open>v\<close> clamped to the native
  range \<open>[0, hi]\<close> and truncated to an integer channel. \<open>brightnessContrast clampMid adj x\<close>
  is the brightness offset followed by the contrast response on one normalised channel,
  each step toggled by its flag, with \<open>clampMid\<close> applied to the result of each active step.
  \<open>scaleSaturation adj rgb\<close> is the round trip through HSL with the saturation scaled and
  clamped to \<open>[0, 1]\<close>. \<open>normalised8\<close> and \<open>normalised16\<close> are the normalised channels of a
  pixel.
\<close>

definition clampNative :: "int \<Rightarrow> real \<Rightarrow> int" where
  "clampNative hi v = (if v < 0 then 0 else if v > real_of_int hi then hi else \<lfloor>v\<rfloor>)"

definition brightnessContrast :: "(real \<Rightarrow> real) \<Rightarrow> ColorAdjustParams \<Rightarrow> real \<Rightarrow> real" where
  "brightnessContrast clampMid adj x =
     (let x1 = (if needsBrightness adj then clampMid (x + brightnessFactor adj) else x)
      in if needsContrast adj then clampMid (0.5 + (x1 - 0.5) * contrastFactor adj) else x1)"

definition scaleSaturation :: "ColorAdjustParams \<Rightarrow> real \<times> real \<times> real \<Rightarrow> real \<times> real \<times> real" where
  "scaleSaturation adj rgb =
     (let (r, g, b) = rgb;
          (h, s, l) = RGBtoHSL r g b
      in HSLtoRGB h (Clamp01 (s * saturationFactor adj)) l)"

definition normalised8 :: "PF_Pixel8 \<Rightarrow> real \<times> real \<times> real" where
  "normalised8 p =
     (real_of_int (uint (red p)) * 0.00392156863, real_of_int (uint (green p)) * 0.00392156863,
      real_of_int (uint (blue p)) * 0.00392156863)"

definition normalised16 :: "PF_Pixel16 \<Rightarrow> real \<times> real \<times> real" where
  "normalised16 p =
     (real_of_int (uint (red p)) / 32768, real_of_int (uint (green p)) / 32768,
      real_of_int (uint (blue p)) / 32768)"

definition exHost :: HostOutcome where
  "exHost = \<lparr> checkoutErr = PF_Err_NONE, maskAllocated = True, formatErr = PF_Err_NONE,
             iterateErr1 = PF_Err_NONE, newWorldErr = PF_Err_NONE, newWorldRowbytes = 80,
             iterateErr2 = PF_Err_NONE \<rparr>"

text \<open>
  Two notions for the proof of the HSL round trip. \<open>hueLin p d T\<close> is \<^verbatim>\<open>HueToRGB\<close> with
  \<open>q = p + d\<close> and \<open>t = T / d\<close>, every comparison multiplied through by \<open>d > 0\<close>, so that
  it is piecewise linear in its arguments. \<open>hueNumer r g b\<close> is the hue of \<^verbatim>\<open>RGBtoHSL\<close>
  multiplied by \<open>delta\<close>.
\<close>

definition hueLin :: "real \<Rightarrow> real \<Rightarrow> real \<Rightarrow> real" where
  "hueLin p d T =
     (let T1 = (if T < 0 then T + d else if T > d then T - d else T)
      in if T1 < 0.166666667 * d then p + 6 * T1
         else if T1 < 0.5 * d then p + d
         else if T1 < 0.666666667 * d then p + (0.666666667 * d - T1) * 6
         else p)"

definition hueNumer :: "real \<Rightarrow> real \<Rightarrow> real \<Rightarrow> real" where
  "hueNumer r g b =
     (let M = max r (max g b); d = M - min r (min g b)
      in 0.166666667 *
         (if M = r then (g - b) + (if g < b then 6 * d else 0)
          else if M = g then (b - r) + 2 * d
          else (r - g) + 4 * d))"

text \<open>The four branches of \<open>hueLin\<close>, after the wrap-around of its argument.\<close>

definition hueBranch :: "real \<Rightarrow> real \<Rightarrow> real \<Rightarrow> real" where
  "hueBranch p d T1 =
     (if T1 < 0.166666667 * d then p + 6 * T1
      else if T1 < 0.5 * d then p + d
      else if T1 < 0.666666667 * d then p + (0.666666667 * d - T1) * 6
      else p)"

section \<open>Basic facts\<close>

lemmas mode_defs =
  FILL_MODE_NEAREST_def FILL_MODE_AVERAGE_def FILL_MODE_WEIGHTED_def
  OUTPUT_MODE_FULL_def OUTPUT_MODE_LINE_ONLY_def OUTPUT_MODE_BG_ONLY_def

lemmas ex_defs =
  exPixel8_def exPixel16_def exPixelF_def exWorld_def exInfo_def exInfo8_def
  exInfo16_def exInfoF_def

lemma GetMaskAtFast_SetMaskAtFast [simp]: "GetMaskAtFast (SetMaskAtFast info x y v) x y = v"
  by (simp add: GetMaskAtFast_def SetMaskAtFast_def)

lemma GetMaskAt_SetMaskAtFast_0 [simp]: "GetMaskAt (SetMaskAtFast info x y 0) x y = 0"
  by (simp add: GetMaskAt_def SetMaskAtFast_def)

lemma outputMode_SetMaskAtFast [simp]: "outputMode (SetMaskAtFast info x y v) = outputMode info"
  by (simp add: SetMaskAtFast_def)

lemma uint8_range: "0 \<le> uint (c :: 8 word) \<and> uint c \<le> 255"
  using uint_lt2p [of c] by simp

lemma InitProcessingContext_margin:
  "edgeMargin (fst (InitProcessingContext info g)) = searchRadius info"
  "ctxWidth (fst (InitProcessingContext info g)) = width (srcWorld info)"
  "ctxHeight (fst (InitProcessingContext info g)) = height (srcWorld info)"
  by (simp_all add: InitProcessingContext_def Let_def)
section \<open>Color matcher\<close>

text \<open>
  The \<^verbatim>\<open>A_long\<close> arithmetic of \<^verbatim>\<open>IsTargetColor8Fast\<close> does not overflow: the target
  channels come from an 8-bit color, so the squared distance is at most \<open>3 * 255\<^sup>2\<close>.
\<close>

lemma sq_le_255: "\<bar>d\<bar> \<le> (255::int) \<Longrightarrow> 0 \<le> d * d \<and> d * d \<le> 65025"
proof -
  assume a: "\<bar>d\<bar> \<le> 255"
  have "d * d = \<bar>d\<bar> * \<bar>d\<bar>" by simp
  also have "\<dots> \<le> 255 * 255" using a by (intro mult_mono) auto
  finally show ?thesis by simp
qed

lemma distSq8_fits_A_long:
  assumes "0 \<le> tR" "tR \<le> 255" "0 \<le> tG" "tG \<le> 255" "0 \<le> tB" "tB \<le> 255"
  shows "0 \<le> (uint (red (p::PF_Pixel8)) - tR) * (uint (red p) - tR)
            + (uint (green p) - tG) * (uint (green p) - tG)
            + (uint (blue p) - tB) * (uint (blue p) - tB)
       \<and> (uint (red p) - tR) * (uint (red p) - tR)
            + (uint (green p) - tG) * (uint (green p) - tG)
            + (uint (blue p) - tB) * (uint (blue p) - tB) < 2 ^ 31"
proof -
  have "\<bar>uint (red p) - tR\<bar> \<le> 255" "\<bar>uint (green p) - tG\<bar> \<le> 255" "\<bar>uint (blue p) - tB\<bar> \<le> 255"
    using assms uint8_range [of "red p"] uint8_range [of "green p"] uint8_range [of "blue p"]
    by linarith+
  from this [THEN sq_le_255]
  have "0 \<le> (uint (red p) - tR) * (uint (red p) - tR)
            + (uint (green p) - tG) * (uint (green p) - tG)
            + (uint (blue p) - tB) * (uint (blue p) - tB)
       \<and> (uint (red p) - tR) * (uint (red p) - tR)
            + (uint (green p) - tG) * (uint (green p) - tG)
            + (uint (blue p) - tB) * (uint (blue p) - tB) \<le> 195075"
    by linarith
  moreover have "(195075::int) < 2 ^ 31" by simp
  ultimately show ?thesis by linarith
qed

lemma InitProcessingContext_target8_range:
  "0 \<le> targetR8 (fst (InitProcessingContext info g)) \<and> targetR8 (fst (InitProcessingContext info g)) \<le> 255"
  "0 \<le> targetG8 (fst (InitProcessingContext info g)) \<and> targetG8 (fst (InitProcessingContext info g)) \<le> 255"
  "0 \<le> targetB8 (fst (InitProcessingContext info g)) \<and> targetB8 (fst (InitProcessingContext info g)) \<le> 255"
  by (simp_all add: InitProcessingContext_def Let_def uint8_range)

text \<open>The per-frame values handed to the matchers: target and tolerance, scaled once.\<close>

lemma InitProcessingContext_scaled:
  "real_of_int (targetR8 (fst (InitProcessingContext info g))) = chanW (red (targetColor info))"
  "toleranceSq8 (fst (InitProcessingContext info g)) = (tolerance info * 4.4167)\<^sup>2"
  "targetR16 (fst (InitProcessingContext info g)) = chanW (red (targetColor info)) * (32768 / 255)"
  "targetG16 (fst (InitProcessingContext info g)) = chanW (green (targetColor info)) * (32768 / 255)"
  "targetB16 (fst (InitProcessingContext info g)) = chanW (blue (targetColor info)) * (32768 / 255)"
  "toleranceSq16 (fst (InitProcessingContext info g)) = (tolerance info * 4.4167 * (32768 / 255))\<^sup>2"
  "targetRF (fst (InitProcessingContext info g)) = chanW (red (targetColor info)) * (1 / 255)"
  "targetGF (fst (InitProcessingContext info g)) = chanW (green (targetColor info)) * (1 / 255)"
  "targetBF (fst (InitProcessingContext info g)) = chanW (blue (targetColor info)) * (1 / 255)"
  "toleranceSqF (fst (InitProcessingContext info g)) = (tolerance info * 4.4167 * (1 / 255))\<^sup>2"
  by (simp_all add: InitProcessingContext_def Let_def chanW_def PF_MAX_CHAN16_def power2_eq_square)

lemma IsTargetColor8Fast_iff:
  "IsTargetColor8Fast p tR tG tB tolSq \<longleftrightarrow>
     sqDistRGB (chanW (red p)) (chanW (green p)) (chanW (blue p))
       (real_of_int tR) (real_of_int tG) (real_of_int tB) \<le> tolSq"
  by (simp add: IsTargetColor8Fast_def sqDistRGB_def chanW_def Let_def power2_eq_square)

lemma IsTargetColor16Fast_iff:
  "IsTargetColor16Fast p tR tG tB tolSq \<longleftrightarrow>
     sqDistRGB (chanW (red p)) (chanW (green p)) (chanW (blue p)) tR tG tB \<le> tolSq"
  by (simp add: IsTargetColor16Fast_def sqDistRGB_def Let_def power2_eq_square)

lemma IsTargetColorFloatFast_iff:
  "IsTargetColorFloatFast p tR tG tB tolSq \<longleftrightarrow>
     sqDistRGB (red p) (green p) (blue p) tR tG tB \<le> tolSq"
  by (simp add: IsTargetColorFloatFast_def sqDistRGB_def Let_def power2_eq_square)

text \<open>
  Claim C1. For each bit depth the matcher returns true exactly when the squared
  Euclidean RGB distance between the pixel and the (scaled) target is at most
  \<open>toleranceSq\<close>; a pixel whose squared distance equals \<open>toleranceSq\<close> is a match. The
  16-bit and float matchers are stated in the exact-arithmetic model of \<^verbatim>\<open>PF_FpLong\<close>.
\<close>

theorem IsTargetColor_iff_sqDist_le_toleranceSq:
  fixes p8 :: PF_Pixel8 and p16 :: PF_Pixel16 and pF :: PF_PixelFloat
  shows
    "(IsTargetColor8Fast p8 tR8 tG8 tB8 tol \<longleftrightarrow>
        sqDistRGB (chanW (red p8)) (chanW (green p8)) (chanW (blue p8))
          (real_of_int tR8) (real_of_int tG8) (real_of_int tB8) \<le> tol)
     \<and> (IsTargetColor16Fast p16 tR tG tB tol \<longleftrightarrow>
        sqDistRGB (chanW (red p16)) (chanW (green p16)) (chanW (blue p16)) tR tG tB \<le> tol)
     \<and> (IsTargetColorFloatFast pF tR tG tB tol \<longleftrightarrow>
        sqDistRGB (red pF) (green pF) (blue pF) tR tG tB \<le> tol)
     \<and> IsTargetColor8Fast p8 tR8 tG8 tB8
          (sqDistRGB (chanW (red p8)) (chanW (green p8)) (chanW (blue p8))
             (real_of_int tR8) (real_of_int tG8) (real_of_int tB8))
     \<and> IsTargetColor16Fast p16 tR tG tB
          (sqDistRGB (chanW (red p16)) (chanW (green p16)) (chanW (blue p16)) tR tG tB)
     \<and> IsTargetColorFloatFast pF tR tG tB (sqDistRGB (red pF) (green pF) (blue pF) tR tG tB)"
  by (simp add: IsTargetColor8Fast_iff IsTargetColor16Fast_iff IsTargetColorFloatFast_iff)

text \<open>A concrete boundary case: distance 5 from black, tolerance squared 25 and 24.\<close>

lemma IsTargetColor8Fast_boundary_example:
  "IsTargetColor8Fast (exPixel8 255 3 4 0) 0 0 0 25 \<and> \<not> IsTargetColor8Fast (exPixel8 255 3 4 0) 0 0 0 24"
  by (simp add: IsTargetColor8Fast_def exPixel8_def)
section \<open>Pass 1: edge margin and output modes\<close>

lemma FillAndMaskOf_edge:
  assumes "xL < edgeMargin ctx \<or> yL < edgeMargin ctx \<or> xL \<ge> ctxWidth ctx - edgeMargin ctx \<or>
           yL \<ge> ctxHeight ctx - edgeMargin ctx"
  shows "FillAndMaskOf isTarget fill opaque zero ctx info xL yL inP
           = (inP, SetMaskAtFast info xL yL 0)"
  using assms by (simp add: FillAndMaskOf_def)

text \<open>
  Claim C2. A pixel within \<^verbatim>\<open>searchRadius\<close> of a border is written to the output as it
  is, and its mask cell is set to 0, whatever its color, in all three bit depths.
\<close>

theorem edge_margin_passthrough:
  "(inEdgeMargin info8 x y \<longrightarrow>
      fst (FillAndMask8_Optimized g (fst (InitProcessingContext info8 g0)) info8 x y in8) = in8 \<and>
      GetMaskAtFast (snd (FillAndMask8_Optimized g (fst (InitProcessingContext info8 g0))
                            info8 x y in8)) x y = 0)
   \<and> (inEdgeMargin info16 x y \<longrightarrow>
      fst (FillAndMask16_Optimized g (fst (InitProcessingContext info16 g0)) info16 x y in16) = in16 \<and>
      GetMaskAtFast (snd (FillAndMask16_Optimized g (fst (InitProcessingContext info16 g0))
                            info16 x y in16)) x y = 0)
   \<and> (inEdgeMargin infoF x y \<longrightarrow>
      fst (FillAndMaskFloat_Optimized g (fst (InitProcessingContext infoF g0)) infoF x y inF) = inF \<and>
      GetMaskAtFast (snd (FillAndMaskFloat_Optimized g (fst (InitProcessingContext infoF g0))
                            infoF x y inF)) x y = 0)"
  by (simp add: inEdgeMargin_def FillAndMask8_Optimized_def FillAndMask16_Optimized_def
      FillAndMaskFloat_Optimized_def FillAndMaskOf_edge InitProcessingContext_margin)

theorem edge_margin_passthrough_witness:
  "inEdgeMargin (exInfo8 2 1 0) 0 3 \<and> inEdgeMargin (exInfo16 2 1 0) 0 3
   \<and> inEdgeMargin (exInfoF 2 1 0) 0 3
   \<and> fst (FillAndMask8_Optimized initialGlobals
            (fst (InitProcessingContext (exInfo8 2 1 0) initialGlobals))
            (exInfo8 2 1 0) 0 3 (exPixel8 255 255 0 0)) = exPixel8 255 255 0 0
   \<and> GetMaskAtFast (snd (FillAndMask8_Optimized initialGlobals
            (fst (InitProcessingContext (exInfo8 2 1 0) initialGlobals))
            (exInfo8 2 1 0) 0 3 (exPixel8 255 255 0 0))) 0 3 = 0
   \<and> fst (FillAndMask16_Optimized initialGlobals
            (fst (InitProcessingContext (exInfo16 2 1 0) initialGlobals))
            (exInfo16 2 1 0) 0 3 (exPixel16 32768 32768 0 0)) = exPixel16 32768 32768 0 0
   \<and> fst (FillAndMaskFloat_Optimized initialGlobals
            (fst (InitProcessingContext (exInfoF 2 1 0) initialGlobals))
            (exInfoF 2 1 0) 0 3 (exPixelF 1 1 0 0)) = exPixelF 1 1 0 0"
  using edge_margin_passthrough [of "exInfo8 2 1 0" 0 3 initialGlobals initialGlobals
      "exPixel8 255 255 0 0" "exInfo16 2 1 0" "exPixel16 32768 32768 0 0"
      "exInfoF 2 1 0" "exPixelF 1 1 0 0"]
  by (simp add: inEdgeMargin_def ex_defs)
lemma FillAndMaskOf_inner:
  assumes "\<not> (xL < edgeMargin ctx \<or> yL < edgeMargin ctx \<or> xL \<ge> ctxWidth ctx - edgeMargin ctx \<or>
           yL \<ge> ctxHeight ctx - edgeMargin ctx)"
  shows "GetMaskAtFast (snd (FillAndMaskOf isTarget fill opaque zero ctx info xL yL inP)) xL yL
           = (if isTarget inP then 255 else 0)"
    and "outputMode info = OUTPUT_MODE_LINE_ONLY \<Longrightarrow> \<not> isTarget inP \<Longrightarrow>
         fst (FillAndMaskOf isTarget fill opaque zero ctx info xL yL inP)
           = \<lparr> alpha = zero, red = zero, green = zero, blue = zero \<rparr>"
    and "outputMode info = OUTPUT_MODE_BG_ONLY \<Longrightarrow> isTarget inP \<Longrightarrow>
         fst (FillAndMaskOf isTarget fill opaque zero ctx info xL yL inP)
           = \<lparr> alpha = zero, red = zero, green = zero, blue = zero \<rparr>"
  using assms by (simp_all add: FillAndMaskOf_def Let_def mode_defs)

lemma FillAndMaskOf_lineonly:
  assumes "\<not> (xL < edgeMargin ctx \<or> yL < edgeMargin ctx \<or> xL \<ge> ctxWidth ctx - edgeMargin ctx \<or>
           yL \<ge> ctxHeight ctx - edgeMargin ctx)"
    and "outputMode info = OUTPUT_MODE_LINE_ONLY"
    and "GetMaskAtFast (snd (FillAndMaskOf isTarget fill opaque zero ctx info xL yL inP)) xL yL = 0"
  shows "fst (FillAndMaskOf isTarget fill opaque zero ctx info xL yL inP)
           = \<lparr> alpha = zero, red = zero, green = zero, blue = zero \<rparr>"
proof -
  have "\<not> isTarget inP"
    using assms(3) FillAndMaskOf_inner(1) [OF assms(1), of isTarget fill opaque zero info inP]
    by (auto split: if_splits)
  then show ?thesis using FillAndMaskOf_inner(2) [OF assms(1,2)] by simp
qed

lemma FillAndMaskOf_bgonly:
  assumes "outputMode info = OUTPUT_MODE_BG_ONLY"
    and "GetMaskAtFast (snd (FillAndMaskOf isTarget fill opaque zero ctx info xL yL inP)) xL yL = 255"
  shows "fst (FillAndMaskOf isTarget fill opaque zero ctx info xL yL inP)
           = \<lparr> alpha = zero, red = zero, green = zero, blue = zero \<rparr>"
proof (cases "xL < edgeMargin ctx \<or> yL < edgeMargin ctx \<or> xL \<ge> ctxWidth ctx - edgeMargin ctx \<or>
           yL \<ge> ctxHeight ctx - edgeMargin ctx")
  case True
  then show ?thesis using assms(2) by (simp add: FillAndMaskOf_edge)
next
  case False
  have "isTarget inP"
    using assms(2) FillAndMaskOf_inner(1) [OF False, of isTarget fill opaque zero info inP]
    by (auto split: if_splits)
  then show ?thesis using FillAndMaskOf_inner(3) [OF False assms(1)] by simp
qed

lemma not_inEdgeMargin_ctx:
  "\<not> inEdgeMargin info x y \<Longrightarrow> ctx = fst (InitProcessingContext info g0) \<Longrightarrow>
   \<not> (x < edgeMargin ctx \<or> y < edgeMargin ctx \<or> x \<ge> ctxWidth ctx - edgeMargin ctx \<or>
           y \<ge> ctxHeight ctx - edgeMargin ctx)"
  by (simp add: inEdgeMargin_def InitProcessingContext_margin)

text \<open>
  Claim C3, as amended. After the pass-1 callback, in all three bit depths: in LineOnly
  mode a pixel outside the edge margin whose mask cell is 0 has alpha 0; in
  BackgroundOnly mode a pixel whose mask cell is 255 has alpha 0. (In both cases the
  pixel written is transparent black, lemmas \<open>FillAndMaskOf_lineonly\<close> and
  \<open>FillAndMaskOf_bgonly\<close>.) An edge-margin pixel keeps its input alpha in every mode.
\<close>

theorem output_mode_alpha:
  "(\<not> inEdgeMargin info8 x y \<and> outputMode info8 = OUTPUT_MODE_LINE_ONLY \<and>
      GetMaskAtFast (snd (FillAndMask8_Optimized g (fst (InitProcessingContext info8 g0)) info8 x y in8)) x y = 0
      \<longrightarrow> alpha (fst (FillAndMask8_Optimized g (fst (InitProcessingContext info8 g0)) info8 x y in8)) = 0)
   \<and> (outputMode info8 = OUTPUT_MODE_BG_ONLY \<and>
      GetMaskAtFast (snd (FillAndMask8_Optimized g (fst (InitProcessingContext info8 g0)) info8 x y in8)) x y = 255
      \<longrightarrow> alpha (fst (FillAndMask8_Optimized g (fst (InitProcessingContext info8 g0)) info8 x y in8)) = 0)
   \<and> (\<not> inEdgeMargin info16 x y \<and> outputMode info16 = OUTPUT_MODE_LINE_ONLY \<and>
      GetMaskAtFast (snd (FillAndMask16_Optimized g (fst (InitProcessingContext info16 g0)) info16 x y in16)) x y = 0
      \<longrightarrow> alpha (fst (FillAndMask16_Optimized g (fst (InitProcessingContext info16 g0)) info16 x y in16)) = 0)
   \<and> (outputMode info16 = OUTPUT_MODE_BG_ONLY \<and>
      GetMaskAtFast (snd (FillAndMask16_Optimized g (fst (InitProcessingContext info16 g0)) info16 x y in16)) x y = 255
      \<longrightarrow> alpha (fst (FillAndMask16_Optimized g (fst (InitProcessingContext info16 g0)) info16 x y in16)) = 0)
   \<and> (\<not> inEdgeMargin infoF x y \<and> outputMode infoF = OUTPUT_MODE_LINE_ONLY \<and>
      GetMaskAtFast (snd (FillAndMaskFloat_Optimized g (fst (InitProcessingContext infoF g0)) infoF x y inF)) x y = 0
      \<longrightarrow> alpha (fst (FillAndMaskFloat_Optimized g (fst (InitProcessingContext infoF g0)) infoF x y inF)) = 0)
   \<and> (outputMode infoF = OUTPUT_MODE_BG_ONLY \<and>
      GetMaskAtFast (snd (FillAndMaskFloat_Optimized g (fst (InitProcessingContext infoF g0)) infoF x y inF)) x y = 255
      \<longrightarrow> alpha (fst (FillAndMaskFloat_Optimized g (fst (InitProcessingContext infoF g0)) infoF x y inF)) = 0)"
  unfolding FillAndMask8_Optimized_def FillAndMask16_Optimized_def FillAndMaskFloat_Optimized_def
  by (intro conjI impI; elim conjE)
     (simp_all add: FillAndMaskOf_lineonly [OF not_inEdgeMargin_ctx [OF _ refl]] FillAndMaskOf_bgonly)

theorem output_mode_alpha_witness:
  "(\<not> inEdgeMargin (exInfo8 2 2 0) 1 1 \<and> outputMode (exInfo8 2 2 0) = OUTPUT_MODE_LINE_ONLY \<and>
     GetMaskAtFast (snd (FillAndMask8_Optimized initialGlobals
        (fst (InitProcessingContext (exInfo8 2 2 0) initialGlobals)) (exInfo8 2 2 0) 1 1
        (exPixel8 255 0 255 0))) 1 1 = 0 \<and>
     alpha (fst (FillAndMask8_Optimized initialGlobals
        (fst (InitProcessingContext (exInfo8 2 2 0) initialGlobals)) (exInfo8 2 2 0) 1 1
        (exPixel8 255 0 255 0))) = 0)
   \<and> (outputMode (exInfo8 2 3 0) = OUTPUT_MODE_BG_ONLY \<and>
     GetMaskAtFast (snd (FillAndMask8_Optimized initialGlobals
        (fst (InitProcessingContext (exInfo8 2 3 0) initialGlobals)) (exInfo8 2 3 0) 2 2
        (exPixel8 255 255 0 0))) 2 2 = 255 \<and>
     alpha (fst (FillAndMask8_Optimized initialGlobals
        (fst (InitProcessingContext (exInfo8 2 3 0) initialGlobals)) (exInfo8 2 3 0) 2 2
        (exPixel8 255 255 0 0))) = 0)
   \<and> (\<not> inEdgeMargin (exInfo16 2 2 0) 1 1 \<and> outputMode (exInfo16 2 2 0) = OUTPUT_MODE_LINE_ONLY \<and>
     GetMaskAtFast (snd (FillAndMask16_Optimized initialGlobals
        (fst (InitProcessingContext (exInfo16 2 2 0) initialGlobals)) (exInfo16 2 2 0) 1 1
        (exPixel16 32768 0 32768 0))) 1 1 = 0 \<and>
     alpha (fst (FillAndMask16_Optimized initialGlobals
        (fst (InitProcessingContext (exInfo16 2 2 0) initialGlobals)) (exInfo16 2 2 0) 1 1
        (exPixel16 32768 0 32768 0))) = 0)
   \<and> (outputMode (exInfo16 2 3 0) = OUTPUT_MODE_BG_ONLY \<and>
     GetMaskAtFast (snd (FillAndMask16_Optimized initialGlobals
        (fst (InitProcessingContext (exInfo16 2 3 0) initialGlobals)) (exInfo16 2 3 0) 2 2
        (exPixel16 32768 32768 0 0))) 2 2 = 255 \<and>
     alpha (fst (FillAndMask16_Optimized initialGlobals
        (fst (InitProcessingContext (exInfo16 2 3 0) initialGlobals)) (exInfo16 2 3 0) 2 2
        (exPixel16 32768 32768 0 0))) = 0)
   \<and> (\<not> inEdgeMargin (exInfoF 2 2 0) 1 1 \<and> outputMode (exInfoF 2 2 0) = OUTPUT_MODE_LINE_ONLY \<and>
     GetMaskAtFast (snd (FillAndMaskFloat_Optimized initialGlobals
        (fst (InitProcessingContext (exInfoF 2 2 0) initialGlobals)) (exInfoF 2 2 0) 1 1
        (exPixelF 1 0 1 0))) 1 1 = 0 \<and>
     alpha (fst (FillAndMaskFloat_Optimized initialGlobals
        (fst (InitProcessingContext (exInfoF 2 2 0) initialGlobals)) (exInfoF 2 2 0) 1 1
        (exPixelF 1 0 1 0))) = 0)
   \<and> (outputMode (exInfoF 2 3 0) = OUTPUT_MODE_BG_ONLY \<and>
     GetMaskAtFast (snd (FillAndMaskFloat_Optimized initialGlobals
        (fst (InitProcessingContext (exInfoF 2 3 0) initialGlobals)) (exInfoF 2 3 0) 2 2
        (exPixelF 1 1 0 0))) 2 2 = 255 \<and>
     alpha (fst (FillAndMaskFloat_Optimized initialGlobals
        (fst (InitProcessingContext (exInfoF 2 3 0) initialGlobals)) (exInfoF 2 3 0) 2 2
        (exPixelF 1 1 0 0))) = 0)"
  using output_mode_alpha [of "exInfo8 2 2 0" 1 1 initialGlobals initialGlobals "exPixel8 255 0 255 0"
      "exInfo16 2 2 0" "exPixel16 32768 0 32768 0" "exInfoF 2 2 0" "exPixelF 1 0 1 0"]
    output_mode_alpha [of "exInfo8 2 3 0" 2 2 initialGlobals initialGlobals "exPixel8 255 255 0 0"
      "exInfo16 2 3 0" "exPixel16 32768 32768 0 0" "exInfoF 2 3 0" "exPixelF 1 1 0 0"]
  by (simp add: inEdgeMargin_def ex_defs mode_defs FillAndMask8_Optimized_def
      FillAndMask16_Optimized_def FillAndMaskFloat_Optimized_def FillAndMaskOf_def
      InitProcessingContext_def IsTargetColor8Fast_def IsTargetColor16Fast_def
      IsTargetColorFloatFast_def chanW_def PF_MAX_CHAN16_def Let_def)

text \<open>
  The claim as stated, for every pixel of the frame, fails in the edge margin: in LineOnly
  mode the opaque pixel at \<open>(0, 3)\<close> has mask 0 and keeps alpha 255.
\<close>

theorem line_only_edge_counterexample:
  "outputMode (exInfo8 2 2 0) = OUTPUT_MODE_LINE_ONLY
   \<and> GetMaskAtFast (snd (FillAndMask8_Optimized initialGlobals
        (fst (InitProcessingContext (exInfo8 2 2 0) initialGlobals)) (exInfo8 2 2 0) 0 3
        (exPixel8 255 0 255 0))) 0 3 = 0
   \<and> alpha (fst (FillAndMask8_Optimized initialGlobals
        (fst (InitProcessingContext (exInfo8 2 2 0) initialGlobals)) (exInfo8 2 2 0) 0 3
        (exPixel8 255 0 255 0))) = 255
   \<and> alpha (fst (FillAndMask8_Optimized initialGlobals
        (fst (InitProcessingContext (exInfo8 2 2 0) initialGlobals)) (exInfo8 2 2 0) 0 3
        (exPixel8 255 0 255 0))) \<noteq> 0"
  by (simp add: ex_defs mode_defs FillAndMask8_Optimized_def FillAndMaskOf_def
      InitProcessingContext_def Let_def)
section \<open>Fill engine: the zero-weight fallback\<close>

lemma upto_m1_1: "[- 1..1] = [- 1, 0, 1::int]"
  by (simp add: upto.simps)

lemma upto_m2_2: "[- 2..2] = [- 2, - 1, 0, 1, 2::int]"
  by (simp add: upto.simps)

lemma foldl_unchanged: "(\<And>a. a \<in> set xs \<Longrightarrow> f s a = s) \<Longrightarrow> foldl f s xs = s"
  by (induction xs) simp_all

lemma fillWindowRow_disqualified:
  assumes "\<And>dx. dx \<in> set [- radius..radius] \<Longrightarrow> (dx = 0 \<and> dy = 0) \<or> x + dx < 0 \<or> x + dx \<ge> wd \<or> skip (rowPtr (x + dx))"
  shows "fillWindowRow chan skip weights isAverage radius wd rowPtr off x dy acc = acc"
  unfolding fillWindowRow_def
  by (rule foldl_unchanged) (use assms in \<open>auto simp: Let_def\<close>)

lemma fillWindow_disqualified:
  assumes "allNeighborsDisqualified skip world radius x y"
  shows "fillWindow chan skip weights isAverage radius world x y = zeroAccum"
  unfolding fillWindow_def Let_def
proof (rule foldl_unchanged)
  fix dy assume dy: "dy \<in> set [- radius..radius]"
  have row: "\<And>dx. dx \<in> set [- radius..radius] \<Longrightarrow>
      (dx = 0 \<and> dy = 0) \<or> neighborDisqualified skip world (x + dx) (y + dy)"
    using assms dy unfolding allNeighborsDisqualified_def list_all_iff by blast
  show "(if y + dy < 0 \<or> height world \<le> y + dy then zeroAccum
          else fillWindowRow chan skip weights isAverage radius (width world) (GetRow world (y + dy))
            ((dy + radius) * (radius * 2 + 1)) x dy zeroAccum) = zeroAccum"
  proof (cases "y + dy < 0 \<or> height world \<le> y + dy")
    case True then show ?thesis by simp
  next
    case False
    have "fillWindowRow chan skip weights isAverage radius (width world) (GetRow world (y + dy))
            ((dy + radius) * (radius * 2 + 1)) x dy zeroAccum = zeroAccum"
      by (rule fillWindowRow_disqualified)
         (use row False in \<open>auto simp: neighborDisqualified_def GetRow_def\<close>)
    then show ?thesis using False by simp
  qed
qed

lemma FillLinePixelOf_disqualified:
  assumes "fillMode info \<noteq> FILL_MODE_NEAREST"
    and "allNeighborsDisqualified skip (srcWorld info) (searchRadius info) x y"
  shows "FillLinePixelOf chan skip clampOut adjust g info x y inP = adjust inP"
  using assms by (simp add: FillLinePixelOf_def Let_def fillWindow_disqualified zeroAccum_def)

text \<open>
  Claim C4, as amended. In Average and Weighted mode, when every neighbor of the window
  is disqualified, nothing is accumulated (\<open>fillWindow_disqualified\<close>: the total weight is
  0), the fallback copies the input pixel, and the Color Adjuster is then applied to it as
  to every fill result. The pixel written is the adjusted input; it is the input itself
  when no adjustment is active.
\<close>

theorem fill_zero_weight_fallback:
  "((fillMode info8 = FILL_MODE_AVERAGE \<or> fillMode info8 = FILL_MODE_WEIGHTED) \<and>
      allNeighborsDisqualified (skip8 (ignoreTransparent info8) tR8 tG8 tB8 tol)
        (srcWorld info8) (searchRadius info8) x y \<longrightarrow>
      FillLinePixel8 g info8 x y in8 tR8 tG8 tB8 tol adj = ApplyColorAdjustments8Fast in8 adj \<and>
      (\<not> needsAdjustment adj \<longrightarrow> FillLinePixel8 g info8 x y in8 tR8 tG8 tB8 tol adj = in8))
   \<and> ((fillMode info16 = FILL_MODE_AVERAGE \<or> fillMode info16 = FILL_MODE_WEIGHTED) \<and>
      allNeighborsDisqualified (skip16 (ignoreTransparent info16) tR tG tB tol)
        (srcWorld info16) (searchRadius info16) x y \<longrightarrow>
      FillLinePixel16 g info16 x y in16 tR tG tB tol adj = ApplyColorAdjustments16Fast in16 adj \<and>
      (\<not> needsAdjustment adj \<longrightarrow> FillLinePixel16 g info16 x y in16 tR tG tB tol adj = in16))
   \<and> ((fillMode infoF = FILL_MODE_AVERAGE \<or> fillMode infoF = FILL_MODE_WEIGHTED) \<and>
      allNeighborsDisqualified (skipFloat (ignoreTransparent infoF) tRF tGF tBF tol)
        (srcWorld infoF) (searchRadius infoF) x y \<longrightarrow>
      FillLinePixelFloat g infoF x y inF tRF tGF tBF tol adj = ApplyColorAdjustmentsFloatFast inF adj \<and>
      (\<not> needsAdjustment adj \<longrightarrow> FillLinePixelFloat g infoF x y inF tRF tGF tBF tol adj = inF))"
proof -
  have ne: "\<And>m. m = FILL_MODE_AVERAGE \<or> m = FILL_MODE_WEIGHTED \<Longrightarrow> m \<noteq> FILL_MODE_NEAREST"
    by (auto simp: mode_defs)
  show ?thesis
    unfolding FillLinePixel8_def FillLinePixel16_def FillLinePixelFloat_def
    by (intro conjI impI; elim conjE)
       (simp_all add: FillLinePixelOf_disqualified [OF ne] ApplyColorAdjustments8Fast_def
          ApplyColorAdjustments16Fast_def ApplyColorAdjustmentsFloatFast_def)
qed

lemma exAllRed_disqualified:
  "allNeighborsDisqualified (skip8 True 255 0 0 tol8) (srcWorld (exInfoAllRed8 fm br)) 1 2 2"
  "allNeighborsDisqualified (skip16 True 32768 0 0 tol16) (srcWorld (exInfoAllRed16 fm br)) 1 2 2"
  "allNeighborsDisqualified (skipFloat True 1 0 0 tolF) (srcWorld (exInfoAllRedF fm br)) 1 2 2"
  if "0 \<le> tol8" "0 \<le> tol16" "0 \<le> tolF"
  using that
  by (simp_all add: allNeighborsDisqualified_def neighborDisqualified_def exInfoAllRed8_def
      exInfoAllRed16_def exInfoAllRedF_def ex_defs skip8_def skip16_def skipFloat_def
      IsTargetColor8Fast_def IsTargetColor16Fast_def IsTargetColorFloatFast_def chanW_def
      list_all_iff)

theorem fill_zero_weight_fallback_witness:
  "(fillMode (exInfoAllRed8 2 0) = FILL_MODE_AVERAGE \<and>
    allNeighborsDisqualified (skip8 (ignoreTransparent (exInfoAllRed8 2 0)) 255 0 0 1950)
      (srcWorld (exInfoAllRed8 2 0)) (searchRadius (exInfoAllRed8 2 0)) 2 2 \<and>
    \<not> needsAdjustment (InitColorAdjustParams (exInfoAllRed8 2 0)) \<and>
    FillLinePixel8 initialGlobals (exInfoAllRed8 2 0) 2 2 (exPixel8 255 255 0 0) 255 0 0 1950
      (InitColorAdjustParams (exInfoAllRed8 2 0)) = exPixel8 255 255 0 0)
   \<and> (fillMode (exInfoAllRed16 3 0) = FILL_MODE_WEIGHTED \<and>
    allNeighborsDisqualified (skip16 (ignoreTransparent (exInfoAllRed16 3 0)) 32768 0 0 1950)
      (srcWorld (exInfoAllRed16 3 0)) (searchRadius (exInfoAllRed16 3 0)) 2 2 \<and>
    FillLinePixel16 initialGlobals (exInfoAllRed16 3 0) 2 2 (exPixel16 32768 32768 0 0) 32768 0 0 1950
      (InitColorAdjustParams (exInfoAllRed8 2 0)) = exPixel16 32768 32768 0 0)
   \<and> (fillMode (exInfoAllRedF 3 0) = FILL_MODE_WEIGHTED \<and>
    allNeighborsDisqualified (skipFloat (ignoreTransparent (exInfoAllRedF 3 0)) 1 0 0 1950)
      (srcWorld (exInfoAllRedF 3 0)) (searchRadius (exInfoAllRedF 3 0)) 2 2 \<and>
    FillLinePixelFloat initialGlobals (exInfoAllRedF 3 0) 2 2 (exPixelF 1 1 0 0) 1 0 0 1950
      (InitColorAdjustParams (exInfoAllRed8 2 0)) = exPixelF 1 1 0 0)"
proof -
  have m: "fillMode (exInfoAllRed8 2 0) = FILL_MODE_AVERAGE"
    "fillMode (exInfoAllRed16 3 0) = FILL_MODE_WEIGHTED"
    "fillMode (exInfoAllRedF 3 0) = FILL_MODE_WEIGHTED"
    "ignoreTransparent (exInfoAllRed8 2 0)" "searchRadius (exInfoAllRed8 2 0) = 1"
    "ignoreTransparent (exInfoAllRed16 3 0)" "searchRadius (exInfoAllRed16 3 0) = 1"
    "ignoreTransparent (exInfoAllRedF 3 0)" "searchRadius (exInfoAllRedF 3 0) = 1"
    by (simp_all add: exInfoAllRed8_def exInfoAllRed16_def exInfoAllRedF_def exInfo_def mode_defs)
  have n: "\<not> needsAdjustment (InitColorAdjustParams (exInfoAllRed8 2 0))"
    by (simp add: InitColorAdjustParams_def exInfoAllRed8_def exInfo_def)
  note d = exAllRed_disqualified [of 1950 1950 1950, simplified]
  show ?thesis
    using fill_zero_weight_fallback [of "exInfoAllRed8 2 0" 255 0 0 1950 2 2 initialGlobals
        "exPixel8 255 255 0 0" "InitColorAdjustParams (exInfoAllRed8 2 0)"
        "exInfoAllRed16 3 0" 32768 0 0 "exPixel16 32768 32768 0 0"
        "exInfoAllRedF 3 0" 1 0 0 "exPixelF 1 1 0 0"]
    by (simp add: m n d ApplyColorAdjustments8Fast_def ApplyColorAdjustments16Fast_def
        ApplyColorAdjustmentsFloatFast_def)
qed

text \<open>
  The claim as stated fails when an adjustment is active: an all-red frame, Average
  mode, brightness 50. Every neighbor of \<open>(2, 2)\<close> matches the target, the total weight is
  0, and the pixel written is the brightened input, not the input.
\<close>

theorem fill_fallback_adjusted_counterexample:
  "fillMode (exInfoAllRed8 2 50) = FILL_MODE_AVERAGE
   \<and> allNeighborsDisqualified (skip8 (ignoreTransparent (exInfoAllRed8 2 50)) 255 0 0 1950)
        (srcWorld (exInfoAllRed8 2 50)) (searchRadius (exInfoAllRed8 2 50)) 2 2
   \<and> totalWeight (fillWindow chanW (skip8 (ignoreTransparent (exInfoAllRed8 2 50)) 255 0 0 1950)
        (g_invDistWeights initialGlobals) True (searchRadius (exInfoAllRed8 2 50))
        (srcWorld (exInfoAllRed8 2 50)) 2 2) = 0
   \<and> FillLinePixel8 initialGlobals (exInfoAllRed8 2 50) 2 2 (exPixel8 255 255 0 0) 255 0 0 1950
        (InitColorAdjustParams (exInfoAllRed8 2 50)) = exPixel8 255 255 127 127
   \<and> FillLinePixel8 initialGlobals (exInfoAllRed8 2 50) 2 2 (exPixel8 255 255 0 0) 255 0 0 1950
        (InitColorAdjustParams (exInfoAllRed8 2 50)) \<noteq> exPixel8 255 255 0 0"
proof -
  have m: "fillMode (exInfoAllRed8 2 50) = FILL_MODE_AVERAGE"
    "fillMode (exInfoAllRed8 2 50) \<noteq> FILL_MODE_NEAREST"
    "ignoreTransparent (exInfoAllRed8 2 50)" "searchRadius (exInfoAllRed8 2 50) = 1"
    by (simp_all add: exInfoAllRed8_def exInfo_def mode_defs)
  have d: "allNeighborsDisqualified (skip8 True 255 0 0 1950) (srcWorld (exInfoAllRed8 2 50)) 1 2 2"
    by (rule exAllRed_disqualified(1) [of 1950 0 0]) simp_all
  have a: "ApplyColorAdjustments8Fast (exPixel8 255 255 0 0)
             (InitColorAdjustParams (exInfoAllRed8 2 50)) = exPixel8 255 255 127 127"
    by (simp add: ApplyColorAdjustments8Fast_def InitColorAdjustParams_def exInfoAllRed8_def
        ex_defs adjustClamped_def Let_def chanW_def Clamp01_def ClampByte_def truncI_def)
  have f: "FillLinePixel8 initialGlobals (exInfoAllRed8 2 50) 2 2 (exPixel8 255 255 0 0) 255 0 0 1950
        (InitColorAdjustParams (exInfoAllRed8 2 50)) = exPixel8 255 255 127 127"
    unfolding FillLinePixel8_def
    by (subst FillLinePixelOf_disqualified) (simp_all add: m d a mode_defs)
  have ne: "exPixel8 255 255 127 127 \<noteq> exPixel8 255 255 0 0"
    by (simp add: exPixel8_def)
  show ?thesis
    by (simp add: m d f ne fillWindow_disqualified [OF d] zeroAccum_def)
qed
section \<open>Blur pass: unmasked pixels\<close>

lemma blurFinish_unmasked: "GetMaskAt info xL yL = 0 \<Longrightarrow> blurFinish clampOut info xL yL inP acc = inP"
  by (simp add: blurFinish_def)

text \<open>
  Claim C5. A pixel whose mask value is 0 is copied through by the blur callback: the
  output is the callback's input pixel, which is the pixel of the pass-1 snapshot. So the
  blur pass changes masked pixels only, in all three bit depths.
\<close>

theorem blur_unmasked_copy:
  "GetMaskAt info x y = 0 \<Longrightarrow>
     BlurPass8_Optimized g c8 info x y in8 = in8
     \<and> BlurPass16_Optimized g c16 info x y in16 = in16
     \<and> BlurPassFloat_Optimized g cF info x y inF = inF"
  by (simp add: BlurPass8_Optimized_def BlurPass16_Optimized_def BlurPassFloat_Optimized_def
      blurFinish_unmasked)

theorem blur_unmasked_copy_witness:
  "GetMaskAt (exInfo8 2 1 0) 1 1 = 0
   \<and> BlurPass8_Optimized initialGlobals
        \<lparr> tempWorld = exWorld (exPixel8 255 255 0 0) (exPixel8 255 0 255 0), blurRadius = 2,
          blurSize = 5 \<rparr> (exInfo8 2 1 0) 1 1 (exPixel8 255 0 255 0) = exPixel8 255 0 255 0
   \<and> BlurPass16_Optimized initialGlobals
        \<lparr> tempWorld = exWorld (exPixel16 32768 32768 0 0) (exPixel16 32768 0 32768 0),
          blurRadius = 2, blurSize = 5 \<rparr> (exInfo8 2 1 0) 1 1 (exPixel16 32768 0 32768 0)
        = exPixel16 32768 0 32768 0
   \<and> BlurPassFloat_Optimized initialGlobals
        \<lparr> tempWorld = exWorld (exPixelF 1 1 0 0) (exPixelF 1 0 1 0), blurRadius = 2,
          blurSize = 5 \<rparr> (exInfo8 2 1 0) 1 1 (exPixelF 1 0 1 0) = exPixelF 1 0 1 0"
proof -
  have h: "GetMaskAt (exInfo8 2 1 0) 1 1 = 0"
    by (simp add: GetMaskAt_def ex_defs)
  show ?thesis using h blur_unmasked_copy [OF h] by simp
qed
section \<open>Blur pass: the row skip of the 8-bit callback\<close>

lemma blurRow_no_mask:
  assumes "\<not> hasAnyMask info radius xL ny"
  shows "blurRow chan g info rowPtr off radius xL ny acc = acc"
  unfolding blurRow_def
proof (rule foldl_unchanged)
  fix dx assume "dx \<in> set [- radius..radius]"
  then have "GetMaskAt info (xL + dx) ny = 0"
    using assms unfolding hasAnyMask_def list_ex_iff by blast
  then show "(let nx = xL + dx
        in if nx < 0 \<or> maskWidth info \<le> nx then acc
           else if GetMaskAt info nx ny = 0 then acc
                else let neighbor = rowPtr nx; weight = g_gaussianWeights g (off + dx + radius)
                     in accumulate chan neighbor weight acc) = acc"
    by (simp add: Let_def)
qed

lemma blurWindow8_eq_blurWindow:
  "blurWindow8 g ctx info xL yL = blurWindow chanW g ctx info xL yL"
  unfolding blurWindow8_def blurWindow_def
  by (rule foldl_cong [OF refl refl]) (simp add: Let_def blurRow_no_mask)

text \<open>
  Claim C7. The row skip of the 8-bit blur callback changes nothing: a skipped row has no
  masked pixel in the window, so the inner loop would have left the five sums as they
  are. The sums of the 8-bit callback are those of the loop of the 16-bit and float
  callbacks on the same mask, snapshot and weight table, and so is the pixel written.
  No property of the arithmetic is used.
\<close>

theorem row_skip_heuristic_neutral:
  "blurWindow8 g ctx info xL yL = blurWindow chanW g ctx info xL yL
   \<and> BlurPass8_Optimized g ctx info xL yL inP = BlurPass8_NoRowSkip g ctx info xL yL inP"
  by (simp add: BlurPass8_Optimized_def BlurPass8_NoRowSkip_def blurWindow8_eq_blurWindow)
section \<open>Color adjuster: clamping\<close>

lemma uint_ClampByte:
  "uint (ClampByte v) = (if v < 0 then 0 else if v > 255 then 255 else \<lfloor>v\<rfloor>)"
proof -
  let ?k = "truncI (if v < 0 then 0 else if v > 255 then 255 else v)"
  have k: "?k = (if v < 0 then 0 else if v > 255 then 255 else \<lfloor>v\<rfloor>)"
    by (simp add: truncI_def)
  have "0 \<le> ?k \<and> ?k < 256"
    unfolding k by (auto simp: floor_less_iff)
  then have "uint (word_of_int ?k :: 8 word) = ?k"
    by (simp add: uint_word_of_int_eq take_bit_int_eq_self)
  then show ?thesis unfolding ClampByte_def k by simp
qed

lemma uint_Clamp16:
  "uint (Clamp16 v) = (if v < 0 then 0 else if v > 32768 then 32768 else \<lfloor>v\<rfloor>)"
proof -
  consider "v < 0" | "v > 32768" | "0 \<le> v" "v \<le> 32768" by linarith
  then show ?thesis
  proof cases
    case 1 then show ?thesis by (simp add: Clamp16_def truncI_def)
  next
    case 2 then show ?thesis by (simp add: Clamp16_def truncI_def PF_MAX_CHAN16_def)
  next
    case 3
    then have "0 \<le> \<lfloor>v\<rfloor>" "\<lfloor>v\<rfloor> < 65536" by (auto simp: floor_less_iff)
    then have "uint (word_of_int \<lfloor>v\<rfloor> :: 16 word) = \<lfloor>v\<rfloor>"
      by (simp add: uint_word_of_int_eq take_bit_int_eq_self)
    then show ?thesis using 3 by (simp add: Clamp16_def truncI_def PF_MAX_CHAN16_def)
  qed
qed

lemma Clamp16_le: "uint (Clamp16 v) \<le> 32768"
  unfolding uint_Clamp16 by (auto simp: floor_le_iff)

lemma Clamp01_range: "0 \<le> Clamp01 v \<and> Clamp01 v \<le> 1"
  by (simp add: Clamp01_def)

lemma adjustClamped_range:
  assumes "needsBrightness adj \<or> needsContrast adj" and "\<not> needsSaturation adj"
  shows "0 \<le> fst (adjustClamped adj rgb) \<and> fst (adjustClamped adj rgb) \<le> 1
       \<and> 0 \<le> fst (snd (adjustClamped adj rgb)) \<and> fst (snd (adjustClamped adj rgb)) \<le> 1
       \<and> 0 \<le> snd (snd (adjustClamped adj rgb)) \<and> snd (snd (adjustClamped adj rgb)) \<le> 1"
  using assms
  by (cases rgb) (auto simp: adjustClamped_def Let_def Clamp01_range)

lemma clampNative_range: "0 \<le> hi \<Longrightarrow> 0 \<le> clampNative hi v \<and> clampNative hi v \<le> hi"
  by (auto simp: clampNative_def floor_le_iff)

lemma brightnessContrast_Clamp01_range:
  assumes "needsBrightness adj \<or> needsContrast adj"
  shows "0 \<le> brightnessContrast Clamp01 adj x \<and> brightnessContrast Clamp01 adj x \<le> 1"
  using assms Clamp01_range by (auto simp: brightnessContrast_def Let_def)

lemma adjustClamped_steps:
  "adjustClamped adj (r, g, b) =
     (if needsSaturation adj
      then scaleSaturation adj (brightnessContrast Clamp01 adj r, brightnessContrast Clamp01 adj g,
             brightnessContrast Clamp01 adj b)
      else (brightnessContrast Clamp01 adj r, brightnessContrast Clamp01 adj g,
            brightnessContrast Clamp01 adj b))"
  by (simp add: adjustClamped_def brightnessContrast_def scaleSaturation_def Let_def split_beta)

lemma ApplyColorAdjustments8Fast_written:
  assumes "needsAdjustment adj"
  shows "uint (red (ApplyColorAdjustments8Fast p adj))
           = clampNative 255 (fst (adjustClamped adj (normalised8 p)) * 255)"
    and "uint (green (ApplyColorAdjustments8Fast p adj))
           = clampNative 255 (fst (snd (adjustClamped adj (normalised8 p))) * 255)"
    and "uint (blue (ApplyColorAdjustments8Fast p adj))
           = clampNative 255 (snd (snd (adjustClamped adj (normalised8 p))) * 255)"
    and "alpha (ApplyColorAdjustments8Fast p adj) = alpha p"
  using assms
  by (simp_all add: ApplyColorAdjustments8Fast_def normalised8_def chanW_def Let_def split_beta
      uint_ClampByte clampNative_def)

lemma ApplyColorAdjustments16Fast_written:
  assumes "needsAdjustment adj"
  shows "uint (red (ApplyColorAdjustments16Fast p adj))
           = clampNative 32768 (fst (adjustClamped adj (normalised16 p)) * 32768)"
    and "uint (green (ApplyColorAdjustments16Fast p adj))
           = clampNative 32768 (fst (snd (adjustClamped adj (normalised16 p))) * 32768)"
    and "uint (blue (ApplyColorAdjustments16Fast p adj))
           = clampNative 32768 (snd (snd (adjustClamped adj (normalised16 p))) * 32768)"
    and "alpha (ApplyColorAdjustments16Fast p adj) = alpha p"
  using assms
  by (simp_all add: ApplyColorAdjustments16Fast_def normalised16_def chanW_def Let_def split_beta
      uint_Clamp16 clampNative_def PF_MAX_CHAN16_def)

lemma ApplyColorAdjustmentsFloatFast_written:
  assumes "needsAdjustment adj"
  shows "(red (ApplyColorAdjustmentsFloatFast p adj), green (ApplyColorAdjustmentsFloatFast p adj),
          blue (ApplyColorAdjustmentsFloatFast p adj))
           = (if needsSaturation adj
              then scaleSaturation adj
                     (Clamp01 (brightnessContrast (\<lambda>v. v) adj (red p)),
                      Clamp01 (brightnessContrast (\<lambda>v. v) adj (green p)),
                      Clamp01 (brightnessContrast (\<lambda>v. v) adj (blue p)))
              else (brightnessContrast (\<lambda>v. v) adj (red p),
                    brightnessContrast (\<lambda>v. v) adj (green p),
                    brightnessContrast (\<lambda>v. v) adj (blue p)))"
    and "alpha (ApplyColorAdjustmentsFloatFast p adj) = alpha p"
  using assms
  by (simp_all add: ApplyColorAdjustmentsFloatFast_def brightnessContrast_def scaleSaturation_def
      castFpShort_def Let_def split_beta)

text \<open>
  Claim C8, as amended. For every combination of active factors:
  \<^item> the 8-bit and the 16-bit adjuster write, in each color channel, the result of the
    normalised computation scaled by 255 or 32768 and clamped to the native range
    \<open>[0, 255]\<close> or \<open>[0, 32768]\<close> (saturating, not wrapping), and keep alpha;
  \<^item> that normalised computation is brightness, then contrast, each clamped to \<open>[0, 1]\<close>,
    then the saturation round trip through HSL with the scaled saturation clamped;
  \<^item> \<^verbatim>\<open>ClampByte\<close> and \<^verbatim>\<open>Clamp16\<close> saturate at 0 and at 255 or 32768;
  \<^item> the float adjuster applies brightness and contrast without any clamp, clamps the three
    channels only where they enter the HSL conversion, and writes its result as computed:
    with saturation inactive, the unclamped brightness and contrast results.
\<close>

theorem color_adjust_clamping:
  "(needsAdjustment adj \<longrightarrow>
      uint (red (ApplyColorAdjustments8Fast p8 adj))
        = clampNative 255 (fst (adjustClamped adj (normalised8 p8)) * 255) \<and>
      uint (green (ApplyColorAdjustments8Fast p8 adj))
        = clampNative 255 (fst (snd (adjustClamped adj (normalised8 p8))) * 255) \<and>
      uint (blue (ApplyColorAdjustments8Fast p8 adj))
        = clampNative 255 (snd (snd (adjustClamped adj (normalised8 p8))) * 255) \<and>
      alpha (ApplyColorAdjustments8Fast p8 adj) = alpha p8)
   \<and> (needsAdjustment adj \<longrightarrow>
      uint (red (ApplyColorAdjustments16Fast p16 adj))
        = clampNative 32768 (fst (adjustClamped adj (normalised16 p16)) * 32768) \<and>
      uint (green (ApplyColorAdjustments16Fast p16 adj))
        = clampNative 32768 (fst (snd (adjustClamped adj (normalised16 p16))) * 32768) \<and>
      uint (blue (ApplyColorAdjustments16Fast p16 adj))
        = clampNative 32768 (snd (snd (adjustClamped adj (normalised16 p16))) * 32768) \<and>
      alpha (ApplyColorAdjustments16Fast p16 adj) = alpha p16)
   \<and> 0 \<le> clampNative 255 v \<and> clampNative 255 v \<le> 255
   \<and> 0 \<le> clampNative 32768 v \<and> clampNative 32768 v \<le> 32768
   \<and> uint (ClampByte v) = clampNative 255 v
   \<and> uint (Clamp16 v) = clampNative 32768 v
   \<and> adjustClamped adj (r, g, b) =
        (if needsSaturation adj
         then scaleSaturation adj (brightnessContrast Clamp01 adj r,
                brightnessContrast Clamp01 adj g, brightnessContrast Clamp01 adj b)
         else (brightnessContrast Clamp01 adj r, brightnessContrast Clamp01 adj g,
               brightnessContrast Clamp01 adj b))
   \<and> (needsBrightness adj \<or> needsContrast adj \<longrightarrow>
        0 \<le> brightnessContrast Clamp01 adj r \<and> brightnessContrast Clamp01 adj r \<le> 1)
   \<and> (needsAdjustment adj \<longrightarrow>
      (red (ApplyColorAdjustmentsFloatFast pF adj), green (ApplyColorAdjustmentsFloatFast pF adj),
       blue (ApplyColorAdjustmentsFloatFast pF adj))
        = (if needsSaturation adj
           then scaleSaturation adj
                  (Clamp01 (brightnessContrast (\<lambda>v. v) adj (red pF)),
                   Clamp01 (brightnessContrast (\<lambda>v. v) adj (green pF)),
                   Clamp01 (brightnessContrast (\<lambda>v. v) adj (blue pF)))
           else (brightnessContrast (\<lambda>v. v) adj (red pF),
                 brightnessContrast (\<lambda>v. v) adj (green pF),
                 brightnessContrast (\<lambda>v. v) adj (blue pF))) \<and>
      alpha (ApplyColorAdjustmentsFloatFast pF adj) = alpha pF)"
proof -
  have a8: "needsAdjustment adj \<longrightarrow>
      uint (red (ApplyColorAdjustments8Fast p8 adj))
        = clampNative 255 (fst (adjustClamped adj (normalised8 p8)) * 255) \<and>
      uint (green (ApplyColorAdjustments8Fast p8 adj))
        = clampNative 255 (fst (snd (adjustClamped adj (normalised8 p8))) * 255) \<and>
      uint (blue (ApplyColorAdjustments8Fast p8 adj))
        = clampNative 255 (snd (snd (adjustClamped adj (normalised8 p8))) * 255) \<and>
      alpha (ApplyColorAdjustments8Fast p8 adj) = alpha p8"
    using ApplyColorAdjustments8Fast_written [of adj p8] by blast
  have a16: "needsAdjustment adj \<longrightarrow>
      uint (red (ApplyColorAdjustments16Fast p16 adj))
        = clampNative 32768 (fst (adjustClamped adj (normalised16 p16)) * 32768) \<and>
      uint (green (ApplyColorAdjustments16Fast p16 adj))
        = clampNative 32768 (fst (snd (adjustClamped adj (normalised16 p16))) * 32768) \<and>
      uint (blue (ApplyColorAdjustments16Fast p16 adj))
        = clampNative 32768 (snd (snd (adjustClamped adj (normalised16 p16))) * 32768) \<and>
      alpha (ApplyColorAdjustments16Fast p16 adj) = alpha p16"
    using ApplyColorAdjustments16Fast_written [of adj p16] by blast
  have n8: "0 \<le> clampNative 255 v \<and> clampNative 255 v \<le> 255"
    and n16: "0 \<le> clampNative 32768 v \<and> clampNative 32768 v \<le> 32768"
    by (rule clampNative_range, simp)+
  have c8: "uint (ClampByte v) = clampNative 255 v"
    and c16: "uint (Clamp16 v) = clampNative 32768 v"
    by (simp_all add: uint_ClampByte uint_Clamp16 clampNative_def)
  have bc: "needsBrightness adj \<or> needsContrast adj \<longrightarrow>
        0 \<le> brightnessContrast Clamp01 adj r \<and> brightnessContrast Clamp01 adj r \<le> 1"
    using brightnessContrast_Clamp01_range [of adj r] by blast
  have fl: "needsAdjustment adj \<longrightarrow>
      (red (ApplyColorAdjustmentsFloatFast pF adj), green (ApplyColorAdjustmentsFloatFast pF adj),
       blue (ApplyColorAdjustmentsFloatFast pF adj))
        = (if needsSaturation adj
           then scaleSaturation adj
                  (Clamp01 (brightnessContrast (\<lambda>v. v) adj (red pF)),
                   Clamp01 (brightnessContrast (\<lambda>v. v) adj (green pF)),
                   Clamp01 (brightnessContrast (\<lambda>v. v) adj (blue pF)))
           else (brightnessContrast (\<lambda>v. v) adj (red pF),
                 brightnessContrast (\<lambda>v. v) adj (green pF),
                 brightnessContrast (\<lambda>v. v) adj (blue pF))) \<and>
      alpha (ApplyColorAdjustmentsFloatFast pF adj) = alpha pF"
    using ApplyColorAdjustmentsFloatFast_written [of adj pF] by blast
  show ?thesis
    using a8 a16 n8 n16 c8 c16 adjustClamped_steps [of adj r g b] bc fl
    by (simp only: simp_thms)
qed

lemma exAdjust_brightness50:
  "InitColorAdjustParams (exInfo8 2 1 50) =
     \<lparr> needsAdjustment = True, needsBrightness = True, needsContrast = False,
       needsSaturation = False, brightnessFactor = 1 / 2, contrastFactor = 0,
       saturationFactor = 0 \<rparr>"
  by (simp add: InitColorAdjustParams_def exInfo8_def exInfo_def)

theorem color_adjust_clamping_witness:
  "needsAdjustment (InitColorAdjustParams (exInfo8 2 1 50))
   \<and> (needsBrightness (InitColorAdjustParams (exInfo8 2 1 50))
        \<or> needsContrast (InitColorAdjustParams (exInfo8 2 1 50)))
   \<and> uint (red (ApplyColorAdjustments8Fast (exPixel8 255 200 0 0)
            (InitColorAdjustParams (exInfo8 2 1 50)))) = 255
   \<and> uint (green (ApplyColorAdjustments8Fast (exPixel8 255 200 0 0)
            (InitColorAdjustParams (exInfo8 2 1 50)))) = 127
   \<and> uint (red (ApplyColorAdjustments16Fast (exPixel16 32768 30000 0 0)
            (InitColorAdjustParams (exInfo8 2 1 50)))) = 32768
   \<and> uint (blue (ApplyColorAdjustments16Fast (exPixel16 32768 30000 0 0)
            (InitColorAdjustParams (exInfo8 2 1 50)))) = 16384
   \<and> uint (ClampByte 300) = 255 \<and> uint (Clamp16 (- 7)) = 0
   \<and> brightnessContrast Clamp01 (InitColorAdjustParams (exInfo8 2 1 50)) (9 / 10) = 1
   \<and> red (ApplyColorAdjustmentsFloatFast (exPixelF 1 (9 / 10) (1 / 4) 0)
            (InitColorAdjustParams (exInfo8 2 1 50))) = 14 / 10
   \<and> green (ApplyColorAdjustmentsFloatFast (exPixelF 1 (9 / 10) (1 / 4) 0)
            (InitColorAdjustParams (exInfo8 2 1 50))) = 3 / 4"
  using color_adjust_clamping [of "InitColorAdjustParams (exInfo8 2 1 50)"
      "exPixel8 255 200 0 0" "exPixel16 32768 30000 0 0" 300 "9 / 10" 0 0
      "exPixelF 1 (9 / 10) (1 / 4) 0"]
    color_adjust_clamping [of "InitColorAdjustParams (exInfo8 2 1 50)"
      "exPixel8 255 200 0 0" "exPixel16 32768 30000 0 0" "- 7" "9 / 10" 0 0
      "exPixelF 1 (9 / 10) (1 / 4) 0"]
  by (simp add: exAdjust_brightness50 exPixelF_def exPixel8_def exPixel16_def normalised8_def
      normalised16_def adjustClamped_def brightnessContrast_def Clamp01_def clampNative_def
      Let_def)

text \<open>
  The claim as stated fails for float pixels: with brightness 50 and nothing else active,
  red 0.9 is written back as 1.4, outside \<open>[0, 1]\<close>.
\<close>

theorem color_adjust_float_unclamped_counterexample:
  "needsAdjustment (InitColorAdjustParams (exInfo8 2 1 50))
   \<and> red (ApplyColorAdjustmentsFloatFast (exPixelF 1 (9 / 10) 0 0)
          (InitColorAdjustParams (exInfo8 2 1 50))) = 14 / 10
   \<and> \<not> red (ApplyColorAdjustmentsFloatFast (exPixelF 1 (9 / 10) 0 0)
          (InitColorAdjustParams (exInfo8 2 1 50))) \<le> 1"
  by (simp add: exAdjust_brightness50 ApplyColorAdjustmentsFloatFast_def exPixelF_def Let_def
      castFpShort_def)
section \<open>HSL round trip\<close>

lemma HueToRGB_hueLin:
  assumes "0 < d"
  shows "HueToRGB p (p + d) (T / d) = hueLin p d T"
proof -
  have c: "(T / d < 0) = (T < 0)" "(T / d > 1) = (T > d)"
    using assms by (simp_all add: field_simps)
  define T1 where "T1 = (if T < 0 then T + d else if T > d then T - d else T)"
  have t1: "(if T / d < 0 then T / d + 1 else if T / d > 1 then T / d - 1 else T / d) = T1 / d"
    using assms unfolding c T1_def by (simp add: field_simps)
  have k: "(T1 / d < x) = (T1 < x * d)" for x
    using assms by (simp add: field_simps)
  have v: "(p + d - p) * 6 * (T1 / d) = 6 * T1" "(p + d - p) * (x - T1 / d) * 6 = (x * d - T1) * 6" for x
    using assms by (simp_all add: field_simps)
  show ?thesis
    unfolding HueToRGB_def hueLin_def Let_def t1 T1_def [symmetric] k v by simp
qed


lemma le_div_unit:
  fixes a x :: real
  assumes "0 < x" "x \<le> 1" "0 \<le> a"
  shows "a \<le> a / x"
proof -
  have "a * x \<le> a * 1" using assms by (intro mult_left_mono) auto
  then show ?thesis using assms(1) by (simp add: le_divide_eq)
qed

lemma RGBtoHSL_max_min:
  "RGBtoHSL r g b =
     (let M = max r (max g b); m = min r (min g b); d = M - m; l = (M + m) * 0.5
      in if d < 0.00001 then (0, 0, l)
         else (hueNumer r g b / d,
               if l > 0.5 then d / (2 - M - m) else d / (M + m), l))"
proof -
  have M: "(if r > g then (if r > b then r else b) else (if g > b then g else b)) = max r (max g b)"
    by (simp add: max_def)
  have m: "(if r < g then (if r < b then r else b) else (if g < b then g else b)) = min r (min g b)"
    by (simp add: min_def)
  have h: "(if max r (max g b) = r then (g - b) / d + (if g < b then 6 else 0)
            else if max r (max g b) = g then (b - r) / d + 2 else (r - g) / d + 4) * 0.166666667
           = 0.166666667 * (if max r (max g b) = r then (g - b) + (if g < b then 6 * d else 0)
               else if max r (max g b) = g then (b - r) + 2 * d else (r - g) + 4 * d) / d"
    if "d \<noteq> 0" for d
    using that by (simp add: field_simps)
  show ?thesis
  proof (cases "max r (max g b) - min r (min g b) < 0.00001")
    case True
    then show ?thesis
      unfolding RGBtoHSL_def M m Let_def by (simp only: if_True)
  next
    case False
    then have dne: "max r (max g b) - min r (min g b) \<noteq> 0" by simp
    show ?thesis
      unfolding RGBtoHSL_def M m Let_def hueNumer_def h [OF dne]
      by (simp only: False if_False)
  qed
qed

lemma HSLtoRGB_of_RGBtoHSL_chromatic:
  assumes "0 \<le> r" "r \<le> 1" "0 \<le> g" "g \<le> 1" "0 \<le> b" "b \<le> 1"
    and d: "\<not> max r (max g b) - min r (min g b) < 0.00001"
  shows "(case RGBtoHSL r g b of (h, s, l) \<Rightarrow> HSLtoRGB h s l) =
     (let m = min r (min g b); d = max r (max g b) - m; H = hueNumer r g b
      in (hueLin m d (H + 0.333333333 * d), hueLin m d H, hueLin m d (H - 0.333333333 * d)))"
proof -
  define M where "M = max r (max g b)"
  define m where "m = min r (min g b)"
  define dl where "dl = M - m"
  define l where "l = (M + m) * 0.5"
  define s where "s = (if l > 0.5 then dl / (2 - M - m) else dl / (M + m))"
  define H where "H = hueNumer r g b"
  have rng: "0 \<le> m" "m \<le> M" "M \<le> 1"
    using assms(1-6) unfolding M_def m_def by auto
  have dl: "0.00001 \<le> dl" "0 < dl" using d unfolding dl_def M_def m_def by simp_all
  have hsl: "RGBtoHSL r g b = (H / dl, s, l)"
    using d unfolding RGBtoHSL_max_min Let_def M_def m_def dl_def l_def s_def H_def by simp
  have den: "0 < 2 - M - m" "0 < M + m" using rng dl unfolding dl_def by linarith+
  have s_ge: "0.00001 \<le> s"
  proof (cases "l > 0.5")
    case True
    then have "2 - M - m \<le> 1" unfolding l_def by simp
    then have "dl \<le> dl / (2 - M - m)" using den dl by (intro le_div_unit) auto
    moreover have "s = dl / (2 - M - m)" using True unfolding s_def by simp
    ultimately show ?thesis using dl(1) by linarith
  next
    case False
    then have "M + m \<le> 1" unfolding l_def by simp
    then have "dl \<le> dl / (M + m)" using den dl by (intro le_div_unit) auto
    moreover have "s = dl / (M + m)" using False unfolding s_def by simp
    ultimately show ?thesis using dl(1) by linarith
  qed
  have ls: "(if l < 0.5 then l * (1 + s) else l + s - l * s) = l + dl / 2"
  proof (cases "l > 0.5")
    case True
    then have "s * (2 - M - m) = dl" using den unfolding s_def by simp
    then have "s * (1 - l) = dl / 2" unfolding l_def by (simp add: algebra_simps)
    then show ?thesis using True by (simp add: algebra_simps)
  next
    case False
    then have sm: "s * (M + m) = dl" using den unfolding s_def by simp
    then have sl: "l * s = dl / 2" unfolding l_def by (simp add: algebra_simps)
    show ?thesis
    proof (cases "l < 0.5")
      case True then show ?thesis using sl by (simp add: algebra_simps)
    next
      case False
      with \<open>\<not> l > 0.5\<close> have "l = 0.5" by simp
      then have "M + m = 1" unfolding l_def by simp
      with sm have "s = dl" by simp
      then show ?thesis using \<open>l = 0.5\<close> by simp
    qed
  qed
  have q: "l + dl / 2 = m + dl" and p: "2 * l - (m + dl) = m"
    unfolding l_def dl_def by (simp_all add: field_simps)
  have t: "H / dl + 0.333333333 = (H + 0.333333333 * dl) / dl"
    "H / dl - 0.333333333 = (H - 0.333333333 * dl) / dl"
    using dl by (simp_all add: field_simps)
  have ns: "\<not> s < 0.00001" using s_ge by simp
  have rt: "HSLtoRGB (H / dl) s l =
      (hueLin m dl (H + 0.333333333 * dl), hueLin m dl H, hueLin m dl (H - 0.333333333 * dl))"
    unfolding HSLtoRGB_def Let_def ls q p t HueToRGB_hueLin [OF dl(2)]
    by (simp only: ns if_False)
  show ?thesis
    unfolding hsl prod.case Let_def
    using rt unfolding H_def dl_def M_def m_def .
qed


lemma dec:
  "(0.166666667::real) = 166666667 / 1000000000"
  "(0.333333333::real) = 333333333 / 1000000000"
  "(0.666666667::real) = 666666667 / 1000000000"
  "(0.5::real) = 1 / 2"
  "(0.00001::real) = 1 / 100000"
  by simp_all

lemma hueLin_bound:
  assumes "T < 0 \<Longrightarrow> \<bar>hueBranch p d (T + d) - X\<bar> \<le> e"
    and "T > d \<Longrightarrow> \<bar>hueBranch p d (T - d) - X\<bar> \<le> e"
    and "0 \<le> T \<Longrightarrow> T \<le> d \<Longrightarrow> \<bar>hueBranch p d T - X\<bar> \<le> e"
  shows "\<bar>hueLin p d T - X\<bar> \<le> e"
proof -
  consider "T < 0" | "\<not> T < 0" "T > d" | "0 \<le> T" "T \<le> d" by linarith
  then show ?thesis
  proof cases
    case 1 then show ?thesis using assms(1) by (simp add: hueLin_def hueBranch_def Let_def)
  next
    case 2 then show ?thesis using assms(2) by (simp add: hueLin_def hueBranch_def Let_def)
  next
    case 3
    then have "\<not> T < 0" "\<not> T > d" by simp_all
    then show ?thesis using assms(3) [OF 3] by (simp add: hueLin_def hueBranch_def Let_def)
  qed
qed

text \<open>The six orderings of the channels, as \<^verbatim>\<open>RGBtoHSL\<close> distinguishes them.\<close>

lemma rt_case_1a:
  fixes r g b :: real
  assumes "0 \<le> b" "b \<le> g" "g \<le> r" "r \<le> 1" "0.00001 \<le> r - b"
  shows "\<bar>hueLin b (r - b) (0.166666667 * (g - b) + 0.333333333 * (r - b)) - r\<bar> \<le> 1 / 10000"
    and "\<bar>hueLin b (r - b) (0.166666667 * (g - b)) - g\<bar> \<le> 1 / 10000"
    and "\<bar>hueLin b (r - b) (0.166666667 * (g - b) - 0.333333333 * (r - b)) - b\<bar> \<le> 1 / 10000"
  by (rule hueLin_bound; (use assms in \<open>unfold hueBranch_def dec\<close>), argo)+

lemma rt_case_1b:
  fixes r g b :: real
  assumes "0 \<le> g" "g < b" "b \<le> r" "r \<le> 1" "0.00001 \<le> r - g"
  shows "\<bar>hueLin g (r - g) (0.166666667 * ((g - b) + 6 * (r - g)) + 0.333333333 * (r - g)) - r\<bar> \<le> 1 / 10000"
    and "\<bar>hueLin g (r - g) (0.166666667 * ((g - b) + 6 * (r - g))) - g\<bar> \<le> 1 / 10000"
    and "\<bar>hueLin g (r - g) (0.166666667 * ((g - b) + 6 * (r - g)) - 0.333333333 * (r - g)) - b\<bar> \<le> 1 / 10000"
  by (rule hueLin_bound; (use assms in \<open>unfold hueBranch_def dec\<close>), argo)+

lemma rt_case_2a:
  fixes r g b :: real
  assumes "0 \<le> r" "r < g" "r \<le> b" "b \<le> g" "g \<le> 1" "0.00001 \<le> g - r"
  shows "\<bar>hueLin r (g - r) (0.166666667 * ((b - r) + 2 * (g - r)) + 0.333333333 * (g - r)) - r\<bar> \<le> 1 / 10000"
    and "\<bar>hueLin r (g - r) (0.166666667 * ((b - r) + 2 * (g - r))) - g\<bar> \<le> 1 / 10000"
    and "\<bar>hueLin r (g - r) (0.166666667 * ((b - r) + 2 * (g - r)) - 0.333333333 * (g - r)) - b\<bar> \<le> 1 / 10000"
  by (rule hueLin_bound; (use assms in \<open>unfold hueBranch_def dec\<close>), argo)+

lemma rt_case_2b:
  fixes r g b :: real
  assumes "0 \<le> b" "b < r" "r < g" "g \<le> 1" "0.00001 \<le> g - b"
  shows "\<bar>hueLin b (g - b) (0.166666667 * ((b - r) + 2 * (g - b)) + 0.333333333 * (g - b)) - r\<bar> \<le> 1 / 10000"
    and "\<bar>hueLin b (g - b) (0.166666667 * ((b - r) + 2 * (g - b))) - g\<bar> \<le> 1 / 10000"
    and "\<bar>hueLin b (g - b) (0.166666667 * ((b - r) + 2 * (g - b)) - 0.333333333 * (g - b)) - b\<bar> \<le> 1 / 10000"
  by (rule hueLin_bound; (use assms in \<open>unfold hueBranch_def dec\<close>), argo)+

lemma rt_case_3a:
  fixes r g b :: real
  assumes "0 \<le> r" "r \<le> g" "g < b" "b \<le> 1" "0.00001 \<le> b - r"
  shows "\<bar>hueLin r (b - r) (0.166666667 * ((r - g) + 4 * (b - r)) + 0.333333333 * (b - r)) - r\<bar> \<le> 1 / 10000"
    and "\<bar>hueLin r (b - r) (0.166666667 * ((r - g) + 4 * (b - r))) - g\<bar> \<le> 1 / 10000"
    and "\<bar>hueLin r (b - r) (0.166666667 * ((r - g) + 4 * (b - r)) - 0.333333333 * (b - r)) - b\<bar> \<le> 1 / 10000"
  by (rule hueLin_bound; (use assms in \<open>unfold hueBranch_def dec\<close>), argo)+

lemma rt_case_3b:
  fixes r g b :: real
  assumes "0 \<le> g" "g < r" "r < b" "b \<le> 1" "0.00001 \<le> b - g"
  shows "\<bar>hueLin g (b - g) (0.166666667 * ((r - g) + 4 * (b - g)) + 0.333333333 * (b - g)) - r\<bar> \<le> 1 / 10000"
    and "\<bar>hueLin g (b - g) (0.166666667 * ((r - g) + 4 * (b - g))) - g\<bar> \<le> 1 / 10000"
    and "\<bar>hueLin g (b - g) (0.166666667 * ((r - g) + 4 * (b - g)) - 0.333333333 * (b - g)) - b\<bar> \<le> 1 / 10000"
  by (rule hueLin_bound; (use assms in \<open>unfold hueBranch_def dec\<close>), argo)+

lemma roundtrip_bounds:
  fixes r g b :: real
  assumes rng: "0 \<le> r" "r \<le> 1" "0 \<le> g" "g \<le> 1" "0 \<le> b" "b \<le> 1"
    and d: "\<not> max r (max g b) - min r (min g b) < 0.00001"
  shows "\<bar>hueLin (min r (min g b)) (max r (max g b) - min r (min g b))
            (hueNumer r g b + 0.333333333 * (max r (max g b) - min r (min g b))) - r\<bar> \<le> 1 / 10000
       \<and> \<bar>hueLin (min r (min g b)) (max r (max g b) - min r (min g b))
            (hueNumer r g b) - g\<bar> \<le> 1 / 10000
       \<and> \<bar>hueLin (min r (min g b)) (max r (max g b) - min r (min g b))
            (hueNumer r g b - 0.333333333 * (max r (max g b) - min r (min g b))) - b\<bar> \<le> 1 / 10000"
proof -
  consider (c1a) "b \<le> g" "g \<le> r" | (c1b) "g < b" "b \<le> r"
    | (c2a) "r < g" "r \<le> b" "b \<le> g" | (c2b) "b < r" "r < g"
    | (c3a) "r \<le> g" "g < b" | (c3b) "g < r" "r < b"
    by linarith
  then show ?thesis
  proof cases
    case c1a
    have e: "max r (max g b) = r" "min r (min g b) = b" "hueNumer r g b = 0.166666667 * (g - b)"
      using c1a by (simp_all add: hueNumer_def Let_def max_def min_def)
    have dd: "0.00001 \<le> r - b" using d unfolding e by simp
    show ?thesis unfolding e using rt_case_1a [OF rng(5) c1a rng(2) dd] by blast
  next
    case c1b
    have e: "max r (max g b) = r" "min r (min g b) = g"
      "hueNumer r g b = 0.166666667 * ((g - b) + 6 * (r - g))"
      using c1b by (simp_all add: hueNumer_def Let_def max_def min_def)
    have dd: "0.00001 \<le> r - g" using d unfolding e by simp
    show ?thesis unfolding e using rt_case_1b [OF rng(3) c1b rng(2) dd] by blast
  next
    case c2a
    have e: "max r (max g b) = g" "min r (min g b) = r"
      "hueNumer r g b = 0.166666667 * ((b - r) + 2 * (g - r))"
      using c2a by (simp_all add: hueNumer_def Let_def max_def min_def)
    have dd: "0.00001 \<le> g - r" using d unfolding e by simp
    show ?thesis unfolding e using rt_case_2a [OF rng(1) c2a rng(4) dd] by blast
  next
    case c2b
    have e: "max r (max g b) = g" "min r (min g b) = b"
      "hueNumer r g b = 0.166666667 * ((b - r) + 2 * (g - b))"
      using c2b by (simp_all add: hueNumer_def Let_def max_def min_def)
    have dd: "0.00001 \<le> g - b" using d unfolding e by simp
    show ?thesis unfolding e using rt_case_2b [OF rng(5) c2b rng(4) dd] by blast
  next
    case c3a
    have e: "max r (max g b) = b" "min r (min g b) = r"
      "hueNumer r g b = 0.166666667 * ((r - g) + 4 * (b - r))"
      using c3a by (simp_all add: hueNumer_def Let_def max_def min_def)
    have dd: "0.00001 \<le> b - r" using d unfolding e by simp
    show ?thesis unfolding e using rt_case_3a [OF rng(1) c3a rng(6) dd] by blast
  next
    case c3b
    have e: "max r (max g b) = b" "min r (min g b) = g"
      "hueNumer r g b = 0.166666667 * ((r - g) + 4 * (b - g))"
      using c3b by (simp_all add: hueNumer_def Let_def max_def min_def)
    have dd: "0.00001 \<le> b - g" using d unfolding e by simp
    show ?thesis unfolding e using rt_case_3b [OF rng(3) c3b rng(6) dd] by blast
  qed
qed


lemma roundtrip_achromatic:
  fixes r g b :: real
  assumes d: "max r (max g b) - min r (min g b) < 0.00001"
  shows "RGBtoHSL r g b = (0, 0, (max r (max g b) + min r (min g b)) * 0.5)"
    and "(case RGBtoHSL r g b of (h, s, l) \<Rightarrow> HSLtoRGB h s l)
           = ((max r (max g b) + min r (min g b)) * 0.5, (max r (max g b) + min r (min g b)) * 0.5,
              (max r (max g b) + min r (min g b)) * 0.5)"
    and "\<bar>(max r (max g b) + min r (min g b)) * 0.5 - r\<bar> \<le> 1 / 10000"
    and "\<bar>(max r (max g b) + min r (min g b)) * 0.5 - g\<bar> \<le> 1 / 10000"
    and "\<bar>(max r (max g b) + min r (min g b)) * 0.5 - b\<bar> \<le> 1 / 10000"
proof -
  show hsl: "RGBtoHSL r g b = (0, 0, (max r (max g b) + min r (min g b)) * 0.5)"
    unfolding RGBtoHSL_max_min Let_def using d by (simp only: if_True)
  show "(case RGBtoHSL r g b of (h, s, l) \<Rightarrow> HSLtoRGB h s l)
           = ((max r (max g b) + min r (min g b)) * 0.5, (max r (max g b) + min r (min g b)) * 0.5,
              (max r (max g b) + min r (min g b)) * 0.5)"
    unfolding hsl by (simp add: HSLtoRGB_def)
  show "\<bar>(max r (max g b) + min r (min g b)) * 0.5 - r\<bar> \<le> 1 / 10000"
    "\<bar>(max r (max g b) + min r (min g b)) * 0.5 - g\<bar> \<le> 1 / 10000"
    "\<bar>(max r (max g b) + min r (min g b)) * 0.5 - b\<bar> \<le> 1 / 10000"
    using d unfolding dec by argo+
qed

text \<open>
  Claim C9. In the exact-arithmetic model, with the decimal constants of the source: for
  every RGB triple in the unit cube, converting to HSL and back gives each channel within
  \<open>10\<^sup>-\<^sup>4\<close> of the original; and when \<^verbatim>\<open>maxVal - minVal\<close> is below the threshold
  \<^verbatim>\<open>0.00001\<close>, \<^verbatim>\<open>RGBtoHSL\<close> returns hue 0 and saturation 0.
\<close>

theorem hsl_roundtrip:
  "(0 \<le> r \<and> r \<le> 1 \<and> 0 \<le> g \<and> g \<le> 1 \<and> 0 \<le> b \<and> b \<le> 1 \<longrightarrow>
      (case RGBtoHSL r g b of (h, s, l) \<Rightarrow>
         case HSLtoRGB h s l of (r', g', b') \<Rightarrow>
           \<bar>r' - r\<bar> \<le> 1 / 10000 \<and> \<bar>g' - g\<bar> \<le> 1 / 10000 \<and> \<bar>b' - b\<bar> \<le> 1 / 10000))
   \<and> ((if r > g then (if r > b then r else b) else (if g > b then g else b))
        - (if r < g then (if r < b then r else b) else (if g < b then g else b)) < 0.00001 \<longrightarrow>
      fst (RGBtoHSL r g b) = 0 \<and> fst (snd (RGBtoHSL r g b)) = 0)"
proof (intro conjI impI)
  assume "0 \<le> r \<and> r \<le> 1 \<and> 0 \<le> g \<and> g \<le> 1 \<and> 0 \<le> b \<and> b \<le> 1"
  then have rng: "0 \<le> r" "r \<le> 1" "0 \<le> g" "g \<le> 1" "0 \<le> b" "b \<le> 1" by simp_all
  have "case (case RGBtoHSL r g b of (h, s, l) \<Rightarrow> HSLtoRGB h s l) of (r', g', b') \<Rightarrow>
           \<bar>r' - r\<bar> \<le> 1 / 10000 \<and> \<bar>g' - g\<bar> \<le> 1 / 10000 \<and> \<bar>b' - b\<bar> \<le> 1 / 10000"
  proof (cases "max r (max g b) - min r (min g b) < 0.00001")
    case True
    show ?thesis
      unfolding roundtrip_achromatic(2) [OF True] prod.case
      using roundtrip_achromatic(3-5) [OF True] by blast
  next
    case False
    show ?thesis
      unfolding HSLtoRGB_of_RGBtoHSL_chromatic [OF rng False] Let_def prod.case
      using roundtrip_bounds [OF rng False] .
  qed
  then show "case RGBtoHSL r g b of (h, s, l) \<Rightarrow>
         case HSLtoRGB h s l of (r', g', b') \<Rightarrow>
           \<bar>r' - r\<bar> \<le> 1 / 10000 \<and> \<bar>g' - g\<bar> \<le> 1 / 10000 \<and> \<bar>b' - b\<bar> \<le> 1 / 10000"
    by (simp add: split_beta)
next
  assume a: "(if r > g then (if r > b then r else b) else (if g > b then g else b))
        - (if r < g then (if r < b then r else b) else (if g < b then g else b)) < 0.00001"
  show "fst (RGBtoHSL r g b) = 0" "fst (snd (RGBtoHSL r g b)) = 0"
    using a unfolding RGBtoHSL_def Let_def by (simp_all only: if_True fst_conv snd_conv)
qed

theorem hsl_roundtrip_witness:
  "(0::real) \<le> 1 / 5 \<and> (1 / 5 :: real) \<le> 1 \<and> (0::real) \<le> 1 / 2 \<and> (1 / 2 :: real) \<le> 1
   \<and> (0::real) \<le> 4 / 5 \<and> (4 / 5 :: real) \<le> 1
   \<and> (case RGBtoHSL (1 / 5) (1 / 2) (4 / 5) of (h, s, l) \<Rightarrow>
         case HSLtoRGB h s l of (r', g', b') \<Rightarrow>
           \<bar>r' - 1 / 5\<bar> \<le> 1 / 10000 \<and> \<bar>g' - 1 / 2\<bar> \<le> 1 / 10000 \<and> \<bar>b' - 4 / 5\<bar> \<le> 1 / 10000)
   \<and> fst (RGBtoHSL (1 / 2) (1 / 2) (1 / 2)) = 0 \<and> fst (snd (RGBtoHSL (1 / 2) (1 / 2) (1 / 2))) = 0"
  using hsl_roundtrip [of "1 / 5" "1 / 2" "4 / 5"] hsl_roundtrip [of "1 / 2" "1 / 2" "1 / 2"]
  by simp

text \<open>
  The round trip is not exact: \<^verbatim>\<open>0.166666667\<close> and \<^verbatim>\<open>0.666666667\<close> are not 1/6 and 2/3, and
  pure yellow comes back with red \<open>1.000000002\<close>.
\<close>

lemma hsl_roundtrip_yellow_inexact:
  "RGBtoHSL 1 1 0 = (0.166666667, 1, 0.5)"
  "HSLtoRGB 0.166666667 1 0.5 = (1.000000002, 1, 0)"
  by (simp_all add: RGBtoHSL_def HSLtoRGB_def HueToRGB_def Let_def)
section \<open>Blur pass: the total weight of a masked pixel\<close>

lemma foldl_upd_notin:
  "i \<notin> k ` set xs \<Longrightarrow> foldl (\<lambda>t x. t(k x := v x)) t xs i = t i"
  by (induction xs arbitrary: t) auto

lemma foldl_upd_in:
  "inj_on k (set xs) \<Longrightarrow> a \<in> set xs \<Longrightarrow> foldl (\<lambda>t x. t(k x := v x)) t xs (k a) = v a"
proof (induction xs arbitrary: t)
  case Nil then show ?case by simp
next
  case (Cons x xs)
  show ?case
  proof (cases "k a \<in> k ` set xs")
    case True
    then obtain b where b: "b \<in> set xs" "k b = k a" by auto
    have "b = a"
      using inj_onD [OF Cons.prems(1), of b a] b Cons.prems(2) by auto
    with b Cons show ?thesis by auto
  next
    case False
    with Cons.prems have ax: "a = x" by auto
    have 1: "foldl (\<lambda>t x. t(k x := v x)) (t(k x := v x)) xs (k x) = (t(k x := v x)) (k x)"
      by (rule foldl_upd_notin) (use False ax in simp)
    have 2: "(t(k x := v x)) (k x) = v x" by simp
    show ?thesis unfolding ax foldl.simps using 1 2 by (rule trans)
  qed
qed

lemma foldl_keeps_at:
  "(\<And>a t. a \<in> set xs \<Longrightarrow> F t a i = t i) \<Longrightarrow> foldl F t xs i = t i"
  by (induction xs arbitrary: t) auto

lemma idx_unique:
  fixes p q a b s :: int
  assumes "0 \<le> a" "a < s" "0 \<le> b" "b < s" "p * s + a = q * s + b"
  shows "p = q \<and> a = b"
proof -
  have "p = (p * s + a) div s"
    using assms(1,2) by simp
  also have "\<dots> = (q * s + b) div s"
    by (simp only: assms(5))
  also have "\<dots> = q"
    using assms(3,4) by simp
  finally have "p = q" .
  with assms(5) show ?thesis by simp
qed

lemma gaussStep_in:
  assumes "dx \<in> {- r..r}"
  shows "gaussStep r t dy ((dy + r) * (r * 2 + 1) + (dx + r))
           = exp (- real_of_int (dx * dx + dy * dy) / (2 * real_of_int r * real_of_int r))"
  unfolding gaussStep_def
  by (rule foldl_upd_in [where k = "\<lambda>dx. (dy + r) * (r * 2 + 1) + (dx + r)"])
     (use assms in \<open>auto simp: inj_on_def\<close>)

lemma gaussStep_other_row:
  assumes "dx \<in> {- r..r}" "dy' \<noteq> dy"
  shows "gaussStep r t dy' ((dy + r) * (r * 2 + 1) + (dx + r)) = t ((dy + r) * (r * 2 + 1) + (dx + r))"
  unfolding gaussStep_def
proof (rule foldl_upd_notin [where k = "\<lambda>dx. (dy' + r) * (r * 2 + 1) + (dx + r)"], rule notI)
  assume "(dy + r) * (r * 2 + 1) + (dx + r) \<in> (\<lambda>dx. (dy' + r) * (r * 2 + 1) + (dx + r)) ` set [- r..r]"
  then obtain dx' where d: "dx' \<in> {- r..r}"
    "(dy + r) * (r * 2 + 1) + (dx + r) = (dy' + r) * (r * 2 + 1) + (dx' + r)" by auto
  have "dy + r = dy' + r \<and> dx + r = dx' + r"
    by (rule idx_unique [OF _ _ _ _ d(2)]) (use assms d(1) in auto)
  with assms(2) show False by simp
qed

lemma gaussTable_built:
  assumes "dy \<in> {- r..r}" "dx \<in> {- r..r}"
  shows "foldl (gaussStep r) t [- r..r] ((dy + r) * (r * 2 + 1) + (dx + r))
           = exp (- real_of_int (dx * dx + dy * dy) / (2 * real_of_int r * real_of_int r))"
proof -
  have split: "[- r..r] = [- r..dy - 1] @ dy # [dy + 1..r]"
    using assms(1) by (intro upto_split3) auto
  let ?i = "(dy + r) * (r * 2 + 1) + (dx + r)"
  let ?t1 = "foldl (gaussStep r) t [- r..dy - 1]"
  have "foldl (gaussStep r) t [- r..r] ?i = foldl (gaussStep r) (gaussStep r ?t1 dy) [dy + 1..r] ?i"
    by (simp add: split)
  also have "\<dots> = gaussStep r ?t1 dy ?i"
    by (rule foldl_keeps_at) (use assms(2) in \<open>auto intro!: gaussStep_other_row\<close>)
  also have "\<dots> = exp (- real_of_int (dx * dx + dy * dy) / (2 * real_of_int r * real_of_int r))"
    by (rule gaussStep_in [OF assms(2)])
  finally show ?thesis .
qed

lemma PrecomputeGaussianWeights_fresh:
  assumes "r \<noteq> g_currentBlurRadius g" "r \<le> MAX_WEIGHT_TABLE_RADIUS"
  shows "g_currentBlurRadius (PrecomputeGaussianWeights r g) = r"
    and "gaussianTableFor r (g_gaussianWeights (PrecomputeGaussianWeights r g))"
proof -
  have tbl: "g_gaussianWeights (PrecomputeGaussianWeights r g)
               = foldl (gaussStep r) (g_gaussianWeights g) [- r..r]"
  proof -
    have ngt: "\<not> r > MAX_WEIGHT_TABLE_RADIUS" using assms(2) by simp
    have "PrecomputeGaussianWeights r g
            = g\<lparr>g_gaussianWeights := foldl (gaussStep r) (g_gaussianWeights g) [- r..r],
                g_currentBlurRadius := r\<rparr>"
      by (simp only: PrecomputeGaussianWeights_def Let_def gaussStep_def [abs_def]
          if_not_P [OF assms(1)] if_not_P [OF ngt])
    then show ?thesis by simp
  qed
  show "g_currentBlurRadius (PrecomputeGaussianWeights r g) = r"
    using assms by (simp add: PrecomputeGaussianWeights_def Let_def)
  show "gaussianTableFor r (g_gaussianWeights (PrecomputeGaussianWeights r g))"
    unfolding gaussianTableFor_def tbl by (intro ballI gaussTable_built)
qed

lemma PrecomputeGaussianWeights_valid:
  assumes "gaussianCacheValid g" "1 \<le> r" "r \<le> MAX_WEIGHT_TABLE_RADIUS"
  shows "g_currentBlurRadius (PrecomputeGaussianWeights r g) = r
         \<and> gaussianTableFor r (g_gaussianWeights (PrecomputeGaussianWeights r g))"
proof (cases "r = g_currentBlurRadius g")
  case True
  then have "PrecomputeGaussianWeights r g = g" by (simp add: PrecomputeGaussianWeights_def)
  with True assms show ?thesis by (auto simp: gaussianCacheValid_def)
next
  case False
  then show ?thesis using PrecomputeGaussianWeights_fresh [OF False assms(3)] by simp
qed

lemma gaussianCacheValid_initial: "gaussianCacheValid initialGlobals"
  by (simp add: gaussianCacheValid_def initialGlobals_def)

text \<open>
  Every call the orchestrator makes (radius at least 1) keeps the cache valid; a radius
  above the cap leaves the table of the cap.
\<close>

lemma PrecomputeGaussianWeights_keeps_valid:
  assumes "gaussianCacheValid g" "1 \<le> r"
  shows "gaussianCacheValid (PrecomputeGaussianWeights r g)"
proof (cases "r \<le> MAX_WEIGHT_TABLE_RADIUS")
  case True
  then show ?thesis
    using PrecomputeGaussianWeights_valid [OF assms(1,2) True] assms(2)
    by (simp add: gaussianCacheValid_def)
next
  case False
  then have gt: "r > MAX_WEIGHT_TABLE_RADIUS" by simp
  have ne: "r \<noteq> g_currentBlurRadius g"
    using assms(1) gt by (auto simp: gaussianCacheValid_def MAX_WEIGHT_TABLE_RADIUS_def)
  have eq: "PrecomputeGaussianWeights r g
          = g\<lparr>g_gaussianWeights := foldl (gaussStep MAX_WEIGHT_TABLE_RADIUS) (g_gaussianWeights g)
                 [- MAX_WEIGHT_TABLE_RADIUS..MAX_WEIGHT_TABLE_RADIUS],
              g_currentBlurRadius := MAX_WEIGHT_TABLE_RADIUS\<rparr>"
    by (simp only: PrecomputeGaussianWeights_def Let_def gaussStep_def [abs_def]
        if_not_P [OF ne] if_P [OF gt])
  have cur: "g_currentBlurRadius (PrecomputeGaussianWeights r g) = MAX_WEIGHT_TABLE_RADIUS"
    unfolding eq by simp
  have tbl: "g_gaussianWeights (PrecomputeGaussianWeights r g)
          = foldl (gaussStep MAX_WEIGHT_TABLE_RADIUS) (g_gaussianWeights g)
              [- MAX_WEIGHT_TABLE_RADIUS..MAX_WEIGHT_TABLE_RADIUS]"
    unfolding eq by simp
  have "gaussianTableFor MAX_WEIGHT_TABLE_RADIUS
          (g_gaussianWeights (PrecomputeGaussianWeights r g))"
    unfolding tbl gaussianTableFor_def by (intro ballI gaussTable_built)
  moreover have "(1::int) \<le> MAX_WEIGHT_TABLE_RADIUS"
    by (simp add: MAX_WEIGHT_TABLE_RADIUS_def)
  ultimately show ?thesis
    unfolding gaussianCacheValid_def cur by simp
qed


lemma totalWeight_accumulate [simp]:
  "totalWeight (accumulate chan n w acc) = totalWeight acc + w"
  by (simp add: accumulate_def)

lemma foldl_measure_mono:
  fixes m :: "'s \<Rightarrow> real"
  assumes "\<And>s a. a \<in> set xs \<Longrightarrow> m s \<le> m (f s a)"
  shows "m s \<le> m (foldl f s xs)"
  using assms
proof (induction xs arbitrary: s)
  case Nil then show ?case by simp
next
  case (Cons x xs)
  have "m s \<le> m (f s x)" using Cons.prems by simp
  also have "\<dots> \<le> m (foldl f (f s x) xs)" using Cons.prems by (intro Cons.IH) simp
  finally show ?case by simp
qed

lemma foldl_upto_gain:
  fixes m :: "'s \<Rightarrow> real"
  assumes "i \<le> c" "c \<le> j"
    and mono: "\<And>s a. a \<in> {i..j} \<Longrightarrow> m s \<le> m (f s a)"
    and gain: "\<And>s. m s + w \<le> m (f s c)"
  shows "m s + w \<le> m (foldl f s [i..j])"
proof -
  have split: "[i..j] = [i..c - 1] @ c # [c + 1..j]"
    using assms(1,2) by (rule upto_split3)
  let ?s1 = "foldl f s [i..c - 1]"
  have "m s \<le> m ?s1"
    by (rule foldl_measure_mono, rule mono) (use assms(2) in auto)
  then have "m s + w \<le> m ?s1 + w" by simp
  also have "\<dots> \<le> m (f ?s1 c)" by (rule gain)
  also have "\<dots> \<le> m (foldl f (f ?s1 c) [c + 1..j])"
    by (rule foldl_measure_mono, rule mono) (use assms(1) in auto)
  finally show ?thesis by (simp add: split)
qed

lemma blurRow_mono:
  assumes "\<And>dx. dx \<in> {- r..r} \<Longrightarrow> 0 \<le> g_gaussianWeights g (off + dx + r)"
  shows "totalWeight acc \<le> totalWeight (blurRow chan g info rowPtr off r xL ny acc)"
  unfolding blurRow_def
  by (rule foldl_measure_mono) (use assms in \<open>auto simp: Let_def\<close>)

lemma blurRow_centre:
  assumes "\<And>dx. dx \<in> {- r..r} \<Longrightarrow> 0 \<le> g_gaussianWeights g (off + dx + r)"
    and "0 \<le> r" and "GetMaskAt info xL ny \<noteq> 0"
  shows "totalWeight acc + g_gaussianWeights g (off + 0 + r)
           \<le> totalWeight (blurRow chan g info rowPtr off r xL ny acc)"
  unfolding blurRow_def
proof (rule foldl_upto_gain)
  show "- r \<le> 0" "0 \<le> r" using assms(2) by simp_all
next
  fix s a assume "a \<in> {- r..r}"
  then show "totalWeight s \<le> totalWeight (let nx = xL + a in if nx < 0 \<or> maskWidth info \<le> nx then s
        else if GetMaskAt info nx ny = 0 then s
        else let neighbor = rowPtr nx; weight = g_gaussianWeights g (off + a + r)
             in accumulate chan neighbor weight s)"
    using assms(1) by (auto simp: Let_def)
next
  fix s
  have "\<not> (xL < 0 \<or> maskWidth info \<le> xL)"
    using assms(3) by (auto simp: GetMaskAt_def split: if_splits)
  then show "totalWeight s + g_gaussianWeights g (off + 0 + r)
      \<le> totalWeight (let nx = xL + 0 in if nx < 0 \<or> maskWidth info \<le> nx then s
        else if GetMaskAt info nx ny = 0 then s
        else let neighbor = rowPtr nx; weight = g_gaussianWeights g (off + 0 + r)
             in accumulate chan neighbor weight s)"
    using assms(3) by (simp add: Let_def)
qed

lemma gaussianTable_entry:
  assumes "gaussianTableFor r tbl" "dy \<in> {- r..r}" "dx \<in> {- r..r}"
  shows "tbl ((dy + r) * (r * 2 + 1) + dx + r)
           = exp (- real_of_int (dx * dx + dy * dy) / (2 * real_of_int r * real_of_int r))"
  using assms unfolding gaussianTableFor_def by (simp add: add.assoc)

lemma blurWindow_totalWeight:
  assumes tbl: "gaussianTableFor r (g_gaussianWeights g)"
    and r: "0 \<le> r" and c: "blurRadius ctx = r" "blurSize ctx = r * 2 + 1"
    and mask: "GetMaskAt info xL yL \<noteq> 0"
  shows "1 \<le> totalWeight (blurWindow chan g ctx info xL yL)"
proof -
  have nonneg: "0 \<le> g_gaussianWeights g ((dy + r) * (r * 2 + 1) + dx + r)"
    if "dy \<in> {- r..r}" "dx \<in> {- r..r}" for dy dx
    by (simp only: gaussianTable_entry [OF tbl that] exp_ge_zero)
  have centre: "g_gaussianWeights g ((0 + r) * (r * 2 + 1) + 0 + r) = 1"
    using gaussianTable_entry [OF tbl, of 0 0] r by simp
  have inb: "\<not> (yL < 0 \<or> maskHeight info \<le> yL)"
    using mask by (auto simp: GetMaskAt_def split: if_splits)
  have "totalWeight zeroAccum + 1 \<le> totalWeight (blurWindow chan g ctx info xL yL)"
    unfolding blurWindow_def c
  proof (rule foldl_upto_gain)
    show "- r \<le> 0" "0 \<le> r" using r by simp_all
  next
    fix s dy assume dy: "dy \<in> {- r..r}"
    show "totalWeight s \<le> totalWeight (let ny = yL + dy in if ny < 0 \<or> maskHeight info \<le> ny then s
          else let rowPtr = GetRow (tempWorld ctx) ny; weightRowOffset = (dy + r) * (r * 2 + 1)
               in blurRow chan g info rowPtr weightRowOffset r xL ny s)"
    proof -
      have "totalWeight s \<le> totalWeight (blurRow chan g info (GetRow (tempWorld ctx) (yL + dy))
              ((dy + r) * (r * 2 + 1)) r xL (yL + dy) s)"
        by (rule blurRow_mono) (rule nonneg [OF dy])
      then show ?thesis by (simp add: Let_def)
    qed
  next
    fix s
    have "totalWeight s + g_gaussianWeights g ((0 + r) * (r * 2 + 1) + 0 + r)
            \<le> totalWeight (blurRow chan g info (GetRow (tempWorld ctx) yL) ((0 + r) * (r * 2 + 1)) r xL yL s)"
      by (rule blurRow_centre [OF nonneg r mask]) (use r in auto)
    then show "totalWeight s + 1 \<le> totalWeight (let ny = yL + 0 in if ny < 0 \<or> maskHeight info \<le> ny then s
          else let rowPtr = GetRow (tempWorld ctx) ny; weightRowOffset = (0 + r) * (r * 2 + 1)
               in blurRow chan g info rowPtr weightRowOffset r xL ny s)"
      using inb centre by (simp add: Let_def)
  qed
  then show ?thesis by (simp add: zeroAccum_def)
qed

lemma blurFinish_average:
  assumes "GetMaskAt info xL yL \<noteq> 0" "1 \<le> totalWeight acc"
  shows "blurFinish clampOut info xL yL inP acc = weightedAverage clampOut acc"
  using assms by (simp add: blurFinish_def weightedAverage_def Let_def)

text \<open>
  Claim C10. For a pixel whose mask value is nonzero, with the Gaussian table built by
  \<^verbatim>\<open>PrecomputeGaussianWeights\<close> for the blur radius (from a valid cache, radius 1 to 50),
  the window contains the pixel itself with weight \<open>exp 0 = 1\<close> and all other weights are
  non-negative: the total weight is at least 1 in all three bit depths, and the pixel
  written is the weighted average, never the input through the zero-weight fallback.
\<close>

theorem blur_masked_total_weight:
  fixes w8 :: "PF_Pixel8 PF_EffectWorld" and w16 :: "PF_Pixel16 PF_EffectWorld"
    and wF :: "PF_PixelFloat PF_EffectWorld"
  assumes "gaussianCacheValid g0" and "1 \<le> r" and "r \<le> MAX_WEIGHT_TABLE_RADIUS"
    and "GetMaskAt info x y \<noteq> 0"
  shows
    "1 \<le> totalWeight (blurWindow8 (PrecomputeGaussianWeights r g0)
            \<lparr> tempWorld = w8, blurRadius = r, blurSize = r * 2 + 1 \<rparr> info x y)
     \<and> 1 \<le> totalWeight (blurWindow chanW (PrecomputeGaussianWeights r g0)
            \<lparr> tempWorld = w16, blurRadius = r, blurSize = r * 2 + 1 \<rparr> info x y)
     \<and> 1 \<le> totalWeight (blurWindow chanF (PrecomputeGaussianWeights r g0)
            \<lparr> tempWorld = wF, blurRadius = r, blurSize = r * 2 + 1 \<rparr> info x y)
     \<and> BlurPass8_Optimized (PrecomputeGaussianWeights r g0)
            \<lparr> tempWorld = w8, blurRadius = r, blurSize = r * 2 + 1 \<rparr> info x y in8
         = weightedAverage ClampByte (blurWindow8 (PrecomputeGaussianWeights r g0)
            \<lparr> tempWorld = w8, blurRadius = r, blurSize = r * 2 + 1 \<rparr> info x y)
     \<and> BlurPass16_Optimized (PrecomputeGaussianWeights r g0)
            \<lparr> tempWorld = w16, blurRadius = r, blurSize = r * 2 + 1 \<rparr> info x y in16
         = weightedAverage Clamp16 (blurWindow chanW (PrecomputeGaussianWeights r g0)
            \<lparr> tempWorld = w16, blurRadius = r, blurSize = r * 2 + 1 \<rparr> info x y)
     \<and> BlurPassFloat_Optimized (PrecomputeGaussianWeights r g0)
            \<lparr> tempWorld = wF, blurRadius = r, blurSize = r * 2 + 1 \<rparr> info x y inF
         = weightedAverage castFpShort (blurWindow chanF (PrecomputeGaussianWeights r g0)
            \<lparr> tempWorld = wF, blurRadius = r, blurSize = r * 2 + 1 \<rparr> info x y)"
proof -
  let ?g = "PrecomputeGaussianWeights r g0"
  have tbl: "gaussianTableFor r (g_gaussianWeights ?g)"
    using PrecomputeGaussianWeights_valid [OF assms(1,2,3)] by simp
  have r0: "0 \<le> r" using assms(2) by simp
  have tw8: "1 \<le> totalWeight (blurWindow chanW ?g
              \<lparr> tempWorld = w8, blurRadius = r, blurSize = r * 2 + 1 \<rparr> info x y)"
    by (rule blurWindow_totalWeight [OF tbl r0 _ _ assms(4)]) simp_all
  have tw16: "1 \<le> totalWeight (blurWindow chanW ?g
              \<lparr> tempWorld = w16, blurRadius = r, blurSize = r * 2 + 1 \<rparr> info x y)"
    by (rule blurWindow_totalWeight [OF tbl r0 _ _ assms(4)]) simp_all
  have twF: "1 \<le> totalWeight (blurWindow chanF ?g
              \<lparr> tempWorld = wF, blurRadius = r, blurSize = r * 2 + 1 \<rparr> info x y)"
    by (rule blurWindow_totalWeight [OF tbl r0 _ _ assms(4)]) simp_all
  show ?thesis
    unfolding BlurPass8_Optimized_def BlurPass16_Optimized_def BlurPassFloat_Optimized_def
      blurWindow8_eq_blurWindow
    by (simp add: tw8 tw16 twF blurFinish_average [OF assms(4) tw8]
        blurFinish_average [OF assms(4) tw16] blurFinish_average [OF assms(4) twF])
qed

theorem blur_masked_total_weight_witness:
  "gaussianCacheValid initialGlobals \<and> (1::int) \<le> 2 \<and> 2 \<le> MAX_WEIGHT_TABLE_RADIUS
   \<and> GetMaskAt exMaskInfo 2 2 \<noteq> 0
   \<and> 1 \<le> totalWeight (blurWindow8 (PrecomputeGaussianWeights 2 initialGlobals)
            \<lparr> tempWorld = srcWorld exMaskInfo, blurRadius = 2, blurSize = 2 * 2 + 1 \<rparr>
            exMaskInfo 2 2)
   \<and> BlurPass8_Optimized (PrecomputeGaussianWeights 2 initialGlobals)
            \<lparr> tempWorld = srcWorld exMaskInfo, blurRadius = 2, blurSize = 2 * 2 + 1 \<rparr>
            exMaskInfo 2 2 (exPixel8 255 255 0 0)
         = weightedAverage ClampByte (blurWindow8 (PrecomputeGaussianWeights 2 initialGlobals)
            \<lparr> tempWorld = srcWorld exMaskInfo, blurRadius = 2, blurSize = 2 * 2 + 1 \<rparr>
            exMaskInfo 2 2)"
proof -
  have h: "gaussianCacheValid initialGlobals" "(1::int) \<le> 2" "2 \<le> MAX_WEIGHT_TABLE_RADIUS"
    "GetMaskAt exMaskInfo 2 2 \<noteq> 0"
    by (simp_all add: gaussianCacheValid_initial MAX_WEIGHT_TABLE_RADIUS_def GetMaskAt_def
        exMaskInfo_def ex_defs)
  show ?thesis
    using h blur_masked_total_weight [OF h, of "srcWorld exMaskInfo" _ _ "exPixel8 255 255 0 0"]
    by simp
qed
section \<open>The two passes over the whole frame\<close>

lemma set_iteratePixels:
  "set (iteratePixels w h) = {(x, y). 0 \<le> x \<and> x < w \<and> 0 \<le> y \<and> y < h}"
  by (auto simp: iteratePixels_def)

lemma iterateStep_pair:
  "iterateStep callback src (d, s) (x, y) =
     (d\<lparr>rows := (rows d)(y := (rows d y)(x := fst (callback s x y (rows src y x))))\<rparr>,
      snd (callback s x y (rows src y x)))"
  by (simp add: iterateStep_def split_beta)

lemma iterate_fold_frame:
  fixes callback :: "'s \<Rightarrow> int \<Rightarrow> int \<Rightarrow> 'p \<Rightarrow> 'p \<times> 's"
  assumes pix: "\<And>s x y p. Inv s \<Longrightarrow> fst (callback s x y p) = F x y p"
    and inv: "\<And>s x y p. Inv s \<Longrightarrow> Inv (snd (callback s x y p))"
    and mk: "\<And>s x y p. Inv s \<Longrightarrow>
                 lm (snd (callback s x y p)) = (lm s)(y * rb + x := V x y p)"
    and fr: "\<And>x y. (x, y) \<in> set xs \<Longrightarrow> 0 \<le> x \<and> x < rb"
    and sinit: "Inv sinit"
  shows "Inv (snd (foldl (iterateStep callback src) (dinit, sinit) xs))
       \<and> (\<forall>(x, y) \<in> set xs.
            rows (fst (foldl (iterateStep callback src) (dinit, sinit) xs)) y x
              = F x y (rows src y x)
            \<and> lm (snd (foldl (iterateStep callback src) (dinit, sinit) xs)) (y * rb + x)
              = V x y (rows src y x))"
  using fr
proof (induction xs rule: rev_induct)
  case Nil
  then show ?case using sinit by simp
next
  case (snoc a xs)
  let ?step = "iterateStep callback src"
  obtain ax ay where a: "a = (ax, ay)" by (cases a)
  obtain d s where ds: "foldl ?step (dinit, sinit) xs = (d, s)"
    by (cases "foldl ?step (dinit, sinit) xs")
  have ih: "Inv s" "\<And>x y. (x, y) \<in> set xs \<Longrightarrow>
      rows d y x = F x y (rows src y x) \<and> lm s (y * rb + x) = V x y (rows src y x)"
    using snoc.IH snoc.prems unfolding ds by auto
  have bx: "0 \<le> ax \<and> ax < rb" using snoc.prems [of ax ay] a by simp
  let ?p = "rows src ay ax"
  have step: "foldl ?step (dinit, sinit) (xs @ [a])
      = (d\<lparr>rows := (rows d)(ay := (rows d ay)(ax := F ax ay ?p))\<rparr>, snd (callback s ax ay ?p))"
    using pix [OF ih(1), of ax ay ?p] by (simp add: ds a iterateStep_pair)
  have m': "lm (snd (callback s ax ay ?p)) = (lm s)(ay * rb + ax := V ax ay ?p)"
    by (rule mk [OF ih(1)])
  show ?case
    unfolding step fst_conv snd_conv
  proof (intro conjI ballI)
    show "Inv (snd (callback s ax ay ?p))" by (rule inv [OF ih(1)])
  next
    fix c assume c: "c \<in> set (xs @ [a])"
    obtain x y where xy: "c = (x, y)" by (cases c)
    show "case c of (x, y) \<Rightarrow>
        rows (d\<lparr>rows := (rows d)(ay := (rows d ay)(ax := F ax ay ?p))\<rparr>) y x = F x y (rows src y x)
        \<and> lm (snd (callback s ax ay ?p)) (y * rb + x) = V x y (rows src y x)"
    proof (cases "(x, y) = (ax, ay)")
      case True
      then show ?thesis unfolding xy m' by simp
    next
      case False
      then have inxs: "(x, y) \<in> set xs" using c xy a by auto
      have bxx: "0 \<le> x \<and> x < rb" using snoc.prems [of x y] inxs by simp
      have "y * rb + x \<noteq> ay * rb + ax"
      proof
        assume "y * rb + x = ay * rb + ax"
        then have "y = ay \<and> x = ax"
          using idx_unique [of x rb ax y ay] bx bxx by simp
        with False show False by simp
      qed
      moreover have "rows (d\<lparr>rows := (rows d)(ay := (rows d ay)(ax := F ax ay ?p))\<rparr>) y x = rows d y x"
        using False by auto
      ultimately show ?thesis unfolding xy m' using ih(2) [OF inxs] by simp
    qed
  qed
qed

lemma iterate_frame:
  fixes callback :: "'s \<Rightarrow> int \<Rightarrow> int \<Rightarrow> 'p \<Rightarrow> 'p \<times> 's"
  assumes pix: "\<And>s x y p. Inv s \<Longrightarrow> fst (callback s x y p) = F x y p"
    and inv: "\<And>s x y p. Inv s \<Longrightarrow> Inv (snd (callback s x y p))"
    and mk: "\<And>s x y p. Inv s \<Longrightarrow>
                 lm (snd (callback s x y p)) = (lm s)(y * width dstw + x := V x y p)"
    and st: "Inv sti"
    and xy: "0 \<le> x" "x < width dstw" "0 \<le> y" "y < height dstw"
  shows "rows (fst (iterate callback sti src dstw)) y x = F x y (rows src y x)"
    and "lm (snd (iterate callback sti src dstw)) (y * width dstw + x) = V x y (rows src y x)"
    and "Inv (snd (iterate callback sti src dstw))"
proof -
  let ?xs = "iteratePixels (width dstw) (height dstw)"
  have mem: "(x, y) \<in> set ?xs"
    using xy by (simp add: set_iteratePixels)
  have f: "Inv (snd (foldl (iterateStep callback src) (dstw, sti) ?xs))
       \<and> (\<forall>(x, y) \<in> set ?xs.
            rows (fst (foldl (iterateStep callback src) (dstw, sti) ?xs)) y x
              = F x y (rows src y x)
            \<and> lm (snd (foldl (iterateStep callback src) (dstw, sti) ?xs)) (y * width dstw + x)
              = V x y (rows src y x))"
  proof (rule iterate_fold_frame)
    show "\<And>s x y p. Inv s \<Longrightarrow> fst (callback s x y p) = F x y p" by (rule pix)
    show "\<And>s x y p. Inv s \<Longrightarrow> Inv (snd (callback s x y p))" by (rule inv)
    show "\<And>s x y p. Inv s \<Longrightarrow>
            lm (snd (callback s x y p)) = (lm s)(y * width dstw + x := V x y p)" by (rule mk)
    show "\<And>x y. (x, y) \<in> set ?xs \<Longrightarrow> 0 \<le> x \<and> x < width dstw"
      by (simp add: set_iteratePixels)
    show "Inv sti" by (rule st)
  qed
  show "rows (fst (iterate callback sti src dstw)) y x = F x y (rows src y x)"
    "lm (snd (iterate callback sti src dstw)) (y * width dstw + x) = V x y (rows src y x)"
    "Inv (snd (iterate callback sti src dstw))"
    using f mem unfolding iterate_def by auto
qed


lemma FillLinePixelOf_lineMask [simp]:
  "FillLinePixelOf chan skip clampOut adjust g (info\<lparr>lineMask := m\<rparr>) x y inP
     = FillLinePixelOf chan skip clampOut adjust g info x y inP"
  by (simp add: FillLinePixelOf_def Let_def)

lemma FillAndMaskOf_frame_facts:
  assumes fillm: "\<And>info m x y p. fill (info\<lparr>lineMask := m\<rparr>) x y p = fill info x y p"
  shows "fst (FillAndMaskOf isTarget fill opaque zero ctx (info\<lparr>lineMask := m\<rparr>) x y p)
           = fst (FillAndMaskOf isTarget fill opaque zero ctx info x y p)"
    and "snd (FillAndMaskOf isTarget fill opaque zero ctx (info\<lparr>lineMask := m\<rparr>) x y p)
           = info\<lparr>lineMask := m(y * maskRowBytes info + x :=
                (if x < edgeMargin ctx \<or> y < edgeMargin ctx \<or> x \<ge> ctxWidth ctx - edgeMargin ctx \<or>
                    y \<ge> ctxHeight ctx - edgeMargin ctx then 0
                 else if isTarget p then 255 else 0))\<rparr>"
  by (simp_all add: FillAndMaskOf_def SetMaskAtFast_def Let_def fillm)

text \<open>
  Pass 1 over the whole frame: every pixel of the output is what the callback writes for
  that pixel, and every mask cell is 255 exactly when the pixel is outside the edge margin
  and matches the target color. The callback's pixel does not depend on the mask, and the
  mask cells of different pixels are different cells (the stride is the frame width).
\<close>

lemma firstPass_frame:
  fixes infoP :: "'c PF_PixelOf ColorLinesInfo"
  assumes cb: "\<And>g ctx. fillAndMask g ctx = FillAndMaskOf (isTarget ctx) (fill g ctx) opaque zero ctx"
    and fillm: "\<And>g ctx info m x y p. fill g ctx (info\<lparr>lineMask := m\<rparr>) x y p = fill g ctx info x y p"
    and xy: "0 \<le> x" "x < width output_world" "0 \<le> y" "y < height output_world"
    and info1: "info1 = infoP\<lparr> srcWorld := input_world, maskWidth := width output_world,
                   maskHeight := height output_world, maskRowBytes := width output_world,
                   lineMask := (\<lambda>_. 0) \<rparr>"
    and ctx: "ctx = fst (InitProcessingContext info1 g0)"
    and g1: "g1 = snd (InitProcessingContext info1 g0)"
  shows "rows (fst (firstPass fillAndMask g0 infoP input_world output_world)) y x
           = fst (fillAndMask g1 ctx info1 x y (rows input_world y x))"
    and "GetMaskAtFast (fst (snd (firstPass fillAndMask g0 infoP input_world output_world))) x y
           = (if inEdgeMargin info1 x y then 0
              else if isTarget ctx (rows input_world y x) then 255 else 0)"
proof -
  define Inv where "Inv s \<longleftrightarrow> (\<exists>m. s = info1\<lparr>lineMask := m\<rparr>)" for s
  define V where "V x y p =
      (if x < edgeMargin ctx \<or> y < edgeMargin ctx \<or> x \<ge> ctxWidth ctx - edgeMargin ctx \<or>
          y \<ge> ctxHeight ctx - edgeMargin ctx then (0 :: 8 word)
       else if isTarget ctx p then 255 else 0)" for x y p
  have rb: "maskRowBytes info1 = width output_world" unfolding info1 by simp
  have i0: "Inv info1" unfolding Inv_def by (rule exI [of _ "lineMask info1"]) simp
  have pix: "fst (fillAndMask g1 ctx s x y p) = fst (fillAndMask g1 ctx info1 x y p)"
    if "Inv s" for s x y p
    using that unfolding Inv_def cb by (auto simp: FillAndMaskOf_frame_facts(1) [OF fillm])
  have inv: "Inv (snd (fillAndMask g1 ctx s x y p))" if "Inv s" for s x y p
    using that unfolding Inv_def cb
    by (auto simp: FillAndMaskOf_frame_facts(2) [OF fillm])
  have mk: "lineMask (snd (fillAndMask g1 ctx s x y p))
              = (lineMask s)(y * width output_world + x := V x y p)" if "Inv s" for s x y p
    using that unfolding Inv_def cb V_def
    by (auto simp: FillAndMaskOf_frame_facts(2) [OF fillm] rb)
  note fr = iterate_frame [where callback = "fillAndMask g1 ctx" and Inv = Inv
      and F = "\<lambda>x y p. fst (fillAndMask g1 ctx info1 x y p)" and lm = lineMask and V = V
      and dstw = output_world and sti = info1 and src = input_world,
      OF pix inv mk i0 xy]
  have fp: "firstPass fillAndMask g0 infoP input_world output_world
              = (fst (iterate (fillAndMask g1 ctx) info1 input_world output_world),
                 snd (iterate (fillAndMask g1 ctx) info1 input_world output_world), g1)"
    unfolding firstPass_def Let_def info1 [symmetric] ctx g1 by (simp add: split_beta)
  show "rows (fst (firstPass fillAndMask g0 infoP input_world output_world)) y x
           = fst (fillAndMask g1 ctx info1 x y (rows input_world y x))"
    unfolding fp using fr(1) by simp
  obtain m where m: "snd (iterate (fillAndMask g1 ctx) info1 input_world output_world)
                       = info1\<lparr>lineMask := m\<rparr>"
    using fr(3) unfolding Inv_def by blast
  have e: "inEdgeMargin info1 x y \<longleftrightarrow>
      (x < edgeMargin ctx \<or> y < edgeMargin ctx \<or> x \<ge> ctxWidth ctx - edgeMargin ctx \<or>
          y \<ge> ctxHeight ctx - edgeMargin ctx)"
    unfolding ctx inEdgeMargin_def InitProcessingContext_margin by simp
  have "GetMaskAtFast (snd (iterate (fillAndMask g1 ctx) info1 input_world output_world)) x y
          = V x y (rows input_world y x)"
    using fr(2) unfolding GetMaskAtFast_def m by (simp add: rb)
  then show "GetMaskAtFast (fst (snd (firstPass fillAndMask g0 infoP input_world output_world))) x y
           = (if inEdgeMargin info1 x y then 0
              else if isTarget ctx (rows input_world y x) then 255 else 0)"
    unfolding fp V_def e by simp
qed

lemma firstPass_frame8:
  assumes "0 \<le> x" "x < width output_world" "0 \<le> y" "y < height output_world"
    and "info1 = infoP\<lparr> srcWorld := input_world, maskWidth := width output_world,
                   maskHeight := height output_world, maskRowBytes := width output_world,
                   lineMask := (\<lambda>_. 0) \<rparr>"
    and "ctx = fst (InitProcessingContext info1 g0)"
    and "g1 = snd (InitProcessingContext info1 g0)"
  shows "rows (fst (firstPass FillAndMask8_Optimized g0 infoP input_world output_world)) y x
           = fst (FillAndMask8_Optimized g1 ctx info1 x y (rows input_world y x))"
    and "GetMaskAtFast (fst (snd (firstPass FillAndMask8_Optimized g0 infoP input_world output_world))) x y
           = (if inEdgeMargin info1 x y then 0
              else if IsTargetColor8Fast (rows input_world y x) (targetR8 ctx) (targetG8 ctx)
                        (targetB8 ctx) (toleranceSq8 ctx) then 255 else 0)"
  by (rule firstPass_frame [where fillAndMask = FillAndMask8_Optimized
        and isTarget = "\<lambda>ctx p. IsTargetColor8Fast p (targetR8 ctx) (targetG8 ctx) (targetB8 ctx)
                         (toleranceSq8 ctx)"
        and fill = "\<lambda>g ctx info' x y p. FillLinePixel8 g info' x y p (targetR8 ctx) (targetG8 ctx)
                         (targetB8 ctx) (toleranceSq8 ctx) (colorAdj ctx)"
        and opaque = 255 and zero = 0, OF _ _ assms];
      simp add: FillAndMask8_Optimized_def [abs_def] FillLinePixel8_def)+


lemma firstPass_frame16:
  assumes "0 \<le> x" "x < width output_world" "0 \<le> y" "y < height output_world"
    and "info1 = infoP\<lparr> srcWorld := input_world, maskWidth := width output_world,
                   maskHeight := height output_world, maskRowBytes := width output_world,
                   lineMask := (\<lambda>_. 0) \<rparr>"
    and "ctx = fst (InitProcessingContext info1 g0)"
    and "g1 = snd (InitProcessingContext info1 g0)"
  shows "rows (fst (firstPass FillAndMask16_Optimized g0 infoP input_world output_world)) y x
           = fst (FillAndMask16_Optimized g1 ctx info1 x y (rows input_world y x))"
    and "GetMaskAtFast (fst (snd (firstPass FillAndMask16_Optimized g0 infoP input_world output_world))) x y
           = (if inEdgeMargin info1 x y then 0
              else if IsTargetColor16Fast (rows input_world y x) (targetR16 ctx) (targetG16 ctx)
                        (targetB16 ctx) (toleranceSq16 ctx) then 255 else 0)"
  by (rule firstPass_frame [where fillAndMask = FillAndMask16_Optimized
        and isTarget = "\<lambda>ctx p. IsTargetColor16Fast p (targetR16 ctx) (targetG16 ctx) (targetB16 ctx)
                         (toleranceSq16 ctx)"
        and fill = "\<lambda>g ctx info' x y p. FillLinePixel16 g info' x y p (targetR16 ctx) (targetG16 ctx)
                         (targetB16 ctx) (toleranceSq16 ctx) (colorAdj ctx)"
        and opaque = "word_of_int PF_MAX_CHAN16" and zero = 0, OF _ _ assms];
      simp add: FillAndMask16_Optimized_def [abs_def] FillLinePixel16_def)+

lemma firstPass_frameFloat:
  assumes "0 \<le> x" "x < width output_world" "0 \<le> y" "y < height output_world"
    and "info1 = infoP\<lparr> srcWorld := input_world, maskWidth := width output_world,
                   maskHeight := height output_world, maskRowBytes := width output_world,
                   lineMask := (\<lambda>_. 0) \<rparr>"
    and "ctx = fst (InitProcessingContext info1 g0)"
    and "g1 = snd (InitProcessingContext info1 g0)"
  shows "rows (fst (firstPass FillAndMaskFloat_Optimized g0 infoP input_world output_world)) y x
           = fst (FillAndMaskFloat_Optimized g1 ctx info1 x y (rows input_world y x))"
    and "GetMaskAtFast (fst (snd (firstPass FillAndMaskFloat_Optimized g0 infoP input_world output_world))) x y
           = (if inEdgeMargin info1 x y then 0
              else if IsTargetColorFloatFast (rows input_world y x) (targetRF ctx) (targetGF ctx)
                        (targetBF ctx) (toleranceSqF ctx) then 255 else 0)"
  by (rule firstPass_frame [where fillAndMask = FillAndMaskFloat_Optimized
        and isTarget = "\<lambda>ctx p. IsTargetColorFloatFast p (targetRF ctx) (targetGF ctx) (targetBF ctx)
                         (toleranceSqF ctx)"
        and fill = "\<lambda>g ctx info' x y p. FillLinePixelFloat g info' x y p (targetRF ctx) (targetGF ctx)
                         (targetBF ctx) (toleranceSqF ctx) (colorAdj ctx)"
        and opaque = 1 and zero = 0, OF _ _ assms];
      simp add: FillAndMaskFloat_Optimized_def [abs_def] FillLinePixelFloat_def)+

text \<open>The iterator writes pixels only: the geometry of the output frame is kept.\<close>

lemma foldl_fst_invariant:
  assumes "\<And>d s a. P d \<Longrightarrow> P (fst (f (d, s) a))" and "P dinit"
  shows "P (fst (foldl f (dinit, sinit) xs))"
  using assms(2)
proof (induction xs arbitrary: dinit sinit)
  case Nil then show ?case by simp
next
  case (Cons a xs)
  obtain d1 s1 where f: "f (dinit, sinit) a = (d1, s1)" by (cases "f (dinit, sinit) a")
  have "P d1" using assms(1) [of dinit sinit a] Cons.prems f by simp
  then have "P (fst (foldl f (d1, s1) xs))" by (rule Cons.IH)
  then show ?case by (simp add: f)
qed

lemma iterate_geometry:
  "width (fst (iterate callback sti src dstw)) = width dstw"
  "height (fst (iterate callback sti src dstw)) = height dstw"
  "rowbytes (fst (iterate callback sti src dstw)) = rowbytes dstw"
  unfolding iterate_def
  by (rule foldl_fst_invariant [where P = "\<lambda>d. width d = width dstw"],
      simp_all add: iterateStep_def split_beta Let_def,
      rule foldl_fst_invariant [where P = "\<lambda>d. height d = height dstw"],
      simp_all add: iterateStep_def split_beta Let_def,
      rule foldl_fst_invariant [where P = "\<lambda>d. rowbytes d = rowbytes dstw"],
      simp_all add: iterateStep_def split_beta Let_def)

lemma firstPass_geometry:
  "width (fst (firstPass fillAndMask g0 infoP input_world output_world)) = width output_world"
  "height (fst (firstPass fillAndMask g0 infoP input_world output_world)) = height output_world"
  "rowbytes (fst (firstPass fillAndMask g0 infoP input_world output_world)) = rowbytes output_world"
  by (simp_all add: firstPass_def Let_def split_beta iterate_geometry)

text \<open>
  Pass 2 over the whole frame. The copy to the temporary world is within its buffer
  exactly when the frame has no row or the rows of the temporary world are long enough;
  then every pixel of the output is what the blur callback writes for that pixel, from
  the snapshot of pass 1; so a pixel whose mask value is 0 keeps its pass-1 value in the
  final frame.
\<close>

lemma copyToTemp_Some:
  assumes "\<not> (0 < height out1 \<and> tr < rowbytes out1)"
  shows "copyToTemp tr out1 = Some (out1\<lparr>rowbytes := tr\<rparr>)"
  using assms by (cases out1) (simp add: copyToTemp_def)

lemma secondPass_overrun:
  assumes "0 < height out1" "tr < rowbytes out1"
  shows "secondPass blurPass radius tr (out1, info2, g1) = None"
  using assms by (simp add: secondPass_def copyToTemp_def Let_def)

lemma secondPass_Some:
  assumes "\<not> (0 < height out1 \<and> tr < rowbytes out1)"
  shows "secondPass blurPass radius tr (out1, info2, g1) =
     Some (fst (iterate (\<lambda>i x y p.
                  (blurPass (PrecomputeGaussianWeights radius g1)
                     \<lparr> tempWorld = out1\<lparr>rowbytes := tr\<rparr>, blurRadius = radius,
                       blurSize = radius * 2 + 1 \<rparr> i x y p, i))
                info2 (out1\<lparr>rowbytes := tr\<rparr>) out1),
           PrecomputeGaussianWeights radius g1)"
  by (simp add: secondPass_def copyToTemp_Some [OF assms] Let_def split_beta)

lemma secondPass_frame:
  assumes sp: "secondPass blurPass radius tr (out1, info2, g1) = Some (out2, g2)"
    and xy: "0 \<le> x" "x < width out1" "0 \<le> y" "y < height out1"
  shows "rows out2 y x
           = blurPass (PrecomputeGaussianWeights radius g1)
               \<lparr> tempWorld = out1\<lparr>rowbytes := tr\<rparr>, blurRadius = radius,
                 blurSize = radius * 2 + 1 \<rparr>
               info2 x y (rows out1 y x)"
proof -
  let ?gw = "PrecomputeGaussianWeights radius g1"
  let ?t = "out1\<lparr>rowbytes := tr\<rparr>"
  let ?c = "\<lparr> tempWorld = ?t, blurRadius = radius, blurSize = radius * 2 + 1 \<rparr>"
  let ?cb = "\<lambda>i x y p. (blurPass ?gw ?c i x y p, i)"
  have ok: "\<not> (0 < height out1 \<and> tr < rowbytes out1)"
    using sp secondPass_overrun [of out1 tr blurPass radius info2 g1] by auto
  have "out2 = fst (the (secondPass blurPass radius tr (out1, info2, g1)))"
    by (simp add: sp)
  then have o2: "out2 = fst (iterate ?cb info2 ?t out1)"
    unfolding secondPass_Some [OF ok] by simp
  have "rows (fst (iterate ?cb info2 ?t out1)) y x = blurPass ?gw ?c info2 x y (rows ?t y x)"
    by (rule iterate_frame(1) [where Inv = "\<lambda>s. s = info2" and lm = "\<lambda>s (i::int). ()"
          and V = "\<lambda>x y p. ()" and F = "\<lambda>x y p. blurPass ?gw ?c info2 x y p", OF _ _ _ _ xy])
       (simp_all add: fun_eq_iff)
  then show ?thesis unfolding o2 by simp
qed

lemma secondPass_geometry:
  assumes sp: "secondPass blurPass radius tr (out1, info2, g1) = Some (out2, g2)"
  shows "g2 = PrecomputeGaussianWeights radius g1"
    and "width out2 = width out1" and "height out2 = height out1"
proof -
  have ok: "\<not> (0 < height out1 \<and> tr < rowbytes out1)"
    using sp secondPass_overrun [of out1 tr blurPass radius info2 g1] by auto
  have "(out2, g2) = the (secondPass blurPass radius tr (out1, info2, g1))"
    by (simp add: sp)
  then have "out2 = fst (the (secondPass blurPass radius tr (out1, info2, g1)))"
    and "g2 = snd (the (secondPass blurPass radius tr (out1, info2, g1)))"
    by (metis fst_conv, metis snd_conv)
  then show "g2 = PrecomputeGaussianWeights radius g1"
    and "width out2 = width out1" and "height out2 = height out1"
    unfolding secondPass_Some [OF ok] by (simp_all add: iterate_geometry)
qed

lemma secondPass_unmasked_frame:
  assumes "secondPass blurPass radius tr (out1, info2, g1) = Some (out2, g2)"
    and "0 \<le> x" "x < width out1" "0 \<le> y" "y < height out1"
    and "GetMaskAt info2 x y = 0"
    and "\<And>g c p. blurPass g c info2 x y p = p"
  shows "rows out2 y x = rows out1 y x"
  using assms by (simp add: secondPass_frame)

lemma secondPass_unmasked_frame8:
  assumes "secondPass BlurPass8_Optimized radius tr (out1, info2, g1) = Some (out2, g2)"
    and "0 \<le> x" "x < width out1" "0 \<le> y" "y < height out1"
    and "GetMaskAt info2 x y = 0"
  shows "rows out2 y x = rows out1 y x"
  using assms
  by (simp add: secondPass_frame BlurPass8_Optimized_def blurFinish_unmasked)
section \<open>Frame orchestrator: blur radius and the guard of the blur pass\<close>

lemma effectiveBlurRadius_floor:
  "0 \<le> sampleBlur info \<Longrightarrow> effectiveBlurRadius info = \<lfloor>sampleBlur info / 10\<rfloor>"
  by (simp add: effectiveBlurRadius_def truncI_def)

lemma foldl_pair_invariant:
  assumes "\<And>d s a. a \<in> set xs \<Longrightarrow> P s \<Longrightarrow> P (snd (f (d, s) a))" and "P s0"
  shows "P (snd (foldl f (d0, s0) xs))"
  using assms
proof (induction xs arbitrary: d0 s0)
  case Nil then show ?case by simp
next
  case (Cons a xs)
  obtain d1 s1 where f: "f (d0, s0) a = (d1, s1)" by (cases "f (d0, s0) a")
  have "P s1" using Cons.prems(1) [of a s0 d0] Cons.prems(2) f by simp
  then have "P (snd (foldl f (d1, s1) xs))"
    by (intro Cons.IH) (use Cons.prems(1) in auto)
  then show ?case by (simp add: f)
qed

lemma iterate_state_invariant:
  assumes "\<And>s x y p. P s \<Longrightarrow> P (snd (callback s x y p))" and "P st0"
  shows "P (snd (iterate callback st0 src dst0))"
  unfolding iterate_def
  by (rule foldl_pair_invariant) (use assms in \<open>auto simp: iterateStep_def split_beta Let_def\<close>)

lemma FillAndMaskOf_sampleBlur:
  "sampleBlur (snd (FillAndMaskOf isTarget fill opaque zero ctx info x y p)) = sampleBlur info"
  by (simp add: FillAndMaskOf_def SetMaskAtFast_def Let_def)

lemma firstPass_sampleBlur:
  assumes "\<And>g ctx i x y p. sampleBlur (snd (fillAndMask g ctx i x y p)) = sampleBlur i"
  shows "effectiveBlurRadius (fst (snd (firstPass fillAndMask g0 infoP input_world output_world)))
           = effectiveBlurRadius infoP"
proof -
  let ?info1 = "infoP\<lparr> srcWorld := input_world, maskWidth := width output_world,
      maskHeight := height output_world, maskRowBytes := width output_world, lineMask := (\<lambda>_. 0) \<rparr>"
  have "sampleBlur (snd (iterate (fillAndMask g ctx) ?info1 input_world output_world))
          = sampleBlur infoP" for g ctx
    by (rule iterate_state_invariant [where P = "\<lambda>s. sampleBlur s = sampleBlur infoP"])
       (simp_all add: assms)
  then show ?thesis
    by (simp add: firstPass_def effectiveBlurRadius_def Let_def split_beta)
qed

lemma SmartRenderOf_skipped:
  assumes "\<And>g ctx i x y p. sampleBlur (snd (fillAndMask g ctx i x y p)) = sampleBlur i"
    and "pass1Succeeds host" and "\<not> 1 \<le> effectiveBlurRadius infoP"
  shows "blurPassSkipped (firstPass fillAndMask g0 infoP input_world output_world)
           (SmartRenderOf fillAndMask blurPass host g0 infoP input_world output_world)"
  using assms(2,3) firstPass_sampleBlur [of fillAndMask g0 infoP input_world output_world, OF assms(1)]
  by (simp add: SmartRenderOf_def blurPassSkipped_def pass1Succeeds_def split_beta Let_def)

lemma SmartRenderOf_blurred:
  assumes sb: "\<And>g ctx i x y p. sampleBlur (snd (fillAndMask g ctx i x y p)) = sampleBlur i"
    and p1: "pass1Succeeds host" and r: "1 \<le> effectiveBlurRadius infoP"
    and p2: "pass2Succeeds host output_world"
  shows "blurPassRan blurPass (effectiveBlurRadius infoP) host
           (firstPass fillAndMask g0 infoP input_world output_world) x y
           (SmartRenderOf fillAndMask blurPass host g0 infoP input_world output_world)"
proof -
  let ?fp = "firstPass fillAndMask g0 infoP input_world output_world"
  let ?r = "effectiveBlurRadius infoP"
  let ?tr = "newWorldRowbytes host"
  obtain out1 info2 g1 where fp: "?fp = (out1, info2, g1)" by (cases ?fp)
  have geo: "width out1 = width output_world" "height out1 = height output_world"
    "rowbytes out1 = rowbytes output_world"
    using firstPass_geometry [of fillAndMask g0 infoP input_world output_world] by (simp_all add: fp)
  have rad: "effectiveBlurRadius info2 = ?r"
    using firstPass_sampleBlur [of fillAndMask g0 infoP input_world output_world, OF sb]
    by (simp add: fp)
  have ok: "\<not> (0 < height out1 \<and> ?tr < rowbytes out1)"
    using p2 by (simp add: pass2Succeeds_def geo)
  obtain out2 g2 where sp: "secondPass blurPass ?r ?tr (out1, info2, g1) = Some (out2, g2)"
    using secondPass_Some [OF ok] by blast
  have res: "SmartRenderOf fillAndMask blurPass host g0 infoP input_world output_world
               = Rendered (out2, g2)"
    using p1 p2 r
    by (simp add: SmartRenderOf_def pass1Succeeds_def pass2Succeeds_def fp rad sp)
  have pix: "0 \<le> x \<and> x < width out1 \<and> 0 \<le> y \<and> y < height out1 \<longrightarrow>
      rows out2 y x = blurPass (PrecomputeGaussianWeights ?r g1)
         \<lparr> tempWorld = snapshotOf host out1, blurRadius = ?r, blurSize = ?r * 2 + 1 \<rparr>
         info2 x y (rows out1 y x)"
    unfolding snapshotOf_def using secondPass_frame [OF sp] by blast
  show ?thesis
    unfolding res blurPassRan_def fp
    using secondPass_geometry [OF sp] pix by simp
qed

lemma SmartRenderOf_overrun:
  assumes sb: "\<And>g ctx i x y p. sampleBlur (snd (fillAndMask g ctx i x y p)) = sampleBlur i"
    and p1: "pass1Succeeds host" and r: "1 \<le> effectiveBlurRadius infoP"
    and nw: "newWorldErr host = PF_Err_NONE"
    and ov: "0 < height output_world" "newWorldRowbytes host < rowbytes output_world"
  shows "SmartRenderOf fillAndMask blurPass host g0 infoP input_world output_world
           = TempWorldOverrun"
proof -
  let ?fp = "firstPass fillAndMask g0 infoP input_world output_world"
  obtain out1 info2 g1 where fp: "?fp = (out1, info2, g1)" by (cases ?fp)
  have geo: "height out1 = height output_world" "rowbytes out1 = rowbytes output_world"
    using firstPass_geometry [of fillAndMask g0 infoP input_world output_world] by (simp_all add: fp)
  have rad: "effectiveBlurRadius info2 = effectiveBlurRadius infoP"
    using firstPass_sampleBlur [of fillAndMask g0 infoP input_world output_world, OF sb]
    by (simp add: fp)
  have "secondPass blurPass (effectiveBlurRadius infoP) (newWorldRowbytes host) (out1, info2, g1)
          = None"
    by (rule secondPass_overrun) (simp_all add: geo ov)
  then show ?thesis
    using p1 r nw by (simp add: SmartRenderOf_def pass1Succeeds_def fp rad)
qed

text \<open>
  The two outcomes are different observations: pass 1 leaves the radius of the Gaussian
  cache alone, and the blur pass sets it, so a render on which the blur pass has run at a
  radius other than the cached one does not return the pass-1 result.
\<close>

lemma firstPass_cache_radius:
  "g_currentBlurRadius (snd (snd (firstPass fillAndMask g0 infoP input_world output_world)))
     = g_currentBlurRadius g0"
  by (simp add: firstPass_def Let_def split_beta InitProcessingContext_def
      PrecomputeInvDistWeights_def)

lemma blurPassRan_not_skipped:
  assumes "blurPassRan blurPass radius host p1 x y res"
    and "radius \<noteq> g_currentBlurRadius (snd (snd p1))" "radius \<le> MAX_WEIGHT_TABLE_RADIUS"
  shows "\<not> blurPassSkipped p1 res"
proof
  assume "blurPassSkipped p1 res"
  then have "res = Rendered (fst p1, snd (snd p1))" by (simp add: blurPassSkipped_def)
  with assms(1) have "snd (snd p1) = PrecomputeGaussianWeights radius (snd (snd p1))"
    by (simp add: blurPassRan_def)
  then have "g_currentBlurRadius (snd (snd p1))
      = g_currentBlurRadius (PrecomputeGaussianWeights radius (snd (snd p1)))" by simp
  also have "\<dots> = radius"
    using assms(2,3) by (simp add: PrecomputeGaussianWeights_def Let_def)
  finally show False using assms(2) by simp
qed

text \<open>
  Claim C6. For every value of the Sample Blur slider the effective blur radius is
  \<open>\<lfloor>sampleBlur / 10\<rfloor>\<close> (the cast truncates): 25 gives 2 and 9 gives 0. In a render that got
  through pass 1, in all three bit depths: when the radius is at least 1 and the host
  services of pass 2 succeed, the blur pass has run, that is, the Gaussian table of that
  radius is in the cache and every pixel of the returned frame is what the blur callback
  computes for it from the snapshot of the pass-1 frame; when the radius is below 1, the
  blur pass is skipped, that is, the render returns the pass-1 frame and cache.
\<close>

theorem blur_radius_and_pass_guard:
  "(sampleBlurInRange info \<longrightarrow> effectiveBlurRadius info = \<lfloor>sampleBlur info / 10\<rfloor>)
   \<and> effectiveBlurRadius (info\<lparr>sampleBlur := 25\<rparr>) = 2
   \<and> effectiveBlurRadius (info\<lparr>sampleBlur := 9\<rparr>) = 0
   \<and> (sampleBlurInRange info8 \<and> pass1Succeeds host \<longrightarrow>
        (if 1 \<le> effectiveBlurRadius info8
         then pass2Succeeds host out8 \<longrightarrow>
                blurPassRan BlurPass8_Optimized (effectiveBlurRadius info8) host
                  (firstPass FillAndMask8_Optimized g0 info8 in8 out8) x y
                  (SmartRender8 host g0 info8 in8 out8)
         else blurPassSkipped (firstPass FillAndMask8_Optimized g0 info8 in8 out8)
                (SmartRender8 host g0 info8 in8 out8)))
   \<and> (sampleBlurInRange info16 \<and> pass1Succeeds host \<longrightarrow>
        (if 1 \<le> effectiveBlurRadius info16
         then pass2Succeeds host out16 \<longrightarrow>
                blurPassRan BlurPass16_Optimized (effectiveBlurRadius info16) host
                  (firstPass FillAndMask16_Optimized g0 info16 in16 out16) x y
                  (SmartRender16 host g0 info16 in16 out16)
         else blurPassSkipped (firstPass FillAndMask16_Optimized g0 info16 in16 out16)
                (SmartRender16 host g0 info16 in16 out16)))
   \<and> (sampleBlurInRange infoF \<and> pass1Succeeds host \<longrightarrow>
        (if 1 \<le> effectiveBlurRadius infoF
         then pass2Succeeds host outF \<longrightarrow>
                blurPassRan BlurPassFloat_Optimized (effectiveBlurRadius infoF) host
                  (firstPass FillAndMaskFloat_Optimized g0 infoF inF outF) x y
                  (SmartRenderFloat host g0 infoF inF outF)
         else blurPassSkipped (firstPass FillAndMaskFloat_Optimized g0 infoF inF outF)
                (SmartRenderFloat host g0 infoF inF outF)))"
proof -
  have fl: "sampleBlurInRange info \<longrightarrow> effectiveBlurRadius info = \<lfloor>sampleBlur info / 10\<rfloor>"
    using effectiveBlurRadius_floor [of info]
    by (simp add: sampleBlurInRange_def SAMPLE_BLUR_MIN_def)
  have r: "effectiveBlurRadius (info\<lparr>sampleBlur := 25\<rparr>) = 2"
    "effectiveBlurRadius (info\<lparr>sampleBlur := 9\<rparr>) = 0"
    by (simp_all add: effectiveBlurRadius_def truncI_def)
  have sb: "sampleBlur (snd (FillAndMask8_Optimized g ctx i8 x y p8)) = sampleBlur i8"
    "sampleBlur (snd (FillAndMask16_Optimized g ctx i16 x y p16)) = sampleBlur i16"
    "sampleBlur (snd (FillAndMaskFloat_Optimized g ctx iF x y pF)) = sampleBlur iF"
    for g ctx x y i8 p8 i16 p16 iF pF
    by (simp_all add: FillAndMask8_Optimized_def FillAndMask16_Optimized_def
          FillAndMaskFloat_Optimized_def FillAndMaskOf_sampleBlur)
  have d8: "pass1Succeeds host \<longrightarrow>
        (if 1 \<le> effectiveBlurRadius info8
         then pass2Succeeds host out8 \<longrightarrow>
                blurPassRan BlurPass8_Optimized (effectiveBlurRadius info8) host
                  (firstPass FillAndMask8_Optimized g0 info8 in8 out8) x y
                  (SmartRender8 host g0 info8 in8 out8)
         else blurPassSkipped (firstPass FillAndMask8_Optimized g0 info8 in8 out8)
                (SmartRender8 host g0 info8 in8 out8))"
    unfolding SmartRender8_def
    using SmartRenderOf_blurred [of FillAndMask8_Optimized host info8 out8 BlurPass8_Optimized
        g0 in8 x y, OF sb(1)]
      SmartRenderOf_skipped [of FillAndMask8_Optimized host info8 g0 in8 out8
        BlurPass8_Optimized, OF sb(1)]
    by simp
  have d16: "pass1Succeeds host \<longrightarrow>
        (if 1 \<le> effectiveBlurRadius info16
         then pass2Succeeds host out16 \<longrightarrow>
                blurPassRan BlurPass16_Optimized (effectiveBlurRadius info16) host
                  (firstPass FillAndMask16_Optimized g0 info16 in16 out16) x y
                  (SmartRender16 host g0 info16 in16 out16)
         else blurPassSkipped (firstPass FillAndMask16_Optimized g0 info16 in16 out16)
                (SmartRender16 host g0 info16 in16 out16))"
    unfolding SmartRender16_def
    using SmartRenderOf_blurred [of FillAndMask16_Optimized host info16 out16 BlurPass16_Optimized
        g0 in16 x y, OF sb(2)]
      SmartRenderOf_skipped [of FillAndMask16_Optimized host info16 g0 in16 out16
        BlurPass16_Optimized, OF sb(2)]
    by simp
  have dF: "pass1Succeeds host \<longrightarrow>
        (if 1 \<le> effectiveBlurRadius infoF
         then pass2Succeeds host outF \<longrightarrow>
                blurPassRan BlurPassFloat_Optimized (effectiveBlurRadius infoF) host
                  (firstPass FillAndMaskFloat_Optimized g0 infoF inF outF) x y
                  (SmartRenderFloat host g0 infoF inF outF)
         else blurPassSkipped (firstPass FillAndMaskFloat_Optimized g0 infoF inF outF)
                (SmartRenderFloat host g0 infoF inF outF))"
    unfolding SmartRenderFloat_def
    using SmartRenderOf_blurred [of FillAndMaskFloat_Optimized host infoF outF
        BlurPassFloat_Optimized g0 inF x y, OF sb(3)]
      SmartRenderOf_skipped [of FillAndMaskFloat_Optimized host infoF g0 inF outF
        BlurPassFloat_Optimized, OF sb(3)]
    by simp
  show ?thesis
    using fl r d8 d16 dF by simp
qed

theorem blur_radius_and_pass_guard_witness:
  "sampleBlurInRange (exInfo8 2 1 0) \<and> pass1Succeeds exHost
   \<and> pass2Succeeds exHost (srcWorld (exInfo8 2 1 0))
   \<and> effectiveBlurRadius (exInfo8 2 1 0) = 2
   \<and> 2 < width (srcWorld (exInfo8 2 1 0)) \<and> 2 < height (srcWorld (exInfo8 2 1 0))
   \<and> blurPassRan BlurPass8_Optimized 2 exHost
        (firstPass FillAndMask8_Optimized initialGlobals (exInfo8 2 1 0)
           (srcWorld (exInfo8 2 1 0)) (srcWorld (exInfo8 2 1 0))) 2 2
        (SmartRender8 exHost initialGlobals (exInfo8 2 1 0) (srcWorld (exInfo8 2 1 0))
           (srcWorld (exInfo8 2 1 0)))
   \<and> sampleBlurInRange ((exInfo8 2 1 0)\<lparr>sampleBlur := 9\<rparr>)
   \<and> effectiveBlurRadius ((exInfo8 2 1 0)\<lparr>sampleBlur := 9\<rparr>) = 0
   \<and> blurPassSkipped
        (firstPass FillAndMask8_Optimized initialGlobals ((exInfo8 2 1 0)\<lparr>sampleBlur := 9\<rparr>)
           (srcWorld (exInfo8 2 1 0)) (srcWorld (exInfo8 2 1 0)))
        (SmartRender8 exHost initialGlobals ((exInfo8 2 1 0)\<lparr>sampleBlur := 9\<rparr>)
           (srcWorld (exInfo8 2 1 0)) (srcWorld (exInfo8 2 1 0)))"
proof -
  have h: "sampleBlurInRange (exInfo8 2 1 0)" "pass1Succeeds exHost"
    "pass2Succeeds exHost (srcWorld (exInfo8 2 1 0))"
    "sampleBlurInRange ((exInfo8 2 1 0)\<lparr>sampleBlur := 9\<rparr>)"
    "2 < width (srcWorld (exInfo8 2 1 0))" "2 < height (srcWorld (exInfo8 2 1 0))"
    by (simp_all add: sampleBlurInRange_def SAMPLE_BLUR_MIN_def SAMPLE_BLUR_MAX_def exInfo8_def
          exInfo_def exWorld_def pass1Succeeds_def pass2Succeeds_def exHost_def)
  have e: "effectiveBlurRadius (exInfo8 2 1 0) = 2"
    "effectiveBlurRadius ((exInfo8 2 1 0)\<lparr>sampleBlur := 9\<rparr>) = 0"
    by (simp_all add: effectiveBlurRadius_def truncI_def exInfo8_def exInfo_def)
  show ?thesis
    using blur_radius_and_pass_guard [of "exInfo8 2 1 0" "exInfo8 2 1 0" exHost
        "srcWorld (exInfo8 2 1 0)" initialGlobals "srcWorld (exInfo8 2 1 0)" 2 2]
      blur_radius_and_pass_guard [of "exInfo8 2 1 0" "(exInfo8 2 1 0)\<lparr>sampleBlur := 9\<rparr>" exHost
        "srcWorld (exInfo8 2 1 0)" initialGlobals "srcWorld (exInfo8 2 1 0)" 2 2]
    by (simp add: h e)
qed

end
